theory Spec2Isabelle
  imports Main "HOL-Library.Word" "HOL-Library.Char_ord" "HOL-Library.List_Lexorder"
    "HOL-Library.Sublist"
begin

section \<open>Python values, exceptions and the HTTP boundary\<close>

text \<open>
  The repository consists of two scripts, \<^verbatim>\<open>user_creation_adding_notebooks.py\<close> (bulk
  workspace migration) and \<^verbatim>\<open>multicloud_git.py\<close> (single-notebook sync). Both drive a
  remote workspace API through the \<^verbatim>\<open>requests\<close> library. The embedding makes the remote
  side a parameter: a \<open>server\<close> maps the calls made into \<^verbatim>\<open>requests\<close> so far and the next
  call to a reply, so a stateful remote system is covered. Every function of the scripts
  takes the list of calls made so far and returns it extended, together with either the
  Python exception that left the function (\<open>Inl\<close>) or its return value (\<open>Inr\<close>).

  What is recorded is the call \<^verbatim>\<open>requests.get\<close>, \<^verbatim>\<open>requests.post\<close> or \<^verbatim>\<open>requests.patch\<close>
  with its arguments. Whether the library puts a request on the wire is the library's
  matter: given a URL without a scheme (such as \<^verbatim>\<open>None/api/2.0/workspace/list\<close>, which the
  scripts build when a workspace URL is not set) it raises \<^verbatim>\<open>MissingSchema\<close>, a
  \<^verbatim>\<open>RequestException\<close>, before sending anything. Such a call is a recorded call that is
  answered by \<open>NoResponse\<close>.
\<close>

datatype error =
    RequestException
  | KeyError
  | TypeError
  | AttributeError
  | ValueError
  | BinasciiError
  | UnicodeDecodeError
  | UnicodeEncodeError
  | RecursionError
  | Unmodelled

text \<open>
  \<open>Unmodelled\<close> is not a Python exception: it ends a run at a point where the script would
  go on with a value that the embedding does not represent (a workspace path or a
  principal that is not a string, an object identifier that is a list or a dictionary).
  The requests recorded up to that point are those the script has issued.
\<close>

datatype json =
    JNull
  | JBool bool
  | JInt int
  | JStr string
  | JArr "json list"
  | JObj "(string \<times> json) list"

text \<open>
  The values \<^verbatim>\<open>response.json()\<close> can return. A dictionary is the list of its items in
  insertion order; JSON numbers are integers here. Python strings that the scripts only
  copy, compare or format are \<open>string\<close>; notebook text, which the scripts encode to and
  decode from UTF-8, is the list of its code points.
\<close>

type_synonym unicode = "nat list"
type_synonym byte = "8 word"

fun truthy :: "json \<Rightarrow> bool" where
  "truthy JNull = False"
| "truthy (JBool b) = b"
| "truthy (JInt i) = (i \<noteq> 0)"
| "truthy (JStr s) = (s \<noteq> [])"
| "truthy (JArr xs) = (xs \<noteq> [])"
| "truthy (JObj kvs) = (kvs \<noteq> [])"

definition then_do :: "error + 'a \<Rightarrow> ('a \<Rightarrow> error + 'b) \<Rightarrow> error + 'b" where
  "then_do r f = (case r of Inl e \<Rightarrow> Inl e | Inr x \<Rightarrow> f x)"

definition except_RequestException :: "error + 'a \<Rightarrow> error + 'a \<Rightarrow> error + 'a" where
  "except_RequestException body handler =
     (case body of Inl RequestException \<Rightarrow> handler | _ \<Rightarrow> body)"

definition py_get :: "json \<Rightarrow> string \<Rightarrow> json \<Rightarrow> error + json" where
  \<comment> \<open>\<^verbatim>\<open>d.get(key, default)\<close>; only a dict has it.\<close>
  "py_get d key dflt =
     (case d of
        JObj kvs \<Rightarrow> Inr (case map_of kvs key of Some v \<Rightarrow> v | None \<Rightarrow> dflt)
      | _ \<Rightarrow> Inl AttributeError)"

definition py_getitem :: "json \<Rightarrow> string \<Rightarrow> error + json" where
  \<comment> \<open>\<^verbatim>\<open>d[key]\<close> with a string key.\<close>
  "py_getitem d key =
     (case d of
        JObj kvs \<Rightarrow> (case map_of kvs key of Some v \<Rightarrow> Inr v | None \<Rightarrow> Inl KeyError)
      | _ \<Rightarrow> Inl TypeError)"

definition py_pop :: "json \<Rightarrow> string \<Rightarrow> error + json" where
  \<comment> \<open>\<^verbatim>\<open>d.pop(key, None)\<close>, returning the dictionary after the removal.\<close>
  "py_pop d key =
     (case d of
        JObj kvs \<Rightarrow> Inr (JObj (filter (\<lambda>kv. fst kv \<noteq> key) kvs))
      | JArr _ \<Rightarrow> Inl TypeError
      | _ \<Rightarrow> Inl AttributeError)"

definition py_iter :: "json \<Rightarrow> error + json list" where
  \<comment> \<open>The items a \<^verbatim>\<open>for\<close> loop visits.\<close>
  "py_iter v =
     (case v of
        JArr xs \<Rightarrow> Inr xs
      | JObj kvs \<Rightarrow> Inr (map (\<lambda>kv. JStr (fst kv)) kvs)
      | JStr s \<Rightarrow> Inr (map (\<lambda>c. JStr [c]) s)
      | _ \<Rightarrow> Inl TypeError)"

definition py_len :: "json \<Rightarrow> error + nat" where
  "py_len v =
     (case v of
        JArr xs \<Rightarrow> Inr (length xs)
      | JObj kvs \<Rightarrow> Inr (length kvs)
      | JStr s \<Rightarrow> Inr (length s)
      | _ \<Rightarrow> Inl TypeError)"

definition hashable :: "json \<Rightarrow> bool" where
  "hashable v = (case v of JArr _ \<Rightarrow> False | JObj _ \<Rightarrow> False | _ \<Rightarrow> True)"

fun dict_set :: "string \<Rightarrow> 'v \<Rightarrow> (string \<times> 'v) list \<Rightarrow> (string \<times> 'v) list" where
  \<comment> \<open>\<^verbatim>\<open>d[key] = value\<close>: an existing key keeps its position.\<close>
  "dict_set k v [] = [(k, v)]"
| "dict_set k v (p # ps) = (if fst p = k then (k, v) # ps else p # dict_set k v ps)"

definition fmt :: "string option \<Rightarrow> string" where
  \<comment> \<open>An f-string field holding the result of \<^verbatim>\<open>os.getenv\<close>.\<close>
  "fmt v = (case v of None \<Rightarrow> ''None'' | Some s \<Rightarrow> s)"

fun string_of_nat :: "nat \<Rightarrow> string" where
  "string_of_nat n =
     (if n < 10 then [''0123456789'' ! n]
      else string_of_nat (n div 10) @ [''0123456789'' ! (n mod 10)])"

definition py_str :: "json \<Rightarrow> error + string" where
  \<comment> \<open>An f-string field holding a JSON value.\<close>
  "py_str v =
     (case v of
        JNull \<Rightarrow> Inr ''None''
      | JBool b \<Rightarrow> Inr (if b then ''True'' else ''False'')
      | JInt i \<Rightarrow> Inr (if i < 0 then CHR ''-'' # string_of_nat (nat (- i)) else string_of_nat (nat i))
      | JStr s \<Rightarrow> Inr s
      | _ \<Rightarrow> Inl Unmodelled)"

subsection \<open>Requests and replies\<close>

datatype verb = GET | POST | PATCH

record request =
  meth :: verb
  rq_url :: string
  headers :: "(string \<times> string) list"
  params :: "(string \<times> string) list"
  body :: "json option"

datatype payload = NotJson | Json json

datatype reply = NoResponse | Response nat payload

text \<open>
  \<open>NoResponse\<close>: the call into \<^verbatim>\<open>requests\<close> raised a \<^verbatim>\<open>RequestException\<close> (connection
  error, timeout, invalid URL) instead of returning. \<open>Response status payload\<close>: it
  returned a response with that status code, whose body parses as JSON or does not.
\<close>

type_synonym server = "request list \<Rightarrow> request \<Rightarrow> reply"
type_synonym trace = "request list"

definition send :: "server \<Rightarrow> request \<Rightarrow> trace \<Rightarrow> reply \<times> trace" where
  "send srv rq tr = (srv tr rq, tr @ [rq])"

definition requests_response :: "reply \<Rightarrow> error + nat \<times> payload" where
  "requests_response r =
     (case r of NoResponse \<Rightarrow> Inl RequestException | Response status p \<Rightarrow> Inr (status, p))"

definition raise_for_status :: "nat \<times> payload \<Rightarrow> error + unit" where
  \<comment> \<open>\<^verbatim>\<open>HTTPError\<close>, a \<^verbatim>\<open>RequestException\<close>, for the 4xx and 5xx status codes.\<close>
  "raise_for_status response =
     (if 400 \<le> fst response \<and> fst response < 600 then Inl RequestException else Inr ())"

definition response_json :: "nat \<times> payload \<Rightarrow> error + json" where
  \<comment> \<open>\<^verbatim>\<open>requests.exceptions.JSONDecodeError\<close> (requests 2.27 and later) is a
      \<^verbatim>\<open>RequestException\<close>.\<close>
  "response_json response =
     (case snd response of NotJson \<Rightarrow> Inl RequestException | Json j \<Rightarrow> Inr j)"

subsection \<open>Base64 and UTF-8, as the standard library computes them\<close>

text \<open>
  \<^verbatim>\<open>base64.b64encode\<close> is \<^verbatim>\<open>binascii.b2a_base64\<close> without the trailing newline;
  \<^verbatim>\<open>base64.b64decode\<close> with its default arguments turns a string into ASCII bytes
  (\<^verbatim>\<open>ValueError\<close> for a non-ASCII character, \<^verbatim>\<open>TypeError\<close> for a value that is neither a
  string nor bytes) and calls \<^verbatim>\<open>binascii.a2b_base64\<close> in its non-strict mode: characters
  outside the alphabet are skipped, padding ends the input once a quad is complete, and
  an incomplete quad at the end raises \<^verbatim>\<open>binascii.Error\<close>.
\<close>

definition table_b2a_base64 :: string where
  "table_b2a_base64 = ''ABCDEFGHIJKLMNOPQRSTUVWXYZabcdefghijklmnopqrstuvwxyz0123456789+/''"

definition b2a :: "nat \<Rightarrow> char" where
  "b2a n = table_b2a_base64 ! n"

fun index_of :: "'a \<Rightarrow> 'a list \<Rightarrow> nat option" where
  "index_of x [] = None"
| "index_of x (y # ys) = (if x = y then Some 0 else map_option Suc (index_of x ys))"

definition a2b :: "char \<Rightarrow> nat option" where
  "a2b c = index_of c table_b2a_base64"

fun b2a_base64 :: "byte list \<Rightarrow> string" where
  "b2a_base64 [] = []"
| "b2a_base64 [a] =
     [b2a (unat a div 4), b2a (unat a mod 4 * 16), CHR ''='', CHR ''='']"
| "b2a_base64 [a, b] =
     [b2a (unat a div 4), b2a (unat a mod 4 * 16 + unat b div 16),
      b2a (unat b mod 16 * 4), CHR ''='']"
| "b2a_base64 (a # b # c # bs) =
     [b2a (unat a div 4), b2a (unat a mod 4 * 16 + unat b div 16),
      b2a (unat b mod 16 * 4 + unat c div 64), b2a (unat c mod 64)] @ b2a_base64 bs"

fun a2b_loop :: "string \<Rightarrow> nat \<Rightarrow> nat \<Rightarrow> nat \<Rightarrow> byte list \<Rightarrow> error + byte list" where
  "a2b_loop [] quad_pos leftchar pads out =
     (if quad_pos \<noteq> 0 then Inl BinasciiError else Inr out)"
| "a2b_loop (c # cs) quad_pos leftchar pads out =
     (if c = CHR ''='' then
        (if quad_pos \<ge> 2 \<and> quad_pos + (pads + 1) \<ge> 4 then Inr out
         else a2b_loop cs quad_pos leftchar (if quad_pos \<ge> 2 then pads + 1 else pads) out)
      else
        (case a2b c of
           None \<Rightarrow> a2b_loop cs quad_pos leftchar pads out
         | Some this_ch \<Rightarrow>
             (if quad_pos = 0 then a2b_loop cs 1 this_ch 0 out
              else if quad_pos = 1 then
                a2b_loop cs 2 (this_ch mod 16) 0 (out @ [of_nat (leftchar * 4 + this_ch div 16)])
              else if quad_pos = 2 then
                a2b_loop cs 3 (this_ch mod 4) 0 (out @ [of_nat (leftchar * 16 + this_ch div 4)])
              else
                a2b_loop cs 0 0 0 (out @ [of_nat (leftchar * 64 + this_ch)]))))"

definition a2b_base64 :: "string \<Rightarrow> error + byte list" where
  "a2b_base64 s = a2b_loop s 0 0 0 []"

definition b64decode :: "json \<Rightarrow> error + byte list" where
  "b64decode v =
     (case v of
        JStr s \<Rightarrow> if \<forall>c \<in> set s. of_char c < (128::nat) then a2b_base64 s else Inl ValueError
      | _ \<Rightarrow> Inl TypeError)"

text \<open>
  \<^verbatim>\<open>str.encode('utf-8')\<close> and \<^verbatim>\<open>bytes.decode('utf-8')\<close> with the default strict error
  handler: a surrogate code point does not encode, and only well-formed sequences
  (shortest form, no surrogates, at most U+10FFFF) decode.
\<close>

definition utf8_encode_char :: "nat \<Rightarrow> error + byte list" where
  "utf8_encode_char cp =
     (if cp < 0x80 then Inr [of_nat cp]
      else if cp < 0x800 then Inr [of_nat (0xC0 + cp div 64), of_nat (0x80 + cp mod 64)]
      else if 0xD800 \<le> cp \<and> cp \<le> 0xDFFF then Inl UnicodeEncodeError
      else if cp < 0x10000 then
        Inr [of_nat (0xE0 + cp div 4096), of_nat (0x80 + cp div 64 mod 64),
             of_nat (0x80 + cp mod 64)]
      else if cp < 0x110000 then
        Inr [of_nat (0xF0 + cp div 262144), of_nat (0x80 + cp div 4096 mod 64),
             of_nat (0x80 + cp div 64 mod 64), of_nat (0x80 + cp mod 64)]
      else Inl UnicodeEncodeError)"

fun utf8_encode :: "unicode \<Rightarrow> error + byte list" where
  "utf8_encode [] = Inr []"
| "utf8_encode (cp # cps) =
     (case utf8_encode_char cp of
        Inl e \<Rightarrow> Inl e
      | Inr bs \<Rightarrow> (case utf8_encode cps of Inl e \<Rightarrow> Inl e | Inr rest \<Rightarrow> Inr (bs @ rest)))"

definition continuation :: "byte \<Rightarrow> bool" where
  "continuation b = (0x80 \<le> unat b \<and> unat b \<le> 0xBF)"

fun utf8_decode :: "byte list \<Rightarrow> error + unicode" where
  "utf8_decode [] = Inr []"
| "utf8_decode (b0 # bs) =
     (if unat b0 < 0x80 then
        (case utf8_decode bs of Inl e \<Rightarrow> Inl e | Inr cps \<Rightarrow> Inr (unat b0 # cps))
      else if 0xC2 \<le> unat b0 \<and> unat b0 \<le> 0xDF then
        (case bs of
           b1 # r \<Rightarrow>
             if continuation b1 then
               (case utf8_decode r of Inl e \<Rightarrow> Inl e
                | Inr cps \<Rightarrow> Inr (((unat b0 - 0xC0) * 64 + (unat b1 - 0x80)) # cps))
             else Inl UnicodeDecodeError
         | _ \<Rightarrow> Inl UnicodeDecodeError)
      else if 0xE0 \<le> unat b0 \<and> unat b0 \<le> 0xEF then
        (case bs of
           b1 # b2 # r \<Rightarrow>
             if continuation b1 \<and> continuation b2
                \<and> (unat b0 = 0xE0 \<longrightarrow> 0xA0 \<le> unat b1)
                \<and> (unat b0 = 0xED \<longrightarrow> unat b1 \<le> 0x9F) then
               (case utf8_decode r of Inl e \<Rightarrow> Inl e
                | Inr cps \<Rightarrow>
                    Inr (((unat b0 - 0xE0) * 4096 + (unat b1 - 0x80) * 64 + (unat b2 - 0x80)) # cps))
             else Inl UnicodeDecodeError
         | _ \<Rightarrow> Inl UnicodeDecodeError)
      else if 0xF0 \<le> unat b0 \<and> unat b0 \<le> 0xF4 then
        (case bs of
           b1 # b2 # b3 # r \<Rightarrow>
             if continuation b1 \<and> continuation b2 \<and> continuation b3
                \<and> (unat b0 = 0xF0 \<longrightarrow> 0x90 \<le> unat b1)
                \<and> (unat b0 = 0xF4 \<longrightarrow> unat b1 \<le> 0x8F) then
               (case utf8_decode r of Inl e \<Rightarrow> Inl e
                | Inr cps \<Rightarrow>
                    Inr (((unat b0 - 0xF0) * 262144 + (unat b1 - 0x80) * 4096
                          + (unat b2 - 0x80) * 64 + (unat b3 - 0x80)) # cps))
             else Inl UnicodeDecodeError
         | _ \<Rightarrow> Inl UnicodeDecodeError)
      else Inl UnicodeDecodeError)"

definition scalar_value :: "nat \<Rightarrow> bool" where
  \<comment> \<open>A code point that is not a surrogate: the characters of well-formed text.\<close>
  "scalar_value cp = (cp < 0x110000 \<and> \<not> (0xD800 \<le> cp \<and> cp \<le> 0xDFFF))"

definition decode_cons :: "nat \<Rightarrow> error + unicode \<Rightarrow> error + unicode" where
  "decode_cons cp r = (case r of Inl e \<Rightarrow> Inl e | Inr cps \<Rightarrow> Inr (cp # cps))"

definition b64encode_text :: "unicode \<Rightarrow> error + string" where
  \<comment> \<open>\<^verbatim>\<open>base64.b64encode(content.encode('utf-8')).decode('utf-8')\<close>\<close>
  "b64encode_text content = then_do (utf8_encode content) (\<lambda>raw. Inr (b2a_base64 raw))"

definition b64decode_text :: "json \<Rightarrow> error + unicode" where
  \<comment> \<open>\<^verbatim>\<open>base64.b64decode(content).decode("utf-8")\<close>\<close>
  "b64decode_text content = then_do (b64decode content) utf8_decode"

section \<open>Configuration, shared by both scripts\<close>

type_synonym environ = "string \<Rightarrow> string option"

record config =
  cfg_url :: "string option"
  cfg_token :: "string option"

text \<open>
  \<open>environ\<close> is \<^verbatim>\<open>os.getenv\<close> after \<^verbatim>\<open>load_dotenv()\<close>. A configuration is the dictionary
  \<^verbatim>\<open>{"url": ..., "token": ...}\<close>; it always has its two keys, so it is truthy whatever
  their values, and \<^verbatim>\<open>not config\<close> holds exactly when the lookup returned \<^verbatim>\<open>None\<close>.

  Both scripts look a name up under \<^verbatim>\<open>name.upper()\<close>. Python's \<^verbatim>\<open>str.upper\<close> follows the
  Unicode case mappings (it sends \<^verbatim>\<open>U+017F\<close> to \<^verbatim>\<open>S\<close> and \<^verbatim>\<open>U+FB06\<close> to \<^verbatim>\<open>ST\<close>, for
  instance); it is a library function that the embedding does not define. It is the
  parameter \<open>str_upper\<close> of the lookups and of the two orchestrators, and every theorem
  about them holds for every function in its place.
\<close>

definition get_headers :: "string option \<Rightarrow> (string \<times> string) list" where
  "get_headers token =
     [(''Authorization'', ''Bearer '' @ fmt token), (''Content-Type'', ''application/json'')]"

section \<open>\<^verbatim>\<open>user_creation_adding_notebooks.py\<close>: bulk workspace migration\<close>

definition WORKSPACE_CONFIG :: "environ \<Rightarrow> (string \<times> config) list" where
  "WORKSPACE_CONFIG env =
     [(''STAGING'', \<lparr>cfg_url = env ''STAGING_WORKSPACE_URL'',
                     cfg_token = env ''STAGING_ACCESS_TOKEN''\<rparr>),
      (''PREPROD'', \<lparr>cfg_url = env ''PREPROD_WORKSPACE_URL'',
                     cfg_token = env ''PREPROD_ACCESS_TOKEN''\<rparr>)]"

definition get_workspace_config ::
    "(string \<Rightarrow> string) \<Rightarrow> environ \<Rightarrow> string \<Rightarrow> config option" where
  "get_workspace_config str_upper env workspace_name =
     map_of (WORKSPACE_CONFIG env) (str_upper workspace_name)"

definition users_get_request :: "string option \<Rightarrow> string option \<Rightarrow> request" where
  "users_get_request workspace_url access_token =
     \<lparr>meth = GET, rq_url = fmt workspace_url @ ''/api/2.0/preview/scim/v2/Users'',
      headers = get_headers access_token, params = [], body = None\<rparr>"

definition get_users :: "server \<Rightarrow> string option \<Rightarrow> string option \<Rightarrow> trace \<Rightarrow> (error + json) \<times> trace" where
  "get_users srv workspace_url access_token tr =
     (let (reply, tr') = send srv (users_get_request workspace_url access_token) tr in
      (except_RequestException
         (then_do (requests_response reply) (\<lambda>response.
          then_do (raise_for_status response) (\<lambda>_.
          then_do (response_json response) (\<lambda>j.
          then_do (py_get j ''Resources'' (JArr [])) (\<lambda>users.
          then_do (py_len users) (\<lambda>_. Inr users))))))
         (Inr (JArr [])),
       tr'))"

definition users_post_request :: "string option \<Rightarrow> string option \<Rightarrow> json \<Rightarrow> request" where
  "users_post_request workspace_url access_token user =
     \<lparr>meth = POST, rq_url = fmt workspace_url @ ''/api/2.0/preview/scim/v2/Users'',
      headers = get_headers access_token, params = [], body = Some user\<rparr>"

definition create_user :: "server \<Rightarrow> string option \<Rightarrow> string option \<Rightarrow> json \<Rightarrow> trace \<Rightarrow> (error + bool) \<times> trace" where
  \<comment> \<open>Both the success message and the handler's message read \<^verbatim>\<open>user['userName']\<close>.\<close>
  "create_user srv workspace_url access_token user tr =
     (let (reply, tr') = send srv (users_post_request workspace_url access_token user) tr in
      (except_RequestException
         (then_do (requests_response reply) (\<lambda>response.
          then_do (raise_for_status response) (\<lambda>_.
          then_do (py_getitem user ''userName'') (\<lambda>_. Inr True))))
         (then_do (py_getitem user ''userName'') (\<lambda>_. Inr False)),
       tr'))"

definition list_request :: "string option \<Rightarrow> string option \<Rightarrow> string \<Rightarrow> request" where
  "list_request workspace_url access_token path =
     \<lparr>meth = GET, rq_url = fmt workspace_url @ ''/api/2.0/workspace/list'',
      headers = get_headers access_token, params = [(''path'', path)], body = None\<rparr>"

text \<open>
  \<^verbatim>\<open>list_notebooks\<close> calls itself for every directory it is told of, so a remote side
  that keeps answering with directories drives it to Python's recursion limit.
  \<open>depth\<close> is the number of nested calls still allowed; a deeper call raises
  \<^verbatim>\<open>RecursionError\<close>, which no handler of the script catches. \<open>list_objects\<close> is the
  \<^verbatim>\<open>for obj in objects\<close> loop, with the two accumulators \<^verbatim>\<open>notebooks\<close> and
  \<^verbatim>\<open>directories\<close>.
\<close>

function list_notebooks ::
    "server \<Rightarrow> nat \<Rightarrow> string option \<Rightarrow> string option \<Rightarrow> string \<Rightarrow> trace
      \<Rightarrow> (error + string list \<times> string set) \<times> trace"
  and list_objects ::
    "server \<Rightarrow> nat \<Rightarrow> string option \<Rightarrow> string option \<Rightarrow> json list \<Rightarrow> string list \<Rightarrow> string set
      \<Rightarrow> trace \<Rightarrow> (error + string list \<times> string set) \<times> trace"
where
  "list_notebooks srv 0 workspace_url access_token path tr = (Inl RecursionError, tr)"
| "list_notebooks srv (Suc depth) workspace_url access_token path tr =
     (let (reply, tr') = send srv (list_request workspace_url access_token path) tr in
      (case then_do (requests_response reply) (\<lambda>response.
            then_do (raise_for_status response) (\<lambda>_.
            then_do (response_json response) (\<lambda>j.
            then_do (py_get j ''objects'' (JArr [])) py_iter))) of
         Inl RequestException \<Rightarrow> (Inr ([], {}), tr')
       | Inl e \<Rightarrow> (Inl e, tr')
       | Inr objects \<Rightarrow>
           (case list_objects srv depth workspace_url access_token objects [] {} tr' of
              (Inl RequestException, tr'') \<Rightarrow> (Inr ([], {}), tr'')
            | result \<Rightarrow> result)))"
| "list_objects srv depth workspace_url access_token [] notebooks directories tr =
     (Inr (notebooks, directories), tr)"
| "list_objects srv depth workspace_url access_token (obj # objects) notebooks directories tr =
     (case py_getitem obj ''object_type'' of
        Inl e \<Rightarrow> (Inl e, tr)
      | Inr object_type \<Rightarrow>
          if object_type = JStr ''NOTEBOOK'' then
            (case py_getitem obj ''path'' of
               Inl e \<Rightarrow> (Inl e, tr)
             | Inr (JStr path) \<Rightarrow>
                 list_objects srv depth workspace_url access_token objects
                   (notebooks @ [path]) directories tr
             | Inr _ \<Rightarrow> (Inl Unmodelled, tr))
          else if object_type = JStr ''DIRECTORY'' then
            (case py_getitem obj ''path'' of
               Inl e \<Rightarrow> (Inl e, tr)
             | Inr (JStr path) \<Rightarrow>
                 (case list_notebooks srv depth workspace_url access_token path tr of
                    (Inl e, tr') \<Rightarrow> (Inl e, tr')
                  | (Inr (sub_notebooks, sub_dirs), tr') \<Rightarrow>
                      list_objects srv depth workspace_url access_token objects
                        (notebooks @ sub_notebooks) (insert path directories \<union> sub_dirs) tr')
             | Inr (JArr _) \<Rightarrow> (Inl TypeError, tr)
             | Inr (JObj _) \<Rightarrow> (Inl TypeError, tr)
             | Inr _ \<Rightarrow> (Inl Unmodelled, tr))
          else list_objects srv depth workspace_url access_token objects notebooks directories tr)"
  by pat_completeness auto
termination
  by (relation "inv_image (less_than <*lex*> less_than <*lex*> less_than)
        (\<lambda>x. case x of
           Inl (srv, depth, u, t, path, tr) \<Rightarrow> (depth, 0::nat, 0::nat)
         | Inr (srv, depth, u, t, objects, ns, ds, tr) \<Rightarrow> (depth, 1, length objects))")
     auto

definition export_request :: "string option \<Rightarrow> string option \<Rightarrow> string \<Rightarrow> request" where
  "export_request workspace_url access_token notebook_path =
     \<lparr>meth = GET, rq_url = fmt workspace_url @ ''/api/2.0/workspace/export'',
      headers = get_headers access_token,
      params = [(''path'', notebook_path), (''format'', ''SOURCE'')], body = None\<rparr>"

definition export_notebook ::
    "server \<Rightarrow> string option \<Rightarrow> string option \<Rightarrow> string \<Rightarrow> trace \<Rightarrow> (error + unicode option) \<times> trace" where
  "export_notebook srv workspace_url access_token notebook_path tr =
     (let (reply, tr') = send srv (export_request workspace_url access_token notebook_path) tr in
      (except_RequestException
         (then_do (requests_response reply) (\<lambda>response.
          then_do (raise_for_status response) (\<lambda>_.
          then_do (response_json response) (\<lambda>j.
          then_do (py_get j ''content'' (JStr [])) (\<lambda>content.
          then_do (b64decode_text content) (\<lambda>decoded. Inr (Some decoded)))))))
         (Inr None),
       tr'))"

definition mkdirs_request :: "string option \<Rightarrow> string option \<Rightarrow> string \<Rightarrow> request" where
  "mkdirs_request workspace_url access_token directory_path =
     \<lparr>meth = POST, rq_url = fmt workspace_url @ ''/api/2.0/workspace/mkdirs'',
      headers = get_headers access_token, params = [],
      body = Some (JObj [(''path'', JStr directory_path)])\<rparr>"

definition create_directory ::
    "server \<Rightarrow> string option \<Rightarrow> string option \<Rightarrow> string \<Rightarrow> trace \<Rightarrow> (error + unit) \<times> trace" where
  "create_directory srv workspace_url access_token directory_path tr =
     (let (reply, tr') = send srv (mkdirs_request workspace_url access_token directory_path) tr in
      (except_RequestException
         (then_do (requests_response reply) (\<lambda>response.
          then_do (raise_for_status response) (\<lambda>_. Inr ())))
         (Inr ()),
       tr'))"

definition import_request :: "string option \<Rightarrow> string option \<Rightarrow> string \<Rightarrow> string \<Rightarrow> request" where
  "import_request workspace_url access_token notebook_path content_encoded =
     \<lparr>meth = POST, rq_url = fmt workspace_url @ ''/api/2.0/workspace/import'',
      headers = get_headers access_token, params = [],
      body = Some (JObj [(''path'', JStr notebook_path), (''format'', JStr ''SOURCE''),
                         (''content'', JStr content_encoded), (''overwrite'', JBool True),
                         (''language'', JStr ''PYTHON'')])\<rparr>"

definition import_notebook ::
    "server \<Rightarrow> string option \<Rightarrow> string option \<Rightarrow> string \<Rightarrow> unicode \<Rightarrow> trace \<Rightarrow> (error + bool) \<times> trace" where
  \<comment> \<open>The content is encoded before the \<^verbatim>\<open>try\<close> block is entered.\<close>
  "import_notebook srv workspace_url access_token notebook_path content tr =
     (case b64encode_text content of
        Inl e \<Rightarrow> (Inl e, tr)
      | Inr content_encoded \<Rightarrow>
          (let (reply, tr') =
                 send srv (import_request workspace_url access_token notebook_path content_encoded) tr in
           (except_RequestException
              (then_do (requests_response reply) (\<lambda>response.
               then_do (raise_for_status response) (\<lambda>_. Inr True)))
              (Inr False),
            tr')))"

fun create_users :: "server \<Rightarrow> config \<Rightarrow> json list \<Rightarrow> trace \<Rightarrow> (error + unit) \<times> trace" where
  \<comment> \<open>The \<^verbatim>\<open>for user in users\<close> loop; \<^verbatim>\<open>user_name_map\<close> is written and never read.\<close>
  "create_users srv target_config [] tr = (Inr (), tr)"
| "create_users srv target_config (user # users) tr =
     (case py_pop user ''id'' of
        Inl e \<Rightarrow> (Inl e, tr)
      | Inr user' \<Rightarrow>
          (case create_user srv (cfg_url target_config) (cfg_token target_config) user' tr of
             (Inl e, tr') \<Rightarrow> (Inl e, tr')
           | (Inr created, tr') \<Rightarrow>
               if created then
                 (case py_getitem user' ''userName'' of
                    Inl e \<Rightarrow> (Inl e, tr')
                  | Inr name \<Rightarrow>
                      if hashable name then create_users srv target_config users tr'
                      else (Inl TypeError, tr'))
               else create_users srv target_config users tr'))"

fun create_directories :: "server \<Rightarrow> config \<Rightarrow> string list \<Rightarrow> trace \<Rightarrow> (error + unit) \<times> trace" where
  \<comment> \<open>The \<^verbatim>\<open>for directory in sorted(directory_paths)\<close> loop.\<close>
  "create_directories srv target_config [] tr = (Inr (), tr)"
| "create_directories srv target_config (directory # directories) tr =
     (case create_directory srv (cfg_url target_config) (cfg_token target_config) directory tr of
        (Inl e, tr') \<Rightarrow> (Inl e, tr')
      | (Inr _, tr') \<Rightarrow> create_directories srv target_config directories tr')"

fun transfer_notebooks ::
    "server \<Rightarrow> config \<Rightarrow> config \<Rightarrow> string list \<Rightarrow> trace \<Rightarrow> (error + unit) \<times> trace" where
  \<comment> \<open>The \<^verbatim>\<open>for notebook_path in notebook_paths\<close> loop.\<close>
  "transfer_notebooks srv source_config target_config [] tr = (Inr (), tr)"
| "transfer_notebooks srv source_config target_config (notebook_path # notebook_paths) tr =
     (case export_notebook srv (cfg_url source_config) (cfg_token source_config) notebook_path tr of
        (Inl e, tr') \<Rightarrow> (Inl e, tr')
      | (Inr notebook_content, tr') \<Rightarrow>
          if notebook_content = None \<or> notebook_content = Some [] then
            transfer_notebooks srv source_config target_config notebook_paths tr'
          else
            (case import_notebook srv (cfg_url target_config) (cfg_token target_config)
                    notebook_path (the notebook_content) tr' of
               (Inl e, tr'') \<Rightarrow> (Inl e, tr'')
             | (Inr _, tr'') \<Rightarrow>
                 transfer_notebooks srv source_config target_config notebook_paths tr''))"

definition transfer_users_and_notebooks ::
    "(string \<Rightarrow> string) \<Rightarrow> environ \<Rightarrow> server \<Rightarrow> nat \<Rightarrow> string \<Rightarrow> string \<Rightarrow> trace
      \<Rightarrow> (error + unit) \<times> trace" where
  "transfer_users_and_notebooks str_upper env srv depth source_workspace target_workspace tr =
     (case (get_workspace_config str_upper env source_workspace,
            get_workspace_config str_upper env target_workspace) of
        (None, _) \<Rightarrow> (Inr (), tr)
      | (_, None) \<Rightarrow> (Inr (), tr)
      | (Some source_config, Some target_config) \<Rightarrow>
          (case get_users srv (cfg_url source_config) (cfg_token source_config) tr of
             (Inl e, tr1) \<Rightarrow> (Inl e, tr1)
           | (Inr users, tr1) \<Rightarrow>
               (case py_iter users of
                  Inl e \<Rightarrow> (Inl e, tr1)
                | Inr user_list \<Rightarrow>
                    (case create_users srv target_config user_list tr1 of
                       (Inl e, tr2) \<Rightarrow> (Inl e, tr2)
                     | (Inr _, tr2) \<Rightarrow>
                         (case list_notebooks srv depth (cfg_url source_config)
                                 (cfg_token source_config) ''/'' tr2 of
                            (Inl e, tr3) \<Rightarrow> (Inl e, tr3)
                          | (Inr (notebook_paths, directory_paths), tr3) \<Rightarrow>
                              (case create_directories srv target_config
                                      (sorted_list_of_set directory_paths) tr3 of
                                 (Inl e, tr4) \<Rightarrow> (Inl e, tr4)
                               | (Inr _, tr4) \<Rightarrow>
                                   transfer_notebooks srv source_config target_config
                                     notebook_paths tr4))))))"

section \<open>\<^verbatim>\<open>multicloud_git.py\<close>: single-notebook sync\<close>

text \<open>
  The second script has its own configuration table, its own \<^verbatim>\<open>get_workspace_config\<close> and
  its own \<^verbatim>\<open>import_notebook\<close>; the suffix \<open>_mc\<close> tells them from those of the first.
\<close>

definition WORKSPACE_CONFIG_mc :: "environ \<Rightarrow> (string \<times> config) list" where
  "WORKSPACE_CONFIG_mc env =
     [(''AWS'', \<lparr>cfg_url = env ''AWS_WORKSPACE_URL'', cfg_token = env ''AWS_ACCESS_TOKEN''\<rparr>),
      (''AZURE'', \<lparr>cfg_url = env ''AZURE_WORKSPACE_URL'', cfg_token = env ''AZURE_ACCESS_TOKEN''\<rparr>),
      (''GCP'', \<lparr>cfg_url = env ''GCP_WORKSPACE_URL'', cfg_token = env ''GCP_ACCESS_TOKEN''\<rparr>)]"

definition get_workspace_config_mc ::
    "(string \<Rightarrow> string) \<Rightarrow> environ \<Rightarrow> string \<Rightarrow> config option" where
  "get_workspace_config_mc str_upper env cloud_provider =
     map_of (WORKSPACE_CONFIG_mc env) (str_upper cloud_provider)"

definition github_request :: "string option \<Rightarrow> string option \<Rightarrow> string \<Rightarrow> string option \<Rightarrow> request" where
  "github_request repo_owner repo_name notebook_path github_token =
     \<lparr>meth = GET,
      rq_url = ''https://api.github.com/repos/'' @ fmt repo_owner @ ''/'' @ fmt repo_name
            @ ''/contents/'' @ notebook_path,
      headers = [(''Authorization'', ''token '' @ fmt github_token),
                 (''Accept'', ''application/vnd.github.v3+json'')],
      params = [], body = None\<rparr>"

definition fetch_notebook_from_github ::
    "server \<Rightarrow> string option \<Rightarrow> string option \<Rightarrow> string \<Rightarrow> string option \<Rightarrow> trace
      \<Rightarrow> (error + unicode option) \<times> trace" where
  "fetch_notebook_from_github srv repo_owner repo_name notebook_path github_token tr =
     (let (reply, tr') = send srv (github_request repo_owner repo_name notebook_path github_token) tr in
      (except_RequestException
         (then_do (requests_response reply) (\<lambda>response.
          then_do (raise_for_status response) (\<lambda>_.
          then_do (response_json response) (\<lambda>j.
          then_do (py_get j ''content'' JNull) (\<lambda>content.
            if truthy content then
              then_do (b64decode_text content) (\<lambda>decoded. Inr (Some decoded))
            else Inr None)))))
         (Inr None),
       tr'))"

definition import_request_mc :: "string option \<Rightarrow> string option \<Rightarrow> string \<Rightarrow> string \<Rightarrow> request" where
  "import_request_mc workspace_url access_token notebook_path content_encoded =
     \<lparr>meth = POST, rq_url = fmt workspace_url @ ''/api/2.0/workspace/import'',
      headers = get_headers access_token, params = [],
      body = Some (JObj [(''path'', JStr notebook_path), (''format'', JStr ''SOURCE''),
                         (''language'', JStr ''PYTHON''), (''content'', JStr content_encoded),
                         (''overwrite'', JBool True)])\<rparr>"

definition import_notebook_mc ::
    "server \<Rightarrow> string option \<Rightarrow> string option \<Rightarrow> unicode \<Rightarrow> string \<Rightarrow> string \<Rightarrow> trace
      \<Rightarrow> (error + string option) \<times> trace" where
  "import_notebook_mc srv workspace_url access_token content notebook_name workspace_dir tr =
     (let notebook_path = workspace_dir @ ''/'' @ notebook_name in
      case b64encode_text content of
        Inl e \<Rightarrow> (Inl e, tr)
      | Inr content_encoded \<Rightarrow>
          (let (reply, tr') =
                 send srv (import_request_mc workspace_url access_token notebook_path content_encoded) tr in
           (except_RequestException
              (then_do (requests_response reply) (\<lambda>response.
               then_do (raise_for_status response) (\<lambda>_. Inr (Some notebook_path))))
              (Inr None),
            tr')))"

definition status_request :: "string option \<Rightarrow> string option \<Rightarrow> string \<Rightarrow> request" where
  "status_request workspace_url access_token path =
     \<lparr>meth = GET, rq_url = fmt workspace_url @ ''/api/2.0/workspace/get-status'',
      headers = get_headers access_token, params = [(''path'', path)], body = None\<rparr>"

definition get_notebook_id ::
    "server \<Rightarrow> string option \<Rightarrow> string option \<Rightarrow> string \<Rightarrow> trace \<Rightarrow> (error + json) \<times> trace" where
  \<comment> \<open>\<^verbatim>\<open>None\<close> is \<open>JNull\<close>.\<close>
  "get_notebook_id srv workspace_url access_token notebook_path tr =
     (let (reply, tr') = send srv (status_request workspace_url access_token notebook_path) tr in
      (except_RequestException
         (then_do (requests_response reply) (\<lambda>response.
          then_do (raise_for_status response) (\<lambda>_.
          then_do (response_json response) (\<lambda>j.
          py_get j ''object_id'' JNull))))
         (Inr JNull),
       tr'))"

definition get_object_status ::
    "server \<Rightarrow> string option \<Rightarrow> string option \<Rightarrow> string \<Rightarrow> trace \<Rightarrow> (error + json) \<times> trace" where
  "get_object_status srv workspace_url access_token path tr =
     (let (reply, tr') = send srv (status_request workspace_url access_token path) tr in
      (except_RequestException
         (then_do (requests_response reply) (\<lambda>response.
          then_do (raise_for_status response) (\<lambda>_.
          response_json response)))
         (Inr JNull),
       tr'))"

definition permissions_endpoint :: "string option \<Rightarrow> json \<Rightarrow> json \<Rightarrow> error + string option" where
  \<comment> \<open>The \<^verbatim>\<open>if object_type == "NOTEBOOK" ... elif ... else\<close> chain that both
      \<^verbatim>\<open>get_permissions\<close> and \<^verbatim>\<open>grant_permissions\<close> contain; \<open>None\<close> is the \<^verbatim>\<open>else\<close> branch.\<close>
  "permissions_endpoint workspace_url object_type object_id =
     (if object_type = JStr ''NOTEBOOK'' then
        then_do (py_str object_id) (\<lambda>i.
          Inr (Some (fmt workspace_url @ ''/api/2.0/permissions/notebooks/'' @ i)))
      else if object_type = JStr ''DIRECTORY'' then
        then_do (py_str object_id) (\<lambda>i.
          Inr (Some (fmt workspace_url @ ''/api/2.0/permissions/directories/'' @ i)))
      else Inr None)"

fun permissions_loop :: "json list \<Rightarrow> (string \<times> json) list \<Rightarrow> error + (string \<times> json) list" where
  \<comment> \<open>The \<^verbatim>\<open>for permission in permissions_list\<close> loop filling \<^verbatim>\<open>permissions_dict\<close>.\<close>
  "permissions_loop [] permissions_dict = Inr permissions_dict"
| "permissions_loop (permission # permissions_list) permissions_dict =
     then_do (py_get permission ''user_name'' JNull) (\<lambda>user_name.
     then_do (py_get permission ''permission_level'' JNull) (\<lambda>permission_level.
       if truthy user_name \<and> truthy permission_level then
         (case user_name of
            JStr name \<Rightarrow>
              permissions_loop permissions_list (dict_set name permission_level permissions_dict)
          | JArr _ \<Rightarrow> Inl TypeError
          | JObj _ \<Rightarrow> Inl TypeError
          | _ \<Rightarrow> Inl Unmodelled)
       else permissions_loop permissions_list permissions_dict))"

definition permissions_get_request :: "string \<Rightarrow> string option \<Rightarrow> request" where
  "permissions_get_request api_endpoint access_token =
     \<lparr>meth = GET, rq_url = api_endpoint, headers = get_headers access_token, params = [],
      body = None\<rparr>"

definition get_permissions ::
    "server \<Rightarrow> string option \<Rightarrow> string option \<Rightarrow> string \<Rightarrow> trace
      \<Rightarrow> (error + (string \<times> json) list option) \<times> trace" where
  "get_permissions srv workspace_url access_token path tr =
     (case get_object_status srv workspace_url access_token path tr of
        (Inl e, tr1) \<Rightarrow> (Inl e, tr1)
      | (Inr object_status, tr1) \<Rightarrow>
          if \<not> truthy object_status then (Inr None, tr1)
          else
            (case then_do (py_get object_status ''object_id'' JNull) (\<lambda>object_id.
                  then_do (py_get object_status ''object_type'' JNull) (\<lambda>object_type.
                  permissions_endpoint workspace_url object_type object_id)) of
               Inl e \<Rightarrow> (Inl e, tr1)
             | Inr None \<Rightarrow> (Inr None, tr1)
             | Inr (Some api_endpoint) \<Rightarrow>
                 (let (reply, tr2) = send srv (permissions_get_request api_endpoint access_token) tr1 in
                  (except_RequestException
                     (then_do (requests_response reply) (\<lambda>response.
                      then_do (raise_for_status response) (\<lambda>_.
                      then_do (response_json response) (\<lambda>j.
                      then_do (py_get j ''access_control_list'' (JArr [])) (\<lambda>acl.
                      then_do (py_iter acl) (\<lambda>permissions_list.
                      then_do (permissions_loop permissions_list []) (\<lambda>permissions_dict.
                        Inr (Some permissions_dict))))))))
                     (Inr (Some [])),
                   tr2))))"

definition cluster_given :: "string option \<Rightarrow> bool" where
  \<comment> \<open>\<^verbatim>\<open>if cluster_id:\<close> for a value that is \<^verbatim>\<open>None\<close> or a string.\<close>
  "cluster_given cluster_id = (case cluster_id of None \<Rightarrow> False | Some c \<Rightarrow> c \<noteq> [])"

definition access_control_list :: "string \<Rightarrow> json \<Rightarrow> string option \<Rightarrow> json list" where
  \<comment> \<open>The entries of \<^verbatim>\<open>data["access_control_list"]\<close> after the optional \<^verbatim>\<open>append\<close>.\<close>
  "access_control_list email permission_level cluster_id =
     [JObj [(''user_name'', JStr email), (''permission_level'', permission_level)]]
     @ (if cluster_given cluster_id then
          [JObj [(''user_name'', JStr email), (''permission_level'', JStr ''CAN_ATTACH_TO''),
                 (''cluster_id'', JStr (the cluster_id))]]
        else [])"

definition permissions_patch_request ::
    "string \<Rightarrow> string option \<Rightarrow> string \<Rightarrow> json \<Rightarrow> string option \<Rightarrow> request" where
  "permissions_patch_request api_endpoint access_token email permission_level cluster_id =
     \<lparr>meth = PATCH, rq_url = api_endpoint, headers = get_headers access_token, params = [],
      body = Some (JObj [(''access_control_list'',
                          JArr (access_control_list email permission_level cluster_id))])\<rparr>"

definition grant_permissions ::
    "server \<Rightarrow> string option \<Rightarrow> string option \<Rightarrow> string \<Rightarrow> string \<Rightarrow> json \<Rightarrow> string option \<Rightarrow> trace
      \<Rightarrow> (error + bool) \<times> trace" where
  "grant_permissions srv workspace_url access_token path email permission_level cluster_id tr =
     (case get_object_status srv workspace_url access_token path tr of
        (Inl e, tr1) \<Rightarrow> (Inl e, tr1)
      | (Inr object_status, tr1) \<Rightarrow>
          if \<not> truthy object_status then (Inr False, tr1)
          else
            (case then_do (py_get object_status ''object_id'' JNull) (\<lambda>object_id.
                  then_do (py_get object_status ''object_type'' JNull) (\<lambda>object_type.
                  permissions_endpoint workspace_url object_type object_id)) of
               Inl e \<Rightarrow> (Inl e, tr1)
             | Inr None \<Rightarrow> (Inr False, tr1)
             | Inr (Some api_endpoint) \<Rightarrow>
                 (let (reply, tr2) =
                        send srv (permissions_patch_request api_endpoint access_token email
                                    permission_level cluster_id) tr1 in
                  (except_RequestException
                     (then_do (requests_response reply) (\<lambda>response.
                      then_do (raise_for_status response) (\<lambda>_. Inr True)))
                     (Inr False),
                   tr2))))"

definition default_permissions :: "(string \<times> json) list" where
  "default_permissions =
     [(''somin.sangwan@digivatelabs.com'', JStr ''CAN_MANAGE''),
      (''samir.shinde@digivatelabs.com'', JStr ''CAN_MANAGE'')]"

fun apply_permissions ::
    "server \<Rightarrow> config \<Rightarrow> string \<Rightarrow> (string \<times> json) list \<Rightarrow> string option \<Rightarrow> trace
      \<Rightarrow> (error + unit) \<times> trace" where
  \<comment> \<open>The \<^verbatim>\<open>for user, permission_level in source_permissions.items()\<close> loop.\<close>
  "apply_permissions srv cfg notebook_path [] cluster_id tr = (Inr (), tr)"
| "apply_permissions srv cfg notebook_path ((user, permission_level) # items) cluster_id tr =
     (case grant_permissions srv (cfg_url cfg) (cfg_token cfg) notebook_path user
             permission_level cluster_id tr of
        (Inl e, tr') \<Rightarrow> (Inl e, tr')
      | (Inr _, tr') \<Rightarrow> apply_permissions srv cfg notebook_path items cluster_id tr')"

definition notebook_name :: string where
  "notebook_name = ''demon_slayer_notebook.py''"

definition workspace_dir :: string where
  "workspace_dir = ''/Workspace/Users/adhyan.mishra@digivatelabs.com''"

definition sync_notebooks_and_permissions ::
    "(string \<Rightarrow> string) \<Rightarrow> environ \<Rightarrow> server \<Rightarrow> string \<Rightarrow> string \<Rightarrow> string option
      \<Rightarrow> string option \<Rightarrow> trace \<Rightarrow> (error + unit) \<times> trace" where
  "sync_notebooks_and_permissions str_upper env srv source_cloud target_cloud git_url cluster_id
       tr =
     (case (get_workspace_config_mc str_upper env source_cloud,
            get_workspace_config_mc str_upper env target_cloud) of
        (None, _) \<Rightarrow> (Inr (), tr)
      | (_, None) \<Rightarrow> (Inr (), tr)
      | (Some source_config, Some target_config) \<Rightarrow>
     (case fetch_notebook_from_github srv (env ''GITHUB_REPO_OWNER'') (env ''GITHUB_REPO_NAME'')
             notebook_name (env ''GITHUB_TOKEN'') tr of
        (Inl e, tr1) \<Rightarrow> (Inl e, tr1)
      | (Inr notebook_content, tr1) \<Rightarrow>
     if notebook_content = None \<or> notebook_content = Some [] then (Inr (), tr1) else
     (case import_notebook_mc srv (cfg_url source_config) (cfg_token source_config)
             (the notebook_content) notebook_name workspace_dir tr1 of
        (Inl e, tr2) \<Rightarrow> (Inl e, tr2)
      | (Inr None, tr2) \<Rightarrow> (Inr (), tr2)
      | (Inr (Some source_notebook_path), tr2) \<Rightarrow>
     if source_notebook_path = [] then (Inr (), tr2) else
     (case import_notebook_mc srv (cfg_url target_config) (cfg_token target_config)
             (the notebook_content) notebook_name workspace_dir tr2 of
        (Inl e, tr3) \<Rightarrow> (Inl e, tr3)
      | (Inr None, tr3) \<Rightarrow> (Inr (), tr3)
      | (Inr (Some target_notebook_path), tr3) \<Rightarrow>
     if target_notebook_path = [] then (Inr (), tr3) else
     (case get_notebook_id srv (cfg_url source_config) (cfg_token source_config)
             source_notebook_path tr3 of
        (Inl e, tr4) \<Rightarrow> (Inl e, tr4)
      | (Inr source_notebook_id, tr4) \<Rightarrow>
     if \<not> truthy source_notebook_id then (Inr (), tr4) else
     (case get_permissions srv (cfg_url source_config) (cfg_token source_config)
             source_notebook_path tr4 of
        (Inl e, tr5) \<Rightarrow> (Inl e, tr5)
      | (Inr fetched, tr5) \<Rightarrow>
     (let source_permissions =
            (if fetched = None \<or> fetched = Some [] then default_permissions else the fetched) in
     (case get_notebook_id srv (cfg_url target_config) (cfg_token target_config)
             target_notebook_path tr5 of
        (Inl e, tr6) \<Rightarrow> (Inl e, tr6)
      | (Inr target_notebook_id, tr6) \<Rightarrow>
     if \<not> truthy target_notebook_id then (Inr (), tr6) else
     (case apply_permissions srv source_config source_notebook_path source_permissions
             cluster_id tr6 of
        (Inl e, tr7) \<Rightarrow> (Inl e, tr7)
      | (Inr _, tr7) \<Rightarrow>
          apply_permissions srv target_config target_notebook_path source_permissions
            cluster_id tr7)))))))))"

section \<open>Vocabulary of the statements\<close>

definition without_id :: "json \<Rightarrow> json" where
  \<comment> \<open>A user record with the field \<^verbatim>\<open>id\<close> removed and every other field as it was.\<close>
  "without_id user =
     (case user of JObj kvs \<Rightarrow> JObj (filter (\<lambda>kv. fst kv \<noteq> ''id'') kvs) | _ \<Rightarrow> user)"

definition is_user_creation :: "config \<Rightarrow> request \<Rightarrow> bool" where
  \<comment> \<open>A request to the user-creation endpoint of a workspace.\<close>
  "is_user_creation cfg rq =
     (meth rq = POST \<and> rq_url rq = fmt (cfg_url cfg) @ ''/api/2.0/preview/scim/v2/Users'')"

definition target_received :: "config \<Rightarrow> trace \<Rightarrow> request list" where
  \<comment> \<open>The directory creations and notebook imports a workspace receives, in order.\<close>
  "target_received cfg tr =
     filter (\<lambda>rq. meth rq = POST
               \<and> (rq_url rq = fmt (cfg_url cfg) @ ''/api/2.0/workspace/mkdirs''
                  \<or> rq_url rq = fmt (cfg_url cfg) @ ''/api/2.0/workspace/import'')) tr"

definition request_failure :: "reply \<Rightarrow> bool" where
  \<comment> \<open>No response, or a response with a 4xx or 5xx status.\<close>
  "request_failure r =
     (case r of NoResponse \<Rightarrow> True | Response status p \<Rightarrow> 400 \<le> status \<and> status < 600)"

definition unreadable :: "reply \<Rightarrow> bool" where
  \<comment> \<open>A request failure, or a response whose body is not JSON.\<close>
  "unreadable r =
     (case r of NoResponse \<Rightarrow> True
      | Response status p \<Rightarrow> (400 \<le> status \<and> status < 600) \<or> p = NotJson)"

section \<open>Environments and remote sides used as concrete inputs\<close>

definition scenario_env :: environ where
  "scenario_env = map_of
     [(''STAGING_WORKSPACE_URL'', ''https://staging''), (''STAGING_ACCESS_TOKEN'', ''s3cret''),
      (''PREPROD_WORKSPACE_URL'', ''https://preprod''), (''PREPROD_ACCESS_TOKEN'', ''t0ken''),
      (''AWS_WORKSPACE_URL'', ''https://aws''), (''AWS_ACCESS_TOKEN'', ''awskey''),
      (''AZURE_WORKSPACE_URL'', ''https://azure''), (''AZURE_ACCESS_TOKEN'', ''azkey''),
      (''GITHUB_TOKEN'', ''ghp''), (''GITHUB_REPO_OWNER'', ''owner''),
      (''GITHUB_REPO_NAME'', ''repo'')]"

definition env_without_token :: environ where
  \<comment> \<open>Both workspace names are known; the staging token is not set.\<close>
  "env_without_token = map_of
     [(''STAGING_WORKSPACE_URL'', ''https://staging''),
      (''PREPROD_WORKSPACE_URL'', ''https://preprod''), (''PREPROD_ACCESS_TOKEN'', ''t0ken''),
      (''AWS_WORKSPACE_URL'', ''https://aws''),
      (''AZURE_WORKSPACE_URL'', ''https://azure''), (''AZURE_ACCESS_TOKEN'', ''azkey'')]"

definition upper_char :: "char \<Rightarrow> char" where
  "upper_char c =
     (case map_of (zip ''abcdefghijklmnopqrstuvwxyz'' ''ABCDEFGHIJKLMNOPQRSTUVWXYZ'') c of
        Some capital \<Rightarrow> capital
      | None \<Rightarrow> c)"

definition upper_ascii :: "string \<Rightarrow> string" where
  \<comment> \<open>On a string of ASCII characters \<^verbatim>\<open>str.upper()\<close> returns this. The workspace names
      of the concrete inputs are ASCII; it stands for \<^verbatim>\<open>str.upper\<close> there and nowhere
      else.\<close>
  "upper_ascii s = map upper_char s"

definition staging :: config where
  "staging = \<lparr>cfg_url = Some ''https://staging'', cfg_token = Some ''s3cret''\<rparr>"

definition preprod :: config where
  "preprod = \<lparr>cfg_url = Some ''https://preprod'', cfg_token = Some ''t0ken''\<rparr>"

definition aws :: config where
  "aws = \<lparr>cfg_url = Some ''https://aws'', cfg_token = Some ''awskey''\<rparr>"

definition azure :: config where
  "azure = \<lparr>cfg_url = Some ''https://azure'', cfg_token = Some ''azkey''\<rparr>"

definition down_server :: server where
  \<comment> \<open>No request gets a response.\<close>
  "down_server h rq = NoResponse"

definition bare_server :: server where
  \<comment> \<open>Every request succeeds with the empty JSON object.\<close>
  "bare_server h rq = Response 200 (Json (JObj []))"

definition garbled_server :: server where
  \<comment> \<open>Every request succeeds; the content field is not base64.\<close>
  "garbled_server h rq = Response 200 (Json (JObj [(''content'', JStr ''a'')]))"

definition notebook_server :: server where
  \<comment> \<open>Every request succeeds; the object is a notebook with content \<^verbatim>\<open>hi\<close> and no
      access-control list.\<close>
  "notebook_server h rq =
     Response 200 (Json (JObj [(''content'', JStr ''aGk=''), (''object_id'', JInt 42),
                               (''object_type'', JStr ''NOTEBOOK'')]))"

definition tree_server :: server where
  \<comment> \<open>The root holds notebook \<^verbatim>\<open>/n1\<close>, directory \<^verbatim>\<open>/d1\<close> (empty) and notebook \<^verbatim>\<open>/n2\<close>;
      every notebook exports as \<^verbatim>\<open>hi\<close>; there are no users.\<close>
  "tree_server h rq =
     (if meth rq = GET then
        (if params rq = [(''path'', ''/'')] then
           Response 200 (Json (JObj [(''objects'', JArr
             [JObj [(''object_type'', JStr ''NOTEBOOK''), (''path'', JStr ''/n1'')],
              JObj [(''object_type'', JStr ''DIRECTORY''), (''path'', JStr ''/d1'')],
              JObj [(''object_type'', JStr ''NOTEBOOK''), (''path'', JStr ''/n2'')]])]))
         else if params rq = [(''path'', ''/d1'')] then Response 200 (Json (JObj []))
         else Response 200 (Json (JObj [(''content'', JStr ''aGk='')])))
      else Response 200 (Json (JObj [])))"

definition flaky_server :: server where
  \<comment> \<open>The root holds the notebooks \<^verbatim>\<open>/n1\<close>, \<^verbatim>\<open>/x\<close> and \<^verbatim>\<open>/n2\<close>. Exporting \<^verbatim>\<open>/x\<close> gets no
      response, importing \<^verbatim>\<open>/n1\<close> is refused with status 500.\<close>
  "flaky_server h rq =
     (if meth rq = GET then
        (if params rq = [(''path'', ''/'')] then
           Response 200 (Json (JObj [(''objects'', JArr
             [JObj [(''object_type'', JStr ''NOTEBOOK''), (''path'', JStr ''/n1'')],
              JObj [(''object_type'', JStr ''NOTEBOOK''), (''path'', JStr ''/x'')],
              JObj [(''object_type'', JStr ''NOTEBOOK''), (''path'', JStr ''/n2'')]])]))
         else if params rq = [(''path'', ''/x''), (''format'', ''SOURCE'')] then NoResponse
         else Response 200 (Json (JObj [(''content'', JStr ''aGk='')])))
      else
        (case body rq of
           Some (JObj ((k, JStr p) # others)) \<Rightarrow>
             if p = ''/n1'' then Response 500 NotJson else Response 200 (Json (JObj []))
         | _ \<Rightarrow> Response 200 (Json (JObj []))))"

definition users_server :: server where
  \<comment> \<open>Two users; the second already exists on the target (status 409). Listing the
      workspace gets no response.\<close>
  "users_server h rq =
     (if meth rq = GET then
        (if params rq = [] then
           Response 200 (Json (JObj [(''Resources'', JArr
             [JObj [(''id'', JStr ''17''), (''userName'', JStr ''a@x.org''), (''active'', JBool True)],
              JObj [(''userName'', JStr ''b@x.org''), (''id'', JStr ''18'')]])]))
         else NoResponse)
      else
        (if body rq = Some (JObj [(''userName'', JStr ''b@x.org'')]) then Response 409 NotJson
         else Response 201 (Json (JObj []))))"

definition mock_store :: "string \<Rightarrow> server" where
  \<comment> \<open>A workspace at \<open>base\<close> that stores the last content imported to each path and
      exports it; a path never written does not exist (status 404).\<close>
  "mock_store base h rq =
     (if meth rq = POST \<and> rq_url rq = base @ ''/api/2.0/workspace/import'' then
        Response 200 (Json (JObj []))
      else if meth rq = GET \<and> rq_url rq = base @ ''/api/2.0/workspace/export'' then
        (case find (\<lambda>w. meth w = POST \<and> rq_url w = base @ ''/api/2.0/workspace/import''
                          \<and> (case body w of
                                Some j \<Rightarrow> py_get j ''path'' JNull
                                          = Inr (case map_of (params rq) ''path'' of
                                                   Some p \<Rightarrow> JStr p | None \<Rightarrow> JNull)
                              | None \<Rightarrow> False))
                (rev h) of
           Some w \<Rightarrow>
             (case body w of
                Some j \<Rightarrow>
                  (case py_get j ''content'' JNull of
                     Inr c \<Rightarrow> Response 200 (Json (JObj [(''content'', c)]))
                   | Inl _ \<Rightarrow> Response 404 NotJson)
              | None \<Rightarrow> Response 404 NotJson)
         | None \<Rightarrow> Response 404 NotJson)
      else Response 404 NotJson)"

definition empty_note_server :: server where
  \<comment> \<open>The root holds the notebooks \<^verbatim>\<open>/empty\<close>, whose content is the empty string, and
      \<^verbatim>\<open>/n1\<close>, whose content is \<^verbatim>\<open>hi\<close>.\<close>
  "empty_note_server h rq =
     (if meth rq = GET then
        (if params rq = [(''path'', ''/'')] then
           Response 200 (Json (JObj [(''objects'', JArr
             [JObj [(''object_type'', JStr ''NOTEBOOK''), (''path'', JStr ''/empty'')],
              JObj [(''object_type'', JStr ''NOTEBOOK''), (''path'', JStr ''/n1'')]])]))
         else if params rq = [(''path'', ''/empty''), (''format'', ''SOURCE'')] then
           Response 200 (Json (JObj [(''content'', JStr [])]))
         else Response 200 (Json (JObj [(''content'', JStr ''aGk='')])))
      else Response 200 (Json (JObj [])))"

definition half_server :: server where
  \<comment> \<open>The status lookup finds notebook 42; every other request is answered with
      status 503.\<close>
  "half_server h rq =
     (if meth rq = GET \<and> params rq \<noteq> [] then
        Response 200 (Json (JObj [(''object_id'', JInt 42), (''object_type'', JStr ''NOTEBOOK'')]))
      else Response 503 NotJson)"

definition nested_server :: server where
  \<comment> \<open>No notebooks and no users. The root lists the directories \<^verbatim>\<open>/b\<close> and \<^verbatim>\<open>/a\<close>, in
      this order; \<^verbatim>\<open>/a\<close> holds \<^verbatim>\<open>/a/b\<close>, which holds \<^verbatim>\<open>/a/b/c\<close>.\<close>
  "nested_server h rq =
     (if params rq = [(''path'', ''/'')] then
        Response 200 (Json (JObj [(''objects'', JArr
          [JObj [(''object_type'', JStr ''DIRECTORY''), (''path'', JStr ''/b'')],
           JObj [(''object_type'', JStr ''DIRECTORY''), (''path'', JStr ''/a'')]])]))
      else if params rq = [(''path'', ''/a'')] then
        Response 200 (Json (JObj [(''objects'', JArr
          [JObj [(''object_type'', JStr ''DIRECTORY''), (''path'', JStr ''/a/b'')]])]))
      else if params rq = [(''path'', ''/a/b'')] then
        Response 200 (Json (JObj [(''objects'', JArr
          [JObj [(''object_type'', JStr ''DIRECTORY''), (''path'', JStr ''/a/b/c'')]])]))
      else Response 200 (Json (JObj [])))"


definition mixed_server :: server where
  \<comment> \<open>No users. The root holds the notebooks \<^verbatim>\<open>/x\<close>, \<^verbatim>\<open>/y\<close> and \<^verbatim>\<open>/z\<close>. Exporting \<^verbatim>\<open>/x\<close>
      gets no response; the export of \<^verbatim>\<open>/y\<close> succeeds with a content field that is not
      base64; \<^verbatim>\<open>/z\<close> exports as \<^verbatim>\<open>hi\<close>.\<close>
  "mixed_server h rq =
     (if meth rq = GET then
        (if params rq = [(''path'', ''/'')] then
           Response 200 (Json (JObj [(''objects'', JArr
             [JObj [(''object_type'', JStr ''NOTEBOOK''), (''path'', JStr ''/x'')],
              JObj [(''object_type'', JStr ''NOTEBOOK''), (''path'', JStr ''/y'')],
              JObj [(''object_type'', JStr ''NOTEBOOK''), (''path'', JStr ''/z'')]])]))
         else if params rq = [(''path'', ''/x''), (''format'', ''SOURCE'')] then NoResponse
         else if params rq = [(''path'', ''/y''), (''format'', ''SOURCE'')] then
           Response 200 (Json (JObj [(''content'', JStr ''a'')]))
         else Response 200 (Json (JObj [(''content'', JStr ''aGk='')])))
      else Response 200 (Json (JObj [])))"

section \<open>The codecs invert each other\<close>

lemma a2b_b2a_all: "\<forall>n \<in> set [0..<64]. a2b (b2a n) = Some n \<and> b2a n \<noteq> CHR ''='' \<and> of_char (b2a n) < (128::nat)"
  by code_simp

lemma a2b_b2a: "n < 64 \<Longrightarrow> a2b (b2a n) = Some n"
  using a2b_b2a_all by simp

lemma b2a_not_pad: "n < 64 \<Longrightarrow> b2a n \<noteq> CHR ''=''"
  using a2b_b2a_all by simp

lemma b2a_ascii: "n < 64 \<Longrightarrow> of_char (b2a n) < (128::nat)"
  using a2b_b2a_all by simp

lemma unat_byte_lt: "unat (a::byte) < 256"
  using unsigned_less[of a, where ?'a = nat] by simp



lemma a2b_step:
  "n < 64 \<Longrightarrow> a2b_loop (b2a n # cs) q l p out =
     (if q = 0 then a2b_loop cs 1 n 0 out
      else if q = 1 then a2b_loop cs 2 (n mod 16) 0 (out @ [of_nat (l * 4 + n div 16)])
      else if q = 2 then a2b_loop cs 3 (n mod 4) 0 (out @ [of_nat (l * 16 + n div 4)])
      else a2b_loop cs 0 0 0 (out @ [of_nat (l * 64 + n)]))"
  by (simp add: a2b_b2a b2a_not_pad)

lemma sextet_bounds:
  fixes x y z :: nat
  assumes "x < 256" "y < 256" "z < 256"
  shows "x div 4 < 64" "x mod 4 * 16 < 64" "x mod 4 * 16 + y div 16 < 64"
    "y mod 16 * 4 < 64" "y mod 16 * 4 + z div 64 < 64" "z mod 64 < 64"
  using assms by arith+


lemma octet1: 
  fixes x y :: nat assumes "y < 256"
  shows "x div 4 * 4 + (x mod 4 * 16 + y div 16) div 16 = x"
proof -
  have "y div 16 < 16" using assms by arith
  then have "(x mod 4 * 16 + y div 16) div 16 = x mod 4" by simp
  then show ?thesis by simp
qed

lemma octet2:
  fixes x y z :: nat assumes "y < 256" "z < 256"
  shows "(x mod 4 * 16 + y div 16) mod 16 * 16 + (y mod 16 * 4 + z div 64) div 4 = y"
proof -
  have a: "y div 16 < 16" "z div 64 < 4" using assms by arith+
  have "(x mod 4 * 16 + y div 16) mod 16 = y div 16" using a by simp
  moreover have "(y mod 16 * 4 + z div 64) div 4 = y mod 16" using a by simp
  ultimately show ?thesis by simp
qed

lemma octet3:
  fixes y z :: nat assumes "z < 256"
  shows "(y mod 16 * 4 + z div 64) mod 4 * 64 + z mod 64 = z"
proof -
  have a: "z div 64 < 4" using assms by arith
  have "(y mod 16 * 4 + z div 64) mod 4 = z div 64" using a by simp
  then show ?thesis by simp
qed


lemma a2b_pad:
  "a2b_loop (CHR ''='' # cs) q l p out =
     (if q \<ge> 2 \<and> q + (p + 1) \<ge> 4 then Inr out
      else a2b_loop cs q l (if q \<ge> 2 then p + 1 else p) out)"
  by simp

lemmas a2b_loop_Cons = a2b_loop.simps(2)


lemma a2b_quad:
  assumes "n0 < 64" "n1 < 64" "n2 < 64" "n3 < 64"
  shows "a2b_loop (b2a n0 # b2a n1 # b2a n2 # b2a n3 # cs) 0 l p out =
     a2b_loop cs 0 0 0 (out @ [of_nat (n0 * 4 + n1 div 16),
        of_nat (n1 mod 16 * 16 + n2 div 4), of_nat (n2 mod 4 * 64 + n3)])"
  using assms by (simp add: a2b_step del: a2b_loop_Cons)

lemma a2b_pad1:
  assumes "n0 < 64" "n1 < 64"
  shows "a2b_loop [b2a n0, b2a n1, CHR ''='', CHR ''=''] 0 l p out =
     Inr (out @ [of_nat (n0 * 4 + n1 div 16)])"
  using assms by (simp add: a2b_step a2b_pad del: a2b_loop_Cons)

lemma a2b_pad2:
  assumes "n0 < 64" "n1 < 64" "n2 < 64"
  shows "a2b_loop [b2a n0, b2a n1, b2a n2, CHR ''=''] 0 l p out =
     Inr (out @ [of_nat (n0 * 4 + n1 div 16), of_nat (n1 mod 16 * 16 + n2 div 4)])"
  using assms by (simp add: a2b_step a2b_pad del: a2b_loop_Cons)

lemma a2b_loop_b2a_base64:
  "a2b_loop (b2a_base64 bs) 0 l p out = Inr (out @ bs)"
proof (induction bs arbitrary: l p out rule: b2a_base64.induct)
  case 1
  show ?case by simp
next
  case (2 a)
  have x: "unat a < 256" by (rule unat_byte_lt)
  have o: "unat a div 4 * 4 + (unat a mod 4 * 16) div 16 = unat a"
    using octet1[of 0 "unat a"] by simp
  have "a2b_loop (b2a_base64 [a]) 0 l p out =
      Inr (out @ [of_nat (unat a div 4 * 4 + (unat a mod 4 * 16) div 16)])"
    unfolding b2a_base64.simps by (rule a2b_pad1) (use x in arith)+
  then show ?case unfolding o by simp
next
  case (3 a b)
  have x: "unat a < 256" and y: "unat b < 256" by (rule unat_byte_lt)+
  have o2: "(unat a mod 4 * 16 + unat b div 16) mod 16 * 16 + (unat b mod 16 * 4) div 4 = unat b"
    using octet2[OF y, of 0 "unat a"] by simp
  have "a2b_loop (b2a_base64 [a, b]) 0 l p out =
      Inr (out @ [of_nat (unat a div 4 * 4 + (unat a mod 4 * 16 + unat b div 16) div 16),
         of_nat ((unat a mod 4 * 16 + unat b div 16) mod 16 * 16 + (unat b mod 16 * 4) div 4)])"
    unfolding b2a_base64.simps by (rule a2b_pad2) (use x y in arith)+
  then show ?case unfolding o2 octet1[OF y] by simp
next
  case (4 a b c bs)
  have x: "unat a < 256" and y: "unat b < 256" and z: "unat c < 256" by (rule unat_byte_lt)+
  have "a2b_loop (b2a_base64 (a # b # c # bs)) 0 l p out =
      a2b_loop (b2a_base64 bs) 0 0 0
        (out @ [of_nat (unat a div 4 * 4 + (unat a mod 4 * 16 + unat b div 16) div 16),
         of_nat ((unat a mod 4 * 16 + unat b div 16) mod 16 * 16 + (unat b mod 16 * 4 + unat c div 64) div 4),
         of_nat ((unat b mod 16 * 4 + unat c div 64) mod 4 * 64 + unat c mod 64)])"
    unfolding b2a_base64.simps append_Cons append_Nil
    by (rule a2b_quad) (use x y z in arith)+
  also have "\<dots> = a2b_loop (b2a_base64 bs) 0 0 0 (out @ [a, b, c])"
    unfolding octet1[OF y] octet2[OF y z] octet3[OF z] by simp
  also have "\<dots> = Inr ((out @ [a, b, c]) @ bs)"
    by (rule "4.IH")
  finally show ?case by simp
qed

lemma a2b_base64_b2a_base64: "a2b_base64 (b2a_base64 bs) = Inr bs"
  by (simp add: a2b_base64_def a2b_loop_b2a_base64)

lemma b2a_base64_ascii: "c \<in> set (b2a_base64 bs) \<Longrightarrow> of_char c < (128::nat)"
proof (induction bs rule: b2a_base64.induct)
  case (4 a b c' bs)
  have x: "unat a < 256" and y: "unat b < 256" and z: "unat c' < 256" by (rule unat_byte_lt)+
  from 4 show ?case by (auto simp: b2a_ascii sextet_bounds[OF x y z])
next
  case (3 a b)
  have x: "unat a < 256" and y: "unat b < 256" by (rule unat_byte_lt)+
  from 3 show ?case by (auto simp: b2a_ascii sextet_bounds[OF x y y])
next
  case (2 a)
  have x: "unat a < 256" by (rule unat_byte_lt)
  from 2 show ?case by (auto simp: b2a_ascii sextet_bounds[OF x x x])
qed simp

lemma unat_of_nat_byte: "n < 256 \<Longrightarrow> unat (of_nat n :: byte) = n"
  by (simp add: unsigned_of_nat take_bit_nat_eq_self)

lemma decode1:
  assumes "x0 < 0x80"
  shows "utf8_decode (of_nat x0 # r) = decode_cons x0 (utf8_decode r)"
  using assms by (simp add: unat_of_nat_byte decode_cons_def split: sum.splits)

lemma decode2:
  assumes "0xC2 \<le> x0" "x0 \<le> 0xDF" "0x80 \<le> x1" "x1 \<le> 0xBF"
  shows "utf8_decode (of_nat x0 # of_nat x1 # r) =
    decode_cons ((x0 - 0xC0) * 64 + (x1 - 0x80)) (utf8_decode r)"
  using assms by (simp add: unat_of_nat_byte continuation_def decode_cons_def split: sum.splits)

lemma decode3:
  assumes "0xE0 \<le> x0" "x0 \<le> 0xEF" "0x80 \<le> x1" "x1 \<le> 0xBF" "0x80 \<le> x2" "x2 \<le> 0xBF"
    "x0 = 0xE0 \<longrightarrow> 0xA0 \<le> x1" "x0 = 0xED \<longrightarrow> x1 \<le> 0x9F"
  shows "utf8_decode (of_nat x0 # of_nat x1 # of_nat x2 # r) =
    decode_cons ((x0 - 0xE0) * 4096 + (x1 - 0x80) * 64 + (x2 - 0x80)) (utf8_decode r)"
  using assms by (simp add: unat_of_nat_byte continuation_def decode_cons_def split: sum.splits)

lemma decode4:
  assumes "0xF0 \<le> x0" "x0 \<le> 0xF4" "0x80 \<le> x1" "x1 \<le> 0xBF" "0x80 \<le> x2" "x2 \<le> 0xBF"
    "0x80 \<le> x3" "x3 \<le> 0xBF"
    "x0 = 0xF0 \<longrightarrow> 0x90 \<le> x1" "x0 = 0xF4 \<longrightarrow> x1 \<le> 0x8F"
  shows "utf8_decode (of_nat x0 # of_nat x1 # of_nat x2 # of_nat x3 # r) =
    decode_cons ((x0 - 0xF0) * 262144 + (x1 - 0x80) * 4096 + (x2 - 0x80) * 64 + (x3 - 0x80))
      (utf8_decode r)"
  using assms by (simp add: unat_of_nat_byte continuation_def decode_cons_def split: sum.splits)



lemma digits64:
  fixes cp :: nat
  obtains a b c d where "cp div 262144 = a" "cp div 4096 mod 64 = b" "cp div 64 mod 64 = c"
    "cp mod 64 = d" "cp div 4096 = a * 64 + b" "cp = a * 262144 + b * 4096 + c * 64 + d"
    "b < 64" "c < 64" "d < 64"
proof -
  define q1 where "q1 = cp div 64"
  define q2 where "q2 = q1 div 64"
  define q3 where "q3 = q2 div 64"
  define c where "c = q1 mod 64"
  define b where "b = q2 mod 64"
  define d where "d = cp mod 64"
  have e1: "cp = q1 * 64 + d" by (simp add: q1_def d_def)
  have e2: "q1 = q2 * 64 + c" by (simp add: q2_def c_def)
  have e3: "q2 = q3 * 64 + b" by (simp add: q3_def b_def)
  have lt: "b < 64" "c < 64" "d < 64" by (simp_all add: b_def c_def d_def)
  have q2: "cp div 4096 = q2" by (simp add: q2_def q1_def div_mult2_eq)
  have q3: "cp div 262144 = q3" by (simp add: q3_def q2_def q1_def div_mult2_eq)
  have "cp = q3 * 262144 + b * 4096 + c * 64 + d" using e1 e2 e3 by linarith
  moreover have "cp div 4096 = q3 * 64 + b" using q2 e3 by simp
  moreover have "cp div 4096 mod 64 = b" unfolding q2 b_def ..
  moreover have "cp div 64 mod 64 = c" unfolding c_def q1_def ..
  moreover have "cp mod 64 = d" unfolding d_def ..
  ultimately show thesis
    using q3 lt by (intro that[of q3 b c d]) blast+
qed


lemma utf8_decode_encode_char:
  assumes "utf8_encode_char cp = Inr bs"
  shows "utf8_decode (bs @ r) = decode_cons cp (utf8_decode r)"
proof -
  obtain a b c d where dg: "cp div 262144 = a" "cp div 4096 mod 64 = b" "cp div 64 mod 64 = c"
    "cp mod 64 = d" "cp div 4096 = a * 64 + b" "cp = a * 262144 + b * 4096 + c * 64 + d"
    "b < 64" "c < 64" "d < 64"
    by (rule digits64)
  consider (one) "cp < 0x80"
    | (two) "0x80 \<le> cp" "cp < 0x800"
    | (three) "0x800 \<le> cp" "cp < 0x10000" "cp < 0xD800 \<or> 0xDFFF < cp"
    | (four) "0x10000 \<le> cp" "cp < 0x110000"
    | (bad) "(0xD800 \<le> cp \<and> cp \<le> 0xDFFF) \<or> 0x110000 \<le> cp"
    by linarith
  then show ?thesis
  proof cases
    case one
    then have "bs = [of_nat cp]" using assms by (simp add: utf8_encode_char_def)
    then show ?thesis using decode1[OF one] by simp
  next
    case two
    have ab: "a = 0" "b = 0" using two dg(6) by linarith+
    have q: "cp div 64 = c" using dg(3) two by simp
    have bs: "bs = [of_nat (0xC0 + c), of_nat (0x80 + d)]"
      using assms two unfolding utf8_encode_char_def q dg(4) by simp
    have "utf8_decode (of_nat (0xC0 + c) # of_nat (0x80 + d) # r) =
        decode_cons ((0xC0 + c - 0xC0) * 64 + (0x80 + d - 0x80)) (utf8_decode r)"
      by (rule decode2) (use two dg(6-9) ab in linarith)+
    moreover have "c * 64 + d = cp" using dg(6) ab by simp
    ultimately show ?thesis unfolding bs by simp
  next
    case three
    have a: "a = 0" using three dg(6) by linarith
    have bs: "bs = [of_nat (0xE0 + b), of_nat (0x80 + c), of_nat (0x80 + d)]"
      using assms three unfolding utf8_encode_char_def dg(3,4,5) a by auto
    have "utf8_decode (of_nat (0xE0 + b) # of_nat (0x80 + c) # of_nat (0x80 + d) # r) =
        decode_cons ((0xE0 + b - 0xE0) * 4096 + (0x80 + c - 0x80) * 64 + (0x80 + d - 0x80))
          (utf8_decode r)"
      by (rule decode3) (use three dg(6-9) a in linarith)+
    moreover have "b * 4096 + c * 64 + d = cp" using dg(6) a by simp
    ultimately show ?thesis unfolding bs by simp
  next
    case four
    have bs: "bs = [of_nat (0xF0 + a), of_nat (0x80 + b), of_nat (0x80 + c), of_nat (0x80 + d)]"
      using assms four unfolding utf8_encode_char_def dg(1-4) by auto
    have "utf8_decode (of_nat (0xF0 + a) # of_nat (0x80 + b) # of_nat (0x80 + c)
           # of_nat (0x80 + d) # r) =
        decode_cons ((0xF0 + a - 0xF0) * 262144 + (0x80 + b - 0x80) * 4096
           + (0x80 + c - 0x80) * 64 + (0x80 + d - 0x80)) (utf8_decode r)"
      by (rule decode4) (use four dg(6-9) in linarith)+
    then show ?thesis unfolding bs using dg(6) by simp
  next
    case bad
    then show ?thesis using assms by (auto simp: utf8_encode_char_def)
  qed
qed


lemma utf8_decode_encode:
  "utf8_encode s = Inr bs \<Longrightarrow> utf8_decode bs = Inr s"
proof (induction s arbitrary: bs)
  case Nil
  then show ?case by simp
next
  case (Cons cp cps)
  from Cons.prems obtain b1 b2 where
    e: "utf8_encode_char cp = Inr b1" "utf8_encode cps = Inr b2" "bs = b1 @ b2"
    by (auto split: sum.splits)
  have "utf8_decode b2 = Inr cps" by (rule Cons.IH[OF e(2)])
  then show ?case
    unfolding e(3) utf8_decode_encode_char[OF e(1)] by (simp add: decode_cons_def)
qed

lemma utf8_encode_char_scalar:
  "scalar_value cp \<Longrightarrow> \<exists>bs. utf8_encode_char cp = Inr bs"
  by (simp add: scalar_value_def utf8_encode_char_def)

lemma utf8_encode_total:
  "\<forall>cp \<in> set s. scalar_value cp \<Longrightarrow> \<exists>bs. utf8_encode s = Inr bs"
proof (induction s)
  case Nil
  then show ?case by simp
next
  case (Cons cp cps)
  then obtain b1 b2 where "utf8_encode_char cp = Inr b1" "utf8_encode cps = Inr b2"
    using utf8_encode_char_scalar[of cp] by auto
  then show ?case by simp
qed

lemma scalar3:
  assumes "x0 \<le> 15" "x1 \<le> 63" "x2 \<le> 63" "x0 = 0 \<longrightarrow> 32 \<le> x1" "x0 = 13 \<longrightarrow> x1 \<le> 31"
  shows "scalar_value (x0 * 4096 + x1 * 64 + x2)"
proof -
  have "x0 < 13 \<or> x0 = 13 \<or> 13 < x0" by linarith
  then show ?thesis
    unfolding scalar_value_def using assms by (elim disjE) simp_all
qed

lemma scalar4:
  assumes "x0 \<le> 4" "x1 \<le> 63" "x2 \<le> 63" "x3 \<le> 63" "x0 = 0 \<longrightarrow> 16 \<le> x1"
    "x0 = 4 \<longrightarrow> x1 \<le> 15"
  shows "scalar_value (x0 * 262144 + x1 * 4096 + x2 * 64 + x3)"
proof -
  have "x0 = 0 \<or> x0 = 4 \<or> (0 < x0 \<and> x0 < 4)" using assms(1) by linarith
  then show ?thesis
    unfolding scalar_value_def using assms by (elim disjE) simp_all
qed

lemma utf8_decode_scalar:
  "utf8_decode bs = Inr s \<Longrightarrow> \<forall>cp \<in> set s. scalar_value cp"
proof (induction bs arbitrary: s rule: utf8_decode.induct)
  case 1
  then show ?case by simp
next
  case (2 b0 bs)
  have lt: "unat b0 < 256" by (rule unat_byte_lt)
  consider (one) "unat b0 < 0x80"
    | (two) "0xC2 \<le> unat b0" "unat b0 \<le> 0xDF"
    | (three) "0xE0 \<le> unat b0" "unat b0 \<le> 0xEF"
    | (four) "0xF0 \<le> unat b0" "unat b0 \<le> 0xF4"
    | (bad) "0x80 \<le> unat b0" "unat b0 < 0xC2 \<or> 0xF4 < unat b0"
    by linarith
  then show ?case
  proof cases
    case one
    with "2.prems" obtain cps where d: "utf8_decode bs = Inr cps" "s = unat b0 # cps"
      by (auto split: sum.splits)
    have "\<forall>cp\<in>set cps. scalar_value cp" by (rule "2.IH"(1)[OF one d(1)])
    then show ?thesis using one d(2) by (simp add: scalar_value_def)
  next
    case two
    with "2.prems" obtain b1 r cps where d: "bs = b1 # r" "continuation b1"
      "utf8_decode r = Inr cps" "s = ((unat b0 - 0xC0) * 64 + (unat b1 - 0x80)) # cps"
      by (auto split: sum.splits list.splits if_splits)
    have n1: "\<not> unat b0 < 0x80" using two by linarith
    have "\<forall>cp\<in>set cps. scalar_value cp"
      using "2.IH"(2)[OF n1 _ d(1) d(2) d(3)] two by simp
    moreover have "scalar_value ((unat b0 - 0xC0) * 64 + (unat b1 - 0x80))"
    proof -
      obtain x0 where x0: "unat b0 = 0xC0 + x0" using two(1) le_iff_add[of "0xC0" "unat b0"] by auto
      obtain x1 where x1: "unat b1 = 0x80 + x1" using d(2) le_iff_add unfolding continuation_def by blast
      show ?thesis using two d(2) unfolding continuation_def scalar_value_def x0 x1 by simp
    qed
    ultimately show ?thesis using d(4) by simp
  next
    case three
    with "2.prems" obtain b1 b2 r cps where d: "bs = b1 # b2 # r"
      "continuation b1 \<and> continuation b2
                \<and> (unat b0 = 0xE0 \<longrightarrow> 0xA0 \<le> unat b1)
                \<and> (unat b0 = 0xED \<longrightarrow> unat b1 \<le> 0x9F)"
      "utf8_decode r = Inr cps"
      "s = ((unat b0 - 0xE0) * 4096 + (unat b1 - 0x80) * 64 + (unat b2 - 0x80)) # cps"
      by (auto split: sum.splits list.splits if_splits)
    have n1: "\<not> unat b0 < 0x80" and n2: "\<not> (0xC2 \<le> unat b0 \<and> unat b0 \<le> 0xDF)"
      using three by linarith+
    have "\<forall>cp\<in>set cps. scalar_value cp"
      using "2.IH"(3)[OF n1 n2 _ d(1) _ d(2) d(3)] three by simp
    moreover have "scalar_value ((unat b0 - 0xE0) * 4096 + (unat b1 - 0x80) * 64 + (unat b2 - 0x80))"
    proof -
      obtain x0 where x0: "unat b0 = 0xE0 + x0" using three(1) le_iff_add by blast
      obtain x1 where x1: "unat b1 = 0x80 + x1" using d(2) le_iff_add unfolding continuation_def by blast
      obtain x2 where x2: "unat b2 = 0x80 + x2" using d(2) le_iff_add unfolding continuation_def by blast
      have "scalar_value (x0 * 4096 + x1 * 64 + x2)"
        using three d(2) unfolding continuation_def x0 x1 x2 by (intro scalar3) simp_all
      then show ?thesis unfolding x0 x1 x2 by simp
    qed
    ultimately show ?thesis using d(4) by simp
  next
    case four
    with "2.prems" obtain b1 b2 b3 r cps where d: "bs = b1 # b2 # b3 # r"
      "continuation b1 \<and> continuation b2 \<and> continuation b3
                \<and> (unat b0 = 0xF0 \<longrightarrow> 0x90 \<le> unat b1)
                \<and> (unat b0 = 0xF4 \<longrightarrow> unat b1 \<le> 0x8F)"
      "utf8_decode r = Inr cps"
      "s = ((unat b0 - 0xF0) * 262144 + (unat b1 - 0x80) * 4096
                          + (unat b2 - 0x80) * 64 + (unat b3 - 0x80)) # cps"
      by (auto split: sum.splits list.splits if_splits)
    have n1: "\<not> unat b0 < 0x80" and n2: "\<not> (0xC2 \<le> unat b0 \<and> unat b0 \<le> 0xDF)"
      and n3: "\<not> (0xE0 \<le> unat b0 \<and> unat b0 \<le> 0xEF)"
      using four by linarith+
    have "\<forall>cp\<in>set cps. scalar_value cp"
      using "2.IH"(4)[OF n1 n2 n3 _ d(1) _ _ d(2) d(3)] four by simp
    moreover have "scalar_value ((unat b0 - 0xF0) * 262144 + (unat b1 - 0x80) * 4096
                          + (unat b2 - 0x80) * 64 + (unat b3 - 0x80))"
    proof -
      obtain x0 where x0: "unat b0 = 0xF0 + x0" using four(1) le_iff_add by blast
      obtain x1 where x1: "unat b1 = 0x80 + x1" using d(2) le_iff_add unfolding continuation_def by blast
      obtain x2 where x2: "unat b2 = 0x80 + x2" using d(2) le_iff_add unfolding continuation_def by blast
      obtain x3 where x3: "unat b3 = 0x80 + x3" using d(2) le_iff_add unfolding continuation_def by blast
      have "scalar_value (x0 * 262144 + x1 * 4096 + x2 * 64 + x3)"
        using four d(2) unfolding continuation_def x0 x1 x2 x3 by (intro scalar4) simp_all
      then show ?thesis unfolding x0 x1 x2 x3 by simp
    qed
    ultimately show ?thesis using d(4) by simp
  next
    case bad
    then show ?thesis using "2.prems" by (auto split: if_splits)
  qed
qed

section \<open>Requests issued by the leaf operations\<close>

lemma b64_text_roundtrip:
  assumes "b64encode_text s = Inr e"
  shows "b64decode_text (JStr e) = Inr s"
proof -
  from assms obtain raw where raw: "utf8_encode s = Inr raw" "e = b2a_base64 raw"
    by (auto simp: b64encode_text_def then_do_def split: sum.splits)
  have "\<forall>c \<in> set e. of_char c < (128::nat)"
    unfolding raw(2) using b2a_base64_ascii by blast
  then have "b64decode (JStr e) = Inr raw"
    unfolding raw(2) by (simp add: b64decode_def a2b_base64_b2a_base64)
  then show ?thesis
    by (simp add: b64decode_text_def then_do_def utf8_decode_encode[OF raw(1)])
qed

lemma b64encode_text_total:
  assumes "\<forall>cp \<in> set s. scalar_value cp"
  shows "\<exists>e. b64encode_text s = Inr e"
  using utf8_encode_total[OF assms] by (auto simp: b64encode_text_def then_do_def)

lemma b64decode_text_scalar:
  assumes "b64decode_text j = Inr s"
  shows "\<forall>cp \<in> set s. scalar_value cp"
proof -
  from assms obtain raw where "utf8_decode raw = Inr s"
    by (auto simp: b64decode_text_def then_do_def split: sum.splits)
  then show ?thesis by (rule utf8_decode_scalar)
qed

lemmas http_defs = send_def then_do_def except_RequestException_def requests_response_def
  raise_for_status_def response_json_def

lemma export_notebook_trace:
  "snd (export_notebook srv u t p tr) = tr @ [export_request u t p]"
  by (simp add: export_notebook_def send_def)

lemma export_notebook_scalar:
  assumes "export_notebook srv u t p tr = (Inr (Some s), tr')"
  shows "\<forall>cp \<in> set s. scalar_value cp"
proof -
  from assms obtain j where "b64decode_text j = Inr s"
    by (auto simp: export_notebook_def http_defs split: sum.splits error.splits reply.splits
        if_splits payload.splits)
  then show ?thesis by (rule b64decode_text_scalar)
qed

lemma import_notebook_result:
  assumes "b64encode_text c = Inr e"
  shows "\<exists>ok. import_notebook srv u t p c tr = (Inr ok, tr @ [import_request u t p e])"
  using assms
  by (auto simp: import_notebook_def http_defs split: sum.splits error.splits reply.splits)

lemma create_directory_result:
  "create_directory srv u t d tr = (Inr (), tr @ [mkdirs_request u t d])"
  by (auto simp: create_directory_def http_defs split: sum.splits error.splits reply.splits)

lemma create_directories_result:
  "create_directories srv tc ds tr =
     (Inr (), tr @ map (mkdirs_request (cfg_url tc) (cfg_token tc)) ds)"
  by (induction ds arbitrary: tr) (simp_all add: create_directory_result)

lemma get_users_trace:
  "snd (get_users srv u t tr) = tr @ [users_get_request u t]"
  by (simp add: get_users_def send_def)

lemma create_user_trace:
  "snd (create_user srv u t user tr) = tr @ [users_post_request u t user]"
  by (simp add: create_user_def send_def)

lemma list_notebooks_trace_aux:
  "list_notebooks srv d u t p tr = (r, tr') \<Longrightarrow>
     \<exists>ds. tr' = tr @ ds \<and> (\<forall>rq \<in> set ds. meth rq = GET)"
  "list_objects srv d u t objs ns dirs tr = (r, tr') \<Longrightarrow>
     \<exists>ds. tr' = tr @ ds \<and> (\<forall>rq \<in> set ds. meth rq = GET)"
proof (induction srv d u t p tr and srv d u t objs ns dirs tr arbitrary: r tr' and r tr'
    rule: list_notebooks_list_objects.induct)
  case (1 srv u t p tr)
  then show ?case by simp
next
  case (2 srv depth u t p tr)
  let ?tr1 = "tr @ [list_request u t p]"
  let ?pre = "then_do (requests_response (srv tr (list_request u t p))) (\<lambda>response.
            then_do (raise_for_status response) (\<lambda>_.
            then_do (response_json response) (\<lambda>j.
            then_do (py_get j ''objects'' (JArr [])) py_iter)))"
  have g: "meth (list_request u t p) = GET" by (simp add: list_request_def)
  show ?case
  proof (cases ?pre)
    case (Inl e)
    then have "tr' = ?tr1" using "2.prems"
      by (cases e) (simp_all add: send_def)
    then show ?thesis using g by simp
  next
    case (Inr objects)
    obtain r2 tr2 where l: "list_objects srv depth u t objects [] {} ?tr1 = (r2, tr2)"
      by (cases "list_objects srv depth u t objects [] {} ?tr1") auto
    have "\<exists>ds. tr2 = ?tr1 @ ds \<and> (\<forall>rq \<in> set ds. meth rq = GET)"
      by (rule "2.IH"[OF _ _ Inr l]) (simp_all add: send_def)
    then obtain ds where ds: "tr2 = ?tr1 @ ds" "\<forall>rq \<in> set ds. meth rq = GET" by blast
    have "tr' = tr2" using "2.prems" Inr l
      by (auto simp: send_def split: sum.splits error.splits)
    then show ?thesis using ds g by simp
  qed
next
  case (3 srv depth u t ns dirs tr)
  then show ?case by simp
next
  case (4 srv depth u t obj objects ns dirs tr)
  show ?case
  proof (cases "py_getitem obj ''object_type''")
    case (Inl e)
    then show ?thesis using "4.prems" by simp
  next
    case ty: (Inr object_type)
    consider (nb) "object_type = JStr ''NOTEBOOK''"
      | (dir) "object_type \<noteq> JStr ''NOTEBOOK''" "object_type = JStr ''DIRECTORY''"
      | (other) "object_type \<noteq> JStr ''NOTEBOOK''" "object_type \<noteq> JStr ''DIRECTORY''"
      by blast
    then show ?thesis
    proof cases
      case nb
      show ?thesis
      proof (cases "py_getitem obj ''path''")
        case (Inl e)
        then show ?thesis using "4.prems" ty nb by simp
      next
        case pth: (Inr pv)
        show ?thesis
        proof (cases pv)
          case (JStr path)
          have "list_objects srv depth u t objects (ns @ [path]) dirs tr = (r, tr')"
            using "4.prems" ty nb pth JStr by simp
          then show ?thesis by (rule "4.IH"(1)[OF ty nb pth JStr])
        qed (use "4.prems" ty nb pth in simp_all)
      qed
    next
      case dir
      show ?thesis
      proof (cases "py_getitem obj ''path''")
        case (Inl e)
        then show ?thesis using "4.prems" ty dir by simp
      next
        case pth: (Inr pv)
        show ?thesis
        proof (cases pv)
          case (JStr path)
          obtain r1 tr1 where l: "list_notebooks srv depth u t path tr = (r1, tr1)"
            by (cases "list_notebooks srv depth u t path tr") auto
          have "\<exists>ds. tr1 = tr @ ds \<and> (\<forall>rq \<in> set ds. meth rq = GET)"
            by (rule "4.IH"(2)[OF ty dir pth JStr l])
          then obtain ds1 where ds1: "tr1 = tr @ ds1" "\<forall>rq \<in> set ds1. meth rq = GET" by blast
          show ?thesis
          proof (cases r1)
            case (Inl e)
            then have "tr' = tr1" using "4.prems" ty dir pth JStr l by simp
            then show ?thesis using ds1 by blast
          next
            case (Inr res)
            obtain sn sd where res: "res = (sn, sd)" by (cases res)
            have lo: "list_objects srv depth u t objects (ns @ sn) (insert path dirs \<union> sd) tr1 = (r, tr')"
              using "4.prems" ty dir pth JStr l Inr res by simp
            have "\<exists>ds. tr' = tr1 @ ds \<and> (\<forall>rq \<in> set ds. meth rq = GET)"
              using "4.IH"(3)[OF ty dir pth JStr l[symmetric] _ _ lo] Inr res by simp
            then obtain ds2 where "tr' = tr1 @ ds2" "\<forall>rq \<in> set ds2. meth rq = GET" by blast
            then show ?thesis using ds1 by auto
          qed
        qed (use "4.prems" ty dir pth in simp_all)
      qed
    next
      case other
      have "list_objects srv depth u t objects ns dirs tr = (r, tr')"
        using "4.prems" ty other by simp
      then show ?thesis by (rule "4.IH"(4)[OF ty other])
    qed
  qed
qed


lemma list_notebooks_finite_aux:
  "list_notebooks srv d u t p tr = (Inr (ns', dirs'), tr') \<Longrightarrow> finite dirs'"
  "list_objects srv d u t objs ns dirs tr = (Inr (ns', dirs'), tr') \<Longrightarrow> finite dirs
     \<Longrightarrow> finite dirs'"
proof (induction srv d u t p tr and srv d u t objs ns dirs tr arbitrary: ns' dirs' tr' and ns' dirs' tr'
    rule: list_notebooks_list_objects.induct)
  case (1 srv u t p tr)
  then show ?case by simp
next
  case (2 srv depth u t p tr)
  let ?tr1 = "tr @ [list_request u t p]"
  let ?pre = "then_do (requests_response (srv tr (list_request u t p))) (\<lambda>response.
            then_do (raise_for_status response) (\<lambda>_.
            then_do (response_json response) (\<lambda>j.
            then_do (py_get j ''objects'' (JArr [])) py_iter)))"
  show ?case
  proof (cases ?pre)
    case (Inl e)
    then have "dirs' = {}" using "2.prems"
      by (cases e) (simp_all add: send_def)
    then show ?thesis by simp
  next
    case (Inr objects)
    obtain r2 tr2 where l: "list_objects srv depth u t objects [] {} ?tr1 = (r2, tr2)"
      by (cases "list_objects srv depth u t objects [] {} ?tr1") auto
    show ?thesis
    proof (cases r2)
      case e: (Inl e)
      then have "dirs' = {}" using "2.prems" Inr l
        by (cases e) (simp_all add: send_def)
      then show ?thesis by simp
    next
      case res: (Inr res)
      then have lo: "list_objects srv depth u t objects [] {} ?tr1 = (Inr (ns', dirs'), tr2)"
        using "2.prems" Inr l by (cases res) (simp add: send_def)
      show ?thesis
        by (rule "2.IH"[OF _ _ Inr lo]) (simp_all add: send_def)
    qed
  qed
next
  case (3 srv depth u t ns dirs tr)
  then show ?case by simp
next
  case (4 srv depth u t obj objects ns dirs tr)
  show ?case
  proof (cases "py_getitem obj ''object_type''")
    case (Inl e)
    then show ?thesis using "4.prems" by simp
  next
    case ty: (Inr object_type)
    consider (nb) "object_type = JStr ''NOTEBOOK''"
      | (dir) "object_type \<noteq> JStr ''NOTEBOOK''" "object_type = JStr ''DIRECTORY''"
      | (other) "object_type \<noteq> JStr ''NOTEBOOK''" "object_type \<noteq> JStr ''DIRECTORY''"
      by blast
    then show ?thesis
    proof cases
      case nb
      show ?thesis
      proof (cases "py_getitem obj ''path''")
        case (Inl e)
        then show ?thesis using "4.prems" ty nb by simp
      next
        case pth: (Inr pv)
        show ?thesis
        proof (cases pv)
          case (JStr path)
          have "list_objects srv depth u t objects (ns @ [path]) dirs tr = (Inr (ns', dirs'), tr')"
            using "4.prems" ty nb pth JStr by simp
          then show ?thesis using "4.IH"(1)[OF ty nb pth JStr] "4.prems"(2) by blast
        qed (use "4.prems" ty nb pth in simp_all)
      qed
    next
      case dir
      show ?thesis
      proof (cases "py_getitem obj ''path''")
        case (Inl e)
        then show ?thesis using "4.prems" ty dir by simp
      next
        case pth: (Inr pv)
        show ?thesis
        proof (cases pv)
          case (JStr path)
          obtain r1 tr1 where l: "list_notebooks srv depth u t path tr = (r1, tr1)"
            by (cases "list_notebooks srv depth u t path tr") auto
          show ?thesis
          proof (cases r1)
            case (Inl e)
            then show ?thesis using "4.prems" ty dir pth JStr l by simp
          next
            case (Inr res)
            obtain sn sd where res: "res = (sn, sd)" by (cases res)
            have fsd: "finite sd"
              using "4.IH"(2)[OF ty dir pth JStr] l Inr res by simp
            have lo: "list_objects srv depth u t objects (ns @ sn) (insert path dirs \<union> sd) tr1
                = (Inr (ns', dirs'), tr')"
              using "4.prems" ty dir pth JStr l Inr res by simp
            have "finite (insert path dirs \<union> sd)" using fsd "4.prems"(2) by simp
            then show ?thesis
              using "4.IH"(3)[OF ty dir pth JStr l[symmetric] _ _ lo] Inr res by simp
          qed
        qed (use "4.prems" ty dir pth in simp_all)
      qed
    next
      case other
      have "list_objects srv depth u t objects ns dirs tr = (Inr (ns', dirs'), tr')"
        using "4.prems" ty other by simp
      then show ?thesis using "4.IH"(4)[OF ty other] "4.prems"(2) by blast
    qed
  qed
qed

section \<open>The loops of the bulk migration\<close>

lemma py_pop_id:
  "py_pop user ''id'' = Inr user' \<Longrightarrow> (\<exists>kvs. user = JObj kvs) \<and> user' = without_id user"
  by (auto simp: py_pop_def without_id_def split: json.splits)

lemma create_users_trace:
  "create_users srv tc us tr = (r, tr') \<Longrightarrow>
     \<exists>n \<le> length us.
       tr' = tr @ map (\<lambda>u. users_post_request (cfg_url tc) (cfg_token tc) (without_id u)) (take n us)
       \<and> (\<forall>u \<in> set (take n us). \<exists>kvs. u = JObj kvs)
       \<and> (r = Inr () \<longrightarrow> n = length us)"
proof (induction us arbitrary: tr)
  case Nil
  then show ?case by simp
next
  case (Cons user us)
  let ?post = "\<lambda>u. users_post_request (cfg_url tc) (cfg_token tc) (without_id u)"
  show ?case
  proof (cases "py_pop user ''id''")
    case (Inl e)
    then have "tr' = tr" "r \<noteq> Inr ()" using Cons.prems by auto
    then show ?thesis by (intro exI[of _ 0]) simp
  next
    case (Inr user')
    then have u: "\<exists>kvs. user = JObj kvs" "user' = without_id user"
      using py_pop_id by blast+
    obtain x tr1 where cu: "create_user srv (cfg_url tc) (cfg_token tc) user' tr = (x, tr1)"
      by (cases "create_user srv (cfg_url tc) (cfg_token tc) user' tr") auto
    have tr1: "tr1 = tr @ [?post user]"
      using create_user_trace[of srv "cfg_url tc" "cfg_token tc" user' tr] cu u(2) by simp
    have stop: "tr' = tr1 \<Longrightarrow> r \<noteq> Inr () \<Longrightarrow> ?thesis"
      using tr1 u(1) by (intro exI[of _ 1]) simp
    have continue: "create_users srv tc us tr1 = (r, tr') \<Longrightarrow> ?thesis"
    proof -
      assume "create_users srv tc us tr1 = (r, tr')"
      from Cons.IH[OF this] obtain n where n: "n \<le> length us"
        "tr' = tr1 @ map ?post (take n us)" "\<forall>u \<in> set (take n us). \<exists>kvs. u = JObj kvs"
        "r = Inr () \<longrightarrow> n = length us" by blast
      show ?thesis
        using n tr1 u(1) by (intro exI[of _ "Suc n"]) simp
    qed
    show ?thesis
    proof (cases x)
      case (Inl e)
      then show ?thesis using Cons.prems Inr cu by (intro stop) auto
    next
      case created: (Inr created)
      show ?thesis
      proof (cases created)
        case False
        then show ?thesis using Cons.prems Inr cu created by (intro continue) simp
      next
        case True
        show ?thesis
        proof (cases "py_getitem user' ''userName''")
          case (Inl e)
          then show ?thesis using Cons.prems Inr cu created True by (intro stop) auto
        next
          case name: (Inr name)
          show ?thesis
          proof (cases "hashable name")
            case True
            then show ?thesis
              using Cons.prems Inr cu created \<open>created\<close> name by (intro continue) simp
          next
            case False
            then show ?thesis
              using Cons.prems Inr cu created \<open>created\<close> name by (intro stop) auto
          qed
        qed
      qed
    qed
  qed
qed

lemma transfer_notebooks_complete:
  assumes "\<forall>h. \<forall>p \<in> set ps. \<not> isl (fst (export_notebook srv (cfg_url sc) (cfg_token sc) p h))"
  shows "\<exists>segs. transfer_notebooks srv sc tc ps tr = (Inr (), tr @ concat segs)
     \<and> length segs = length ps
     \<and> (\<forall>i < length ps.
          (fst (export_notebook srv (cfg_url sc) (cfg_token sc) (ps ! i) (tr @ concat (take i segs)))
              \<in> {Inr None, Inr (Some [])}
            \<longrightarrow> segs ! i = [export_request (cfg_url sc) (cfg_token sc) (ps ! i)])
        \<and> (\<forall>c. c \<noteq> [] \<and>
              fst (export_notebook srv (cfg_url sc) (cfg_token sc) (ps ! i) (tr @ concat (take i segs)))
                = Inr (Some c)
            \<longrightarrow> (\<exists>e. b64encode_text c = Inr e
                  \<and> segs ! i = [export_request (cfg_url sc) (cfg_token sc) (ps ! i),
                                import_request (cfg_url tc) (cfg_token tc) (ps ! i) e])))"
  using assms
proof (induction ps arbitrary: tr)
  case Nil
  show ?case by (intro exI[of _ "[]"]) simp
next
  case (Cons p ps)
  let ?E = "export_request (cfg_url sc) (cfg_token sc) p"
  obtain x tr1 where ex: "export_notebook srv (cfg_url sc) (cfg_token sc) p tr = (x, tr1)"
    by (cases "export_notebook srv (cfg_url sc) (cfg_token sc) p tr") auto
  have tr1: "tr1 = tr @ [?E]"
    using export_notebook_trace[of srv "cfg_url sc" "cfg_token sc" p tr] ex by simp
  have "\<not> isl x" using Cons.prems ex by (metis fst_conv list.set_intros(1))
  then obtain content where x: "x = Inr content" by (cases x) auto
  have hyp: "\<forall>h. \<forall>p \<in> set ps. \<not> isl (fst (export_notebook srv (cfg_url sc) (cfg_token sc) p h))"
    using Cons.prems by simp
  show ?case
  proof (cases "content = None \<or> content = Some []")
    case True
    from Cons.IH[OF hyp, of tr1] obtain segs where segs:
      "transfer_notebooks srv sc tc ps tr1 = (Inr (), tr1 @ concat segs)"
      "length segs = length ps"
      "\<forall>i < length ps.
          (fst (export_notebook srv (cfg_url sc) (cfg_token sc) (ps ! i) (tr1 @ concat (take i segs)))
              \<in> {Inr None, Inr (Some [])}
            \<longrightarrow> segs ! i = [export_request (cfg_url sc) (cfg_token sc) (ps ! i)])
        \<and> (\<forall>c. c \<noteq> [] \<and>
              fst (export_notebook srv (cfg_url sc) (cfg_token sc) (ps ! i) (tr1 @ concat (take i segs)))
                = Inr (Some c)
            \<longrightarrow> (\<exists>e. b64encode_text c = Inr e
                  \<and> segs ! i = [export_request (cfg_url sc) (cfg_token sc) (ps ! i),
                                import_request (cfg_url tc) (cfg_token tc) (ps ! i) e]))"
      by blast
    have run: "transfer_notebooks srv sc tc (p # ps) tr = (Inr (), tr @ concat ([?E] # segs))"
      using ex x True segs(1) tr1 by auto
    have "\<forall>i < length (p # ps).
          (fst (export_notebook srv (cfg_url sc) (cfg_token sc) ((p # ps) ! i)
                  (tr @ concat (take i ([?E] # segs))))
              \<in> {Inr None, Inr (Some [])}
            \<longrightarrow> ([?E] # segs) ! i = [export_request (cfg_url sc) (cfg_token sc) ((p # ps) ! i)])
        \<and> (\<forall>c. c \<noteq> [] \<and>
              fst (export_notebook srv (cfg_url sc) (cfg_token sc) ((p # ps) ! i)
                  (tr @ concat (take i ([?E] # segs))))
                = Inr (Some c)
            \<longrightarrow> (\<exists>e. b64encode_text c = Inr e
                  \<and> ([?E] # segs) ! i = [export_request (cfg_url sc) (cfg_token sc) ((p # ps) ! i),
                                import_request (cfg_url tc) (cfg_token tc) ((p # ps) ! i) e]))"
    proof (intro allI impI)
      fix i assume "i < length (p # ps)"
      show "(fst (export_notebook srv (cfg_url sc) (cfg_token sc) ((p # ps) ! i)
                  (tr @ concat (take i ([?E] # segs))))
              \<in> {Inr None, Inr (Some [])}
            \<longrightarrow> ([?E] # segs) ! i = [export_request (cfg_url sc) (cfg_token sc) ((p # ps) ! i)])
        \<and> (\<forall>c. c \<noteq> [] \<and>
              fst (export_notebook srv (cfg_url sc) (cfg_token sc) ((p # ps) ! i)
                  (tr @ concat (take i ([?E] # segs))))
                = Inr (Some c)
            \<longrightarrow> (\<exists>e. b64encode_text c = Inr e
                  \<and> ([?E] # segs) ! i = [export_request (cfg_url sc) (cfg_token sc) ((p # ps) ! i),
                                import_request (cfg_url tc) (cfg_token tc) ((p # ps) ! i) e]))"
      proof (cases i)
        case 0
        then show ?thesis using ex x True by auto
      next
        case (Suc j)
        then have "j < length ps" using \<open>i < length (p # ps)\<close> by simp
        then show ?thesis using segs(3) Suc tr1 by simp
      qed
    qed
    then show ?thesis using run segs(2) by (intro exI[of _ "[?E] # segs"]) simp
  next
    case False
    then obtain c where c: "content = Some c" "c \<noteq> []" by (cases content) auto
    have "\<forall>cp \<in> set c. scalar_value cp"
      using export_notebook_scalar ex x c(1) by blast
    then obtain e where e: "b64encode_text c = Inr e" using b64encode_text_total by blast
    let ?I = "import_request (cfg_url tc) (cfg_token tc) p e"
    obtain ok where imp: "import_notebook srv (cfg_url tc) (cfg_token tc) p c tr1
        = (Inr ok, tr1 @ [?I])"
      using import_notebook_result[OF e] by blast
    let ?tr2 = "tr1 @ [?I]"
    from Cons.IH[OF hyp, of ?tr2] obtain segs where segs:
      "transfer_notebooks srv sc tc ps ?tr2 = (Inr (), ?tr2 @ concat segs)"
      "length segs = length ps"
      "\<forall>i < length ps.
          (fst (export_notebook srv (cfg_url sc) (cfg_token sc) (ps ! i) (?tr2 @ concat (take i segs)))
              \<in> {Inr None, Inr (Some [])}
            \<longrightarrow> segs ! i = [export_request (cfg_url sc) (cfg_token sc) (ps ! i)])
        \<and> (\<forall>c. c \<noteq> [] \<and>
              fst (export_notebook srv (cfg_url sc) (cfg_token sc) (ps ! i) (?tr2 @ concat (take i segs)))
                = Inr (Some c)
            \<longrightarrow> (\<exists>e. b64encode_text c = Inr e
                  \<and> segs ! i = [export_request (cfg_url sc) (cfg_token sc) (ps ! i),
                                import_request (cfg_url tc) (cfg_token tc) (ps ! i) e]))"
      by blast
    have run: "transfer_notebooks srv sc tc (p # ps) tr = (Inr (), tr @ concat ([?E, ?I] # segs))"
      using ex x c imp segs(1) tr1 by auto
    have "\<forall>i < length (p # ps).
          (fst (export_notebook srv (cfg_url sc) (cfg_token sc) ((p # ps) ! i)
                  (tr @ concat (take i ([?E, ?I] # segs))))
              \<in> {Inr None, Inr (Some [])}
            \<longrightarrow> ([?E, ?I] # segs) ! i = [export_request (cfg_url sc) (cfg_token sc) ((p # ps) ! i)])
        \<and> (\<forall>c. c \<noteq> [] \<and>
              fst (export_notebook srv (cfg_url sc) (cfg_token sc) ((p # ps) ! i)
                  (tr @ concat (take i ([?E, ?I] # segs))))
                = Inr (Some c)
            \<longrightarrow> (\<exists>e. b64encode_text c = Inr e
                  \<and> ([?E, ?I] # segs) ! i = [export_request (cfg_url sc) (cfg_token sc) ((p # ps) ! i),
                                import_request (cfg_url tc) (cfg_token tc) ((p # ps) ! i) e]))"
    proof (intro allI impI)
      fix i assume "i < length (p # ps)"
      show "(fst (export_notebook srv (cfg_url sc) (cfg_token sc) ((p # ps) ! i)
                  (tr @ concat (take i ([?E, ?I] # segs))))
              \<in> {Inr None, Inr (Some [])}
            \<longrightarrow> ([?E, ?I] # segs) ! i = [export_request (cfg_url sc) (cfg_token sc) ((p # ps) ! i)])
        \<and> (\<forall>c. c \<noteq> [] \<and>
              fst (export_notebook srv (cfg_url sc) (cfg_token sc) ((p # ps) ! i)
                  (tr @ concat (take i ([?E, ?I] # segs))))
                = Inr (Some c)
            \<longrightarrow> (\<exists>e. b64encode_text c = Inr e
                  \<and> ([?E, ?I] # segs) ! i = [export_request (cfg_url sc) (cfg_token sc) ((p # ps) ! i),
                                import_request (cfg_url tc) (cfg_token tc) ((p # ps) ! i) e]))"
      proof (cases i)
        case 0
        then show ?thesis using ex x c e by auto
      next
        case (Suc j)
        then have "j < length ps" using \<open>i < length (p # ps)\<close> by simp
        then show ?thesis using segs(3) Suc tr1 by simp
      qed
    qed
    then show ?thesis using run segs(2) by (intro exI[of _ "[?E, ?I] # segs"]) simp
  qed
qed

lemma target_received_append:
  "target_received cfg (xs @ ys) = target_received cfg xs @ target_received cfg ys"
  by (simp add: target_received_def)

lemma target_received_Nil [simp]: "target_received cfg [] = []"
  by (simp add: target_received_def)

lemma target_received_GET:
  "\<forall>rq \<in> set ds. meth rq = GET \<Longrightarrow> target_received cfg ds = []"
  by (induction ds) (auto simp: target_received_def)

lemma target_received_export [simp]:
  "target_received cfg [export_request u t p] = []"
  by (simp add: target_received_def export_request_def)

lemma target_received_import [simp]:
  "target_received cfg [import_request (cfg_url cfg) t p e] = [import_request (cfg_url cfg) t p e]"
  by (simp add: target_received_def import_request_def)

lemma target_received_mkdirs:
  "target_received cfg (map (mkdirs_request (cfg_url cfg) t) ds) = map (mkdirs_request (cfg_url cfg) t) ds"
  by (induction ds) (simp_all add: target_received_def mkdirs_request_def)

lemma target_received_users:
  "target_received cfg (map (\<lambda>u. users_post_request (cfg_url cfg) t (f u)) us) = []"
  by (induction us) (simp_all add: target_received_def users_post_request_def)

lemma import_notebook_cases:
  "import_notebook srv u t p c tr = (r, tr') \<Longrightarrow>
     tr' = tr \<and> isl r \<or> (\<exists>e. b64encode_text c = Inr e \<and> tr' = tr @ [import_request u t p e])"
proof (cases "b64encode_text c")
  case (Inl e)
  assume "import_notebook srv u t p c tr = (r, tr')"
  then show ?thesis using Inl by (auto simp: import_notebook_def)
next
  case (Inr e)
  assume "import_notebook srv u t p c tr = (r, tr')"
  then show ?thesis using import_notebook_result[OF Inr, of srv u t p tr] Inr by auto
qed

lemma transfer_notebooks_received:
  "transfer_notebooks srv sc tc ps tr = (r, tr') \<Longrightarrow>
     \<exists>rest imported. tr' = tr @ rest
       \<and> target_received tc rest
           = map (\<lambda>(p, e). import_request (cfg_url tc) (cfg_token tc) p e) imported
       \<and> subseq (map fst imported) ps"
proof (induction ps arbitrary: tr)
  case Nil
  then show ?case by (intro exI[of _ "[]"]) simp
next
  case (Cons p ps)
  let ?E = "export_request (cfg_url sc) (cfg_token sc) p"
  let ?imp = "\<lambda>(p, e). import_request (cfg_url tc) (cfg_token tc) p e"
  obtain x tr1 where ex: "export_notebook srv (cfg_url sc) (cfg_token sc) p tr = (x, tr1)"
    by (cases "export_notebook srv (cfg_url sc) (cfg_token sc) p tr") auto
  have tr1: "tr1 = tr @ [?E]"
    using export_notebook_trace[of srv "cfg_url sc" "cfg_token sc" p tr] ex by simp
  have skip: "transfer_notebooks srv sc tc ps tr1 = (r, tr') \<Longrightarrow> ?case"
  proof -
    assume "transfer_notebooks srv sc tc ps tr1 = (r, tr')"
    from Cons.IH[OF this] obtain rest imported where ih: "tr' = tr1 @ rest"
      "target_received tc rest = map ?imp imported" "subseq (map fst imported) ps" by blast
    show ?case
      using ih tr1
      by (intro exI[of _ "?E # rest"] exI[of _ imported])
         (simp add: target_received_append[of tc "[?E]" rest, simplified] list_emb_Cons)
  qed
  show ?case
  proof (cases x)
    case (Inl e)
    then have "tr' = tr1" using Cons.prems ex by simp
    then show ?thesis using tr1 by (intro exI[of _ "[?E]"] exI[of _ "[]"]) simp
  next
    case (Inr content)
    show ?thesis
    proof (cases "content = None \<or> content = Some []")
      case True
      then show ?thesis using Cons.prems ex Inr by (intro skip) auto
    next
      case False
      then obtain c where c: "content = Some c" "c \<noteq> []" by (cases content) auto
      obtain y tr2 where imp: "import_notebook srv (cfg_url tc) (cfg_token tc) p c tr1 = (y, tr2)"
        by (cases "import_notebook srv (cfg_url tc) (cfg_token tc) p c tr1") auto
      from import_notebook_cases[OF imp]
      consider (raised) "tr2 = tr1" "isl y"
        | (sent) e where "b64encode_text c = Inr e"
            "tr2 = tr1 @ [import_request (cfg_url tc) (cfg_token tc) p e]"
        by blast
      then show ?thesis
      proof cases
        case raised
        then have "tr' = tr1" using Cons.prems ex Inr c imp by (cases y) auto
        then show ?thesis using tr1 by (intro exI[of _ "[?E]"] exI[of _ "[]"]) simp
      next
        case (sent e)
        let ?I = "import_request (cfg_url tc) (cfg_token tc) p e"
        show ?thesis
        proof (cases y)
          case (Inl err)
          then have "tr' = tr2" using Cons.prems ex Inr c imp by auto
          then show ?thesis
            using tr1 sent(2)
            by (intro exI[of _ "[?E, ?I]"] exI[of _ "[(p, e)]"])
               (simp add: target_received_append[of tc "[?E]" "[?I]", simplified])
        next
          case ok: (Inr ok)
          then have "transfer_notebooks srv sc tc ps tr2 = (r, tr')"
            using Cons.prems ex Inr c imp by auto
          from Cons.IH[OF this] obtain rest imported where ih: "tr' = tr2 @ rest"
            "target_received tc rest = map ?imp imported" "subseq (map fst imported) ps" by blast
          show ?thesis
            using ih tr1 sent(2)
            by (intro exI[of _ "?E # ?I # rest"] exI[of _ "(p, e) # imported"])
               (simp add: target_received_append[of tc "[?E, ?I]" rest, simplified]
                  target_received_append[of tc "[?E]" "[?I]", simplified])
        qed
      qed
    qed
  qed
qed

lemma strict_prefix_less:
  fixes p q :: string
  assumes "strict_prefix p q"
  shows "p < q"
proof -
  from assms obtain ys where "q = p @ ys" "ys \<noteq> []"
    by (auto simp: strict_prefix_def prefix_def)
  then obtain z zs where "q = p @ z # zs"
    by (cases ys) auto
  then show ?thesis
    unfolding list_less_def by (simp add: lexord_append_rightI)
qed

lemma sorted_parent_first:
  fixes ds :: "string list"
  assumes "sorted ds" "i < length ds" "j < length ds" "strict_prefix (ds ! i) (ds ! j)"
  shows "i < j"
proof (rule ccontr)
  assume "\<not> i < j"
  then have "j \<le> i" by simp
  then have "ds ! j \<le> ds ! i" using assms(1,2) by (simp add: sorted_nth_mono)
  moreover have "ds ! i < ds ! j" using assms(4) by (rule strict_prefix_less)
  ultimately show False by simp
qed

section \<open>Concrete runs\<close>

lemma hi_encode: "b64encode_text [104, 105] = Inr ''aGk=''"
  by (simp add: b64encode_text_def then_do_def utf8_encode_char_def b2a_def table_b2a_base64_def)

lemma hi_decode: "b64decode_text (JStr ''aGk='') = Inr [104, 105]"
  by (rule b64_text_roundtrip[OF hi_encode])


lemmas reply_defs = send_def then_do_def except_RequestException_def requests_response_def
  raise_for_status_def response_json_def py_get_def

lemma cfg_staging: "get_workspace_config upper_ascii scenario_env ''staging'' = Some staging"
  by (simp add: get_workspace_config_def WORKSPACE_CONFIG_def upper_ascii_def upper_char_def
      scenario_env_def staging_def)

lemma cfg_preprod: "get_workspace_config upper_ascii scenario_env ''PreProd'' = Some preprod"
  by (simp add: get_workspace_config_def WORKSPACE_CONFIG_def upper_ascii_def upper_char_def
      scenario_env_def preprod_def)

lemma tree_users:
  "get_users tree_server u t tr = (Inr (JArr []), tr @ [users_get_request u t])"
  by (simp add: get_users_def users_get_request_def tree_server_def reply_defs py_len_def)

lemma tree_list:
  "list_notebooks tree_server 3 u t ''/'' tr =
     (Inr ([''/n1'', ''/n2''], {''/d1''}), tr @ [list_request u t ''/'', list_request u t ''/d1''])"
  by (simp add: numeral_3_eq_3 list_request_def tree_server_def reply_defs py_getitem_def
      py_iter_def)

lemma tree_export:
  "export_notebook tree_server u t [CHR ''/'', CHR ''n'', c] tr =
     (Inr (Some [104, 105]), tr @ [export_request u t [CHR ''/'', CHR ''n'', c]])"
  by (simp add: export_notebook_def export_request_def tree_server_def reply_defs hi_decode)

lemma tree_import:
  "import_notebook tree_server u t p [104, 105] tr =
     (Inr True, tr @ [import_request u t p ''aGk=''])"
  by (simp add: import_notebook_def import_request_def tree_server_def reply_defs hi_encode)

lemma run_tree:
  "transfer_users_and_notebooks upper_ascii scenario_env tree_server 3 ''staging'' ''PreProd'' [] =
     (Inr (),
      [users_get_request (cfg_url staging) (cfg_token staging),
       list_request (cfg_url staging) (cfg_token staging) ''/'',
       list_request (cfg_url staging) (cfg_token staging) ''/d1'',
       mkdirs_request (cfg_url preprod) (cfg_token preprod) ''/d1'',
       export_request (cfg_url staging) (cfg_token staging) ''/n1'',
       import_request (cfg_url preprod) (cfg_token preprod) ''/n1'' ''aGk='',
       export_request (cfg_url staging) (cfg_token staging) ''/n2'',
       import_request (cfg_url preprod) (cfg_token preprod) ''/n2'' ''aGk=''])"
  by (simp add: transfer_users_and_notebooks_def cfg_staging cfg_preprod tree_users tree_list
      tree_export tree_import create_directory_result py_iter_def)

section \<open>What an export returns\<close>

lemma export_notebook_no_content:
  assumes "srv tr (export_request u t p) = Response st (Json (JObj kvs))"
    and "\<not> (400 \<le> st \<and> st < 600)"
    and "map_of kvs ''content'' = None \<or> map_of kvs ''content'' = Some (JStr [])"
  shows "export_notebook srv u t p tr = (Inr (Some []), tr @ [export_request u t p])"
  using assms
  by (auto simp: export_notebook_def reply_defs b64decode_text_def b64decode_def a2b_base64_def)

lemma export_notebook_failure:
  assumes "srv tr (export_request u t p) = NoResponse
      \<or> (\<exists>st pl. srv tr (export_request u t p) = Response st pl \<and> 400 \<le> st \<and> st < 600)
      \<or> (\<exists>st. srv tr (export_request u t p) = Response st NotJson)"
  shows "export_notebook srv u t p tr = (Inr None, tr @ [export_request u t p])"
  using assms
  by (auto simp: export_notebook_def reply_defs)

lemma export_notebook_content:
  assumes "srv tr (export_request u t p) = Response st (Json (JObj kvs))"
    and "\<not> (400 \<le> st \<and> st < 600)"
    and "map_of kvs ''content'' = Some (JStr e)"
    and "b64encode_text s = Inr e"
  shows "export_notebook srv u t p tr = (Inr (Some s), tr @ [export_request u t p])"
  using assms(1-3) b64_text_roundtrip[OF assms(4)]
  by (auto simp: export_notebook_def reply_defs)

text \<open>
  C7 (as amended). \<^verbatim>\<open>export_notebook\<close> returns \<^verbatim>\<open>None\<close> when the request gets no response,
  a 4xx or 5xx status, or a body that is not JSON; it returns the decoded text when the
  response is a JSON object whose \<^verbatim>\<open>content\<close> field is the base64 of the UTF-8 encoding of
  that text; and when the JSON object has no \<^verbatim>\<open>content\<close> field it returns the empty string,
  which is not \<^verbatim>\<open>None\<close>.
\<close>

theorem C7_export_notebook_results:
  "(srv tr (export_request u t p) = NoResponse
      \<or> (\<exists>st pl. srv tr (export_request u t p) = Response st pl \<and> 400 \<le> st \<and> st < 600)
      \<or> (\<exists>st. srv tr (export_request u t p) = Response st NotJson)
     \<longrightarrow> fst (export_notebook srv u t p tr) = Inr None)
   \<and> (\<forall>st kvs e s. srv tr (export_request u t p) = Response st (Json (JObj kvs))
          \<and> \<not> (400 \<le> st \<and> st < 600) \<and> map_of kvs ''content'' = Some (JStr e)
          \<and> b64encode_text s = Inr e
        \<longrightarrow> fst (export_notebook srv u t p tr) = Inr (Some s))
   \<and> (\<forall>st kvs. srv tr (export_request u t p) = Response st (Json (JObj kvs))
          \<and> \<not> (400 \<le> st \<and> st < 600) \<and> map_of kvs ''content'' = None
        \<longrightarrow> fst (export_notebook srv u t p tr) = Inr (Some []))"
proof (intro conjI allI impI)
  assume "srv tr (export_request u t p) = NoResponse
      \<or> (\<exists>st pl. srv tr (export_request u t p) = Response st pl \<and> 400 \<le> st \<and> st < 600)
      \<or> (\<exists>st. srv tr (export_request u t p) = Response st NotJson)"
  then show "fst (export_notebook srv u t p tr) = Inr None"
    by (simp add: export_notebook_failure)
next
  fix st kvs e s
  assume "srv tr (export_request u t p) = Response st (Json (JObj kvs))
          \<and> \<not> (400 \<le> st \<and> st < 600) \<and> map_of kvs ''content'' = Some (JStr e)
          \<and> b64encode_text s = Inr e"
  then have "export_notebook srv u t p tr = (Inr (Some s), tr @ [export_request u t p])"
    by (intro export_notebook_content[of srv tr u t p st kvs e s]) blast+
  then show "fst (export_notebook srv u t p tr) = Inr (Some s)"
    by simp
next
  fix st kvs
  assume "srv tr (export_request u t p) = Response st (Json (JObj kvs))
          \<and> \<not> (400 \<le> st \<and> st < 600) \<and> map_of kvs ''content'' = None"
  then have "export_notebook srv u t p tr = (Inr (Some []), tr @ [export_request u t p])"
    by (intro export_notebook_no_content[of srv tr u t p st kvs]) blast+
  then show "fst (export_notebook srv u t p tr) = Inr (Some [])"
    by simp
qed

theorem C7_export_notebook_results_witness:
  "fst (export_notebook down_server (Some ''https://staging'') (Some ''s3cret'') ''/n1'' [])
     = Inr None
   \<and> fst (export_notebook tree_server (Some ''https://staging'') (Some ''s3cret'') ''/n1'' [])
     = Inr (Some [104, 105])
   \<and> fst (export_notebook bare_server (Some ''https://staging'') (Some ''s3cret'') ''/n1'' [])
     = Inr (Some [])"
proof -
  let ?u = "Some ''https://staging''" and ?t = "Some ''s3cret''"
  have down: "down_server [] (export_request ?u ?t ''/n1'') = NoResponse"
    by (simp add: down_server_def)
  have tree: "tree_server [] (export_request ?u ?t ''/n1'')
      = Response 200 (Json (JObj [(''content'', JStr ''aGk='')]))
      \<and> \<not> (400 \<le> (200::nat) \<and> (200::nat) < 600)
      \<and> map_of [(''content'', JStr ''aGk='')] ''content'' = Some (JStr ''aGk='')
      \<and> b64encode_text [104, 105] = Inr ''aGk=''"
    by (simp add: tree_server_def export_request_def hi_encode)
  have bare: "bare_server [] (export_request ?u ?t ''/n1'') = Response 200 (Json (JObj []))
      \<and> \<not> (400 \<le> (200::nat) \<and> (200::nat) < 600) \<and> map_of ([]::(string \<times> json) list) ''content'' = None"
    by (simp add: bare_server_def)
  show ?thesis
    using C7_export_notebook_results[of down_server "[]" ?u ?t "''/n1''"] down
      C7_export_notebook_results[of tree_server "[]" ?u ?t "''/n1''"] tree
      C7_export_notebook_results[of bare_server "[]" ?u ?t "''/n1''"] bare
    by blast
qed

text \<open>
  C7 (as stated) fails: for a successful response without a \<^verbatim>\<open>content\<close> field,
  \<^verbatim>\<open>export_notebook\<close> returns the empty string, a value that is not \<^verbatim>\<open>None\<close>.
\<close>

theorem C7_counterexample:
  "fst (export_notebook bare_server (Some ''https://staging'') (Some ''s3cret'') ''/n1'' [])
     = Inr (Some [])
   \<and> fst (export_notebook bare_server (Some ''https://staging'') (Some ''s3cret'') ''/n1'' [])
     \<noteq> Inr None"
  by (simp add: export_notebook_no_content[where st = 200 and kvs = "[]"] bare_server_def)

text \<open>
  C10. When the export response of a notebook is a successful JSON object whose
  \<^verbatim>\<open>content\<close> field is absent or empty, \<^verbatim>\<open>export_notebook\<close> returns the empty string
  (not \<^verbatim>\<open>None\<close>: the export succeeded), and the notebook loop of the bulk migration treats
  it as the failure sentinel: it issues nothing but the export request for that notebook,
  so no import, and goes on with the remaining notebooks.
\<close>

theorem C10_empty_content_skipped:
  assumes "srv tr (export_request (cfg_url sc) (cfg_token sc) p) = Response st (Json (JObj kvs))"
    and "\<not> (400 \<le> st \<and> st < 600)"
    and "map_of kvs ''content'' = None \<or> map_of kvs ''content'' = Some (JStr [])"
  shows "export_notebook srv (cfg_url sc) (cfg_token sc) p tr
           = (Inr (Some []), tr @ [export_request (cfg_url sc) (cfg_token sc) p])
       \<and> transfer_notebooks srv sc tc (p # ps) tr
           = transfer_notebooks srv sc tc ps (tr @ [export_request (cfg_url sc) (cfg_token sc) p])"
proof -
  have "export_notebook srv (cfg_url sc) (cfg_token sc) p tr
           = (Inr (Some []), tr @ [export_request (cfg_url sc) (cfg_token sc) p])"
    using assms by (rule export_notebook_no_content)
  then show ?thesis by simp
qed

lemma empty_note_users:
  "get_users empty_note_server u t tr = (Inr (JArr []), tr @ [users_get_request u t])"
  by (simp add: get_users_def users_get_request_def empty_note_server_def reply_defs py_len_def)

lemma empty_note_list:
  "list_notebooks empty_note_server 3 u t ''/'' tr =
     (Inr ([''/empty'', ''/n1''], {}), tr @ [list_request u t ''/''])"
  by (simp add: numeral_3_eq_3 list_request_def empty_note_server_def reply_defs py_getitem_def
      py_iter_def)

lemma empty_note_export_n1:
  "export_notebook empty_note_server u t ''/n1'' tr =
     (Inr (Some [104, 105]), tr @ [export_request u t ''/n1''])"
  by (simp add: export_notebook_def export_request_def empty_note_server_def reply_defs hi_decode)

lemma empty_note_import:
  "import_notebook empty_note_server u t p [104, 105] tr =
     (Inr True, tr @ [import_request u t p ''aGk=''])"
  by (simp add: import_notebook_def import_request_def empty_note_server_def reply_defs hi_encode)

theorem C10_empty_content_skipped_witness:
  "export_notebook empty_note_server (cfg_url staging) (cfg_token staging) ''/empty'' []
     = (Inr (Some []), [export_request (cfg_url staging) (cfg_token staging) ''/empty''])
   \<and> transfer_users_and_notebooks upper_ascii scenario_env empty_note_server 3 ''staging'' ''PreProd'' []
     = (Inr (),
        [users_get_request (cfg_url staging) (cfg_token staging),
         list_request (cfg_url staging) (cfg_token staging) ''/'',
         export_request (cfg_url staging) (cfg_token staging) ''/empty'',
         export_request (cfg_url staging) (cfg_token staging) ''/n1'',
         import_request (cfg_url preprod) (cfg_token preprod) ''/n1'' ''aGk=''])"
proof -
  let ?tr = "[users_get_request (cfg_url staging) (cfg_token staging),
         list_request (cfg_url staging) (cfg_token staging) ''/'']"
  have h1: "\<And>tr. empty_note_server tr (export_request (cfg_url staging) (cfg_token staging) ''/empty'')
      = Response 200 (Json (JObj [(''content'', JStr [])]))"
    by (simp add: empty_note_server_def export_request_def)
  have h2: "\<not> (400 \<le> (200::nat) \<and> (200::nat) < 600)" by simp
  have h3: "map_of [(''content'', JStr [])] ''content'' = None
      \<or> map_of [(''content'', JStr [])] ''content'' = Some (JStr [])" by simp
  note a = C10_empty_content_skipped[where srv = empty_note_server and tr = "[]"
      and sc = staging and p = "''/empty''" and st = 200 and kvs = "[(''content'', JStr [])]"
      and tc = preprod and ps = "[]", OF h1 h2 h3]
  note b = C10_empty_content_skipped[where srv = empty_note_server and tr = ?tr
      and sc = staging and p = "''/empty''" and st = 200 and kvs = "[(''content'', JStr [])]"
      and tc = preprod and ps = "[''/n1'']", OF h1 h2 h3]
  have run: "transfer_users_and_notebooks upper_ascii scenario_env empty_note_server 3 ''staging'' ''PreProd'' []
      = transfer_notebooks empty_note_server staging preprod [''/empty'', ''/n1''] ?tr"
    by (simp add: transfer_users_and_notebooks_def cfg_staging cfg_preprod empty_note_users
        empty_note_list py_iter_def del: transfer_notebooks.simps)
  show ?thesis
    using a unfolding run conjunct2[OF b]
    by (simp add: empty_note_export_n1 empty_note_import)
qed

section \<open>Granting permissions\<close>

lemma get_object_status_trace:
  "snd (get_object_status srv u t path tr) = tr @ [status_request u t path]"
  by (simp add: get_object_status_def send_def)

lemma grant_permissions_cases:
  "grant_permissions srv u t path email lvl cid tr = (r, tr') \<Longrightarrow>
     tr' = tr @ [status_request u t path]
     \<or> (\<exists>ep. tr' = tr @ [status_request u t path, permissions_patch_request ep t email lvl cid]
           \<and> (\<exists>ok. r = Inr ok))"
proof -
  assume g: "grant_permissions srv u t path email lvl cid tr = (r, tr')"
  obtain x tr1 where s: "get_object_status srv u t path tr = (x, tr1)"
    by (cases "get_object_status srv u t path tr") auto
  have tr1: "tr1 = tr @ [status_request u t path]"
    using get_object_status_trace[of srv u t path tr] s by simp
  show ?thesis
  proof (cases x)
    case (Inl e)
    then show ?thesis using g s tr1 by (simp add: grant_permissions_def)
  next
    case (Inr object_status)
    show ?thesis
    proof (cases "truthy object_status")
      case False
      then show ?thesis using g s tr1 Inr by (simp add: grant_permissions_def)
    next
      case True
      let ?ep = "then_do (py_get object_status ''object_id'' JNull) (\<lambda>object_id.
                  then_do (py_get object_status ''object_type'' JNull) (\<lambda>object_type.
                  permissions_endpoint u object_type object_id))"
      show ?thesis
      proof (cases ?ep)
        case (Inl e)
        then show ?thesis using g s tr1 Inr True by (simp add: grant_permissions_def)
      next
        case ep: (Inr epo)
        show ?thesis
        proof (cases epo)
          case None
          then show ?thesis using g s tr1 Inr True ep by (simp add: grant_permissions_def)
        next
          case (Some api_endpoint)
          then show ?thesis
            using g s tr1 Inr True ep
            by (auto simp: grant_permissions_def http_defs
                split: reply.splits error.splits sum.splits if_splits)
        qed
      qed
    qed
  qed
qed

lemma grant_permissions_found:
  assumes "srv tr (status_request u t path) = Response st (Json (JObj kvs))"
    and "\<not> (400 \<le> st \<and> st < 600)" and "kvs \<noteq> []"
    and "map_of kvs ''object_type'' = Some (JStr ''NOTEBOOK'')"
    and "map_of kvs ''object_id'' = Some (JInt i)" and "0 \<le> i"
  shows "snd (grant_permissions srv u t path email lvl cid tr) =
     tr @ [status_request u t path,
           permissions_patch_request
             (fmt u @ ''/api/2.0/permissions/notebooks/'' @ string_of_nat (nat i)) t email lvl cid]"
  using assms
  by (simp add: grant_permissions_def get_object_status_def reply_defs permissions_endpoint_def
      py_str_def del: string_of_nat.simps)

text \<open>
  C9. Every call of \<^verbatim>\<open>grant_permissions\<close> issues the status lookup and then at most one
  \<^verbatim>\<open>PATCH\<close> request. The access-control list of that request has exactly two entries for the
  principal when a non-empty cluster id is given (the requested level, and
  \<^verbatim>\<open>CAN_ATTACH_TO\<close> carrying the cluster id) and exactly the one requested entry when no
  cluster id is given. The \<^verbatim>\<open>PATCH\<close> request is issued whenever the lookup finds a notebook.
\<close>

theorem C9_grant_permissions_entries:
  "\<exists>reqs. snd (grant_permissions srv u t path email lvl cid tr)
            = tr @ status_request u t path # reqs
     \<and> (reqs = [] \<or>
         (\<exists>ep entries.
            reqs = [\<lparr>meth = PATCH, rq_url = ep, headers = get_headers t, params = [],
                     body = Some (JObj [(''access_control_list'', JArr entries)])\<rparr>]
          \<and> (cid = None \<or> cid = Some [] \<longrightarrow>
                entries = [JObj [(''user_name'', JStr email), (''permission_level'', lvl)]])
          \<and> (\<forall>c. cid = Some c \<and> c \<noteq> [] \<longrightarrow>
                entries = [JObj [(''user_name'', JStr email), (''permission_level'', lvl)],
                           JObj [(''user_name'', JStr email),
                                 (''permission_level'', JStr ''CAN_ATTACH_TO''),
                                 (''cluster_id'', JStr c)]])))
     \<and> (\<forall>st kvs i. srv tr (status_request u t path) = Response st (Json (JObj kvs))
           \<and> \<not> (400 \<le> st \<and> st < 600) \<and> kvs \<noteq> []
           \<and> map_of kvs ''object_type'' = Some (JStr ''NOTEBOOK'')
           \<and> map_of kvs ''object_id'' = Some (JInt i) \<and> 0 \<le> i
         \<longrightarrow> reqs \<noteq> [])"
proof -
  obtain r tr' where g: "grant_permissions srv u t path email lvl cid tr = (r, tr')"
    by (cases "grant_permissions srv u t path email lvl cid tr") auto
  have found: "\<And>st kvs i. srv tr (status_request u t path) = Response st (Json (JObj kvs))
           \<and> \<not> (400 \<le> st \<and> st < 600) \<and> kvs \<noteq> []
           \<and> map_of kvs ''object_type'' = Some (JStr ''NOTEBOOK'')
           \<and> map_of kvs ''object_id'' = Some (JInt i) \<and> 0 \<le> i
         \<Longrightarrow> tr' \<noteq> tr @ [status_request u t path]"
    using grant_permissions_found[of srv tr u t path _ _ _ email lvl cid] g by auto
  from grant_permissions_cases[OF g]
  consider (none) "tr' = tr @ [status_request u t path]"
    | (patch) ep where
        "tr' = tr @ [status_request u t path, permissions_patch_request ep t email lvl cid]"
    by blast
  then show ?thesis
  proof cases
    case none
    then show ?thesis using g found by (intro exI[of _ "[]"]) auto
  next
    case (patch ep)
    then show ?thesis
      using g
      by (intro exI[of _ "[permissions_patch_request ep t email lvl cid]"])
         (auto simp: permissions_patch_request_def access_control_list_def cluster_given_def)
  qed
qed

theorem C9_grant_permissions_entries_witness:
  "snd (grant_permissions notebook_server (Some ''https://aws'') (Some ''awskey'') ''/nb''
          ''ada@x.org'' (JStr ''CAN_RUN'') (Some ''c-1'') [])
     = [status_request (Some ''https://aws'') (Some ''awskey'') ''/nb'',
        \<lparr>meth = PATCH, rq_url = ''https://aws/api/2.0/permissions/notebooks/42'',
         headers = get_headers (Some ''awskey''), params = [],
         body = Some (JObj [(''access_control_list'', JArr
                  [JObj [(''user_name'', JStr ''ada@x.org''), (''permission_level'', JStr ''CAN_RUN'')],
                   JObj [(''user_name'', JStr ''ada@x.org''),
                         (''permission_level'', JStr ''CAN_ATTACH_TO''),
                         (''cluster_id'', JStr ''c-1'')]])])\<rparr>]
   \<and> snd (grant_permissions notebook_server (Some ''https://aws'') (Some ''awskey'') ''/nb''
          ''ada@x.org'' (JStr ''CAN_RUN'') None [])
     = [status_request (Some ''https://aws'') (Some ''awskey'') ''/nb'',
        \<lparr>meth = PATCH, rq_url = ''https://aws/api/2.0/permissions/notebooks/42'',
         headers = get_headers (Some ''awskey''), params = [],
         body = Some (JObj [(''access_control_list'', JArr
                  [JObj [(''user_name'', JStr ''ada@x.org''), (''permission_level'', JStr ''CAN_RUN'')]])])\<rparr>]"
proof -
  let ?u = "Some ''https://aws''" and ?t = "Some ''awskey''"
  have st: "notebook_server [] (status_request ?u ?t ''/nb'')
      = Response 200 (Json (JObj [(''content'', JStr ''aGk=''), (''object_id'', JInt 42),
                               (''object_type'', JStr ''NOTEBOOK'')]))
      \<and> \<not> (400 \<le> (200::nat) \<and> (200::nat) < 600)
      \<and> [(''content'', JStr ''aGk=''), (''object_id'', JInt 42),
                               (''object_type'', JStr ''NOTEBOOK'')] \<noteq> []
      \<and> map_of [(''content'', JStr ''aGk=''), (''object_id'', JInt 42),
                               (''object_type'', JStr ''NOTEBOOK'')] ''object_type''
          = Some (JStr ''NOTEBOOK'')
      \<and> map_of [(''content'', JStr ''aGk=''), (''object_id'', JInt 42),
                               (''object_type'', JStr ''NOTEBOOK'')] ''object_id'' = Some (JInt 42)
      \<and> (0::int) \<le> 42"
    by (simp add: notebook_server_def)
  have ep: "\<And>cid. snd (grant_permissions notebook_server ?u ?t ''/nb'' ''ada@x.org''
          (JStr ''CAN_RUN'') cid [])
      = [status_request ?u ?t ''/nb'',
         permissions_patch_request ''https://aws/api/2.0/permissions/notebooks/42'' ?t
           ''ada@x.org'' (JStr ''CAN_RUN'') cid]"
    using grant_permissions_found[of notebook_server "[]" ?u ?t "''/nb''" 200 _ 42]
    by (simp add: notebook_server_def fmt_def)
  from C9_grant_permissions_entries[of notebook_server ?u ?t "''/nb''" "''ada@x.org''"
      "JStr ''CAN_RUN''" "Some ''c-1''" "[]"]
    C9_grant_permissions_entries[of notebook_server ?u ?t "''/nb''" "''ada@x.org''"
      "JStr ''CAN_RUN''" None "[]"] st
  show ?thesis
    unfolding ep by (auto simp: permissions_patch_request_def)
qed

section \<open>Round trip through a store\<close>

lemma mock_store_import:
  "mock_store base h (import_request (Some base) t p e) = Response 200 (Json (JObj []))"
  by (simp add: mock_store_def import_request_def fmt_def)

lemma mock_store_export_after_import:
  "mock_store base (h @ [import_request (Some base) t p e]) (export_request (Some base) t' p)
     = Response 200 (Json (JObj [(''content'', JStr e)]))"
  by (simp add: mock_store_def import_request_def export_request_def fmt_def py_get_def)

lemma import_then_export:
  assumes "b64encode_text s = Inr e"
  shows "import_notebook (mock_store base) (Some base) t p s tr
           = (Inr True, tr @ [import_request (Some base) t p e])
       \<and> export_notebook (mock_store base) (Some base) t p (tr @ [import_request (Some base) t p e])
           = (Inr (Some s),
              tr @ [import_request (Some base) t p e, export_request (Some base) t p])"
proof
  show "import_notebook (mock_store base) (Some base) t p s tr
           = (Inr True, tr @ [import_request (Some base) t p e])"
    using assms by (simp add: import_notebook_def mock_store_import http_defs)
  have "export_notebook (mock_store base) (Some base) t p (tr @ [import_request (Some base) t p e])
      = (Inr (Some s), (tr @ [import_request (Some base) t p e]) @ [export_request (Some base) t p])"
    by (rule export_notebook_content[where st = 200 and kvs = "[(''content'', JStr e)]" and e = e])
       (simp_all add: mock_store_export_after_import assms)
  then show "export_notebook (mock_store base) (Some base) t p
        (tr @ [import_request (Some base) t p e])
      = (Inr (Some s), tr @ [import_request (Some base) t p e, export_request (Some base) t p])"
    by simp
qed

text \<open>
  C8. Against a store that records the last write, importing a text (a sequence of
  Unicode scalar values) to a path and then exporting that path returns the same text.
  Hence whatever an export returns can be imported again to the same path, and the next
  export returns it unchanged.
\<close>

theorem C8_round_trip:
  "(\<forall>cp \<in> set s. scalar_value cp) \<longrightarrow>
     (\<exists>tr1 tr2. import_notebook (mock_store base) (Some base) t p s tr = (Inr True, tr1)
        \<and> export_notebook (mock_store base) (Some base) t p tr1 = (Inr (Some s), tr2))
   \<and> (\<forall>c tr0. export_notebook (mock_store base) (Some base) t p tr = (Inr (Some c), tr0) \<longrightarrow>
        (\<exists>tr1 tr2. import_notebook (mock_store base) (Some base) t p c tr0 = (Inr True, tr1)
           \<and> export_notebook (mock_store base) (Some base) t p tr1 = (Inr (Some c), tr2)))"
proof -
  have rt: "\<And>s tr. \<forall>cp \<in> set s. scalar_value cp \<Longrightarrow>
     \<exists>tr1 tr2. import_notebook (mock_store base) (Some base) t p s tr = (Inr True, tr1)
        \<and> export_notebook (mock_store base) (Some base) t p tr1 = (Inr (Some s), tr2)"
  proof -
    fix s :: unicode and tr :: trace
    assume "\<forall>cp \<in> set s. scalar_value cp"
    then obtain e where "b64encode_text s = Inr e" using b64encode_text_total by blast
    from import_then_export[OF this, of base t p tr] show
      "\<exists>tr1 tr2. import_notebook (mock_store base) (Some base) t p s tr = (Inr True, tr1)
        \<and> export_notebook (mock_store base) (Some base) t p tr1 = (Inr (Some s), tr2)"
      by blast
  qed
  show ?thesis
  proof (intro impI conjI allI)
    assume "\<forall>cp \<in> set s. scalar_value cp"
    then show "\<exists>tr1 tr2. import_notebook (mock_store base) (Some base) t p s tr = (Inr True, tr1)
        \<and> export_notebook (mock_store base) (Some base) t p tr1 = (Inr (Some s), tr2)"
      by (rule rt)
  next
    fix c tr0
    assume "export_notebook (mock_store base) (Some base) t p tr = (Inr (Some c), tr0)"
    then have "\<forall>cp \<in> set c. scalar_value cp" by (rule export_notebook_scalar)
    then show "\<exists>tr1 tr2. import_notebook (mock_store base) (Some base) t p c tr0 = (Inr True, tr1)
           \<and> export_notebook (mock_store base) (Some base) t p tr1 = (Inr (Some c), tr2)"
      by (rule rt)
  qed
qed

lemma euro_encode: "b64encode_text [104, 233, 8364, 128512] = Inr ''aMOp4oKs8J+YgA==''"
  by (simp add: b64encode_text_def then_do_def utf8_encode_char_def b2a_def table_b2a_base64_def)

theorem C8_round_trip_witness:
  "scalar_value 104 \<and> scalar_value 233 \<and> scalar_value 8364 \<and> scalar_value 128512
   \<and> import_notebook (mock_store ''https://staging'') (Some ''https://staging'') (Some ''s3cret'')
        ''/n1'' [104, 233, 8364, 128512] []
      = (Inr True,
         [import_request (Some ''https://staging'') (Some ''s3cret'') ''/n1'' ''aMOp4oKs8J+YgA==''])
   \<and> export_notebook (mock_store ''https://staging'') (Some ''https://staging'') (Some ''s3cret'')
        ''/n1''
        [import_request (Some ''https://staging'') (Some ''s3cret'') ''/n1'' ''aMOp4oKs8J+YgA=='']
      = (Inr (Some [104, 233, 8364, 128512]),
         [import_request (Some ''https://staging'') (Some ''s3cret'') ''/n1'' ''aMOp4oKs8J+YgA=='',
          export_request (Some ''https://staging'') (Some ''s3cret'') ''/n1''])"
proof -
  have sc: "\<forall>cp \<in> set [104, 233, 8364, 128512]. scalar_value cp"
    by (simp add: scalar_value_def)
  have imp: "import_notebook (mock_store ''https://staging'') (Some ''https://staging'')
        (Some ''s3cret'') ''/n1'' [104, 233, 8364, 128512] []
      = (Inr True,
         [import_request (Some ''https://staging'') (Some ''s3cret'') ''/n1'' ''aMOp4oKs8J+YgA==''])"
    using import_then_export[OF euro_encode, of "''https://staging''" "Some ''s3cret''" "''/n1''" "[]"]
    by simp
  from C8_round_trip[of "[104, 233, 8364, 128512]" "''https://staging''" "Some ''s3cret''"
      "''/n1''" "[]"] sc
  obtain tr1 tr2 where
    "import_notebook (mock_store ''https://staging'') (Some ''https://staging'')
        (Some ''s3cret'') ''/n1'' [104, 233, 8364, 128512] [] = (Inr True, tr1)"
    "export_notebook (mock_store ''https://staging'') (Some ''https://staging'')
        (Some ''s3cret'') ''/n1'' tr1 = (Inr (Some [104, 233, 8364, 128512]), tr2)"
    by blast
  then show ?thesis
    using sc imp export_notebook_trace[of "mock_store ''https://staging''"
        "Some ''https://staging''" "Some ''s3cret''" "''/n1''" tr1]
    by auto
qed

section \<open>The bulk migration as a whole\<close>

lemma list_notebooks_trace:
  assumes "list_notebooks srv d u t p tr = (r, tr')"
  shows "\<exists>ds. tr' = tr @ ds \<and> (\<forall>rq \<in> set ds. meth rq = GET)"
  using assms by (rule list_notebooks_trace_aux(1))

lemma list_notebooks_finite:
  assumes "list_notebooks srv d u t p tr = (Inr (ns, dirs), tr')"
  shows "finite dirs"
  using assms by (rule list_notebooks_finite_aux(1))

lemma transfer_users_and_notebooks_after_discovery:
  assumes "get_workspace_config str_upper env source_workspace = Some sc"
    and "get_workspace_config str_upper env target_workspace = Some tc"
    and "get_users srv (cfg_url sc) (cfg_token sc) [] = (Inr users, tr1)"
    and "py_iter users = Inr user_list"
    and "create_users srv tc user_list tr1 = (Inr (), tr2)"
    and "list_notebooks srv depth (cfg_url sc) (cfg_token sc) ''/'' tr2
           = (Inr (notebook_paths, directory_paths), tr3)"
  shows "transfer_users_and_notebooks str_upper env srv depth source_workspace target_workspace []
     = transfer_notebooks srv sc tc notebook_paths
         (tr3 @ map (mkdirs_request (cfg_url tc) (cfg_token tc))
                  (sorted_list_of_set directory_paths))"
  using assms
  by (simp add: transfer_users_and_notebooks_def create_directories_result)

lemma discovery_trace_not_received:
  assumes "get_users srv (cfg_url sc) (cfg_token sc) [] = (Inr users, tr1)"
    and "create_users srv tc user_list tr1 = (r2, tr2)"
    and "list_notebooks srv depth (cfg_url sc) (cfg_token sc) ''/'' tr2 = (r3, tr3)"
  shows "target_received tc tr3 = []"
proof -
  have tr1: "tr1 = [users_get_request (cfg_url sc) (cfg_token sc)]"
    using get_users_trace[of srv "cfg_url sc" "cfg_token sc" "[]"] assms(1) by simp
  from create_users_trace[OF assms(2)] obtain n where
    tr2: "tr2 = tr1 @ map (\<lambda>u. users_post_request (cfg_url tc) (cfg_token tc) (without_id u))
                        (take n user_list)"
    by blast
  from list_notebooks_trace[OF assms(3)] obtain ds where
    tr3: "tr3 = tr2 @ ds" "\<forall>rq \<in> set ds. meth rq = GET" by blast
  have "target_received tc tr1 = []"
    unfolding tr1 by (simp add: target_received_def users_get_request_def)
  then show ?thesis
    unfolding tr3(1) tr2
    by (simp add: target_received_append target_received_users target_received_GET[OF tr3(2)])
qed

lemma nested_users:
  "get_users nested_server u t tr = (Inr (JArr []), tr @ [users_get_request u t])"
  by (simp add: get_users_def users_get_request_def nested_server_def reply_defs py_len_def)

lemma five: "(5::nat) = Suc (Suc (Suc (Suc (Suc 0))))"
  by simp

lemma nested_list:
  "list_notebooks nested_server 5 u t ''/'' tr =
     (Inr ([], {''/b'', ''/a'', ''/a/b'', ''/a/b/c''}),
      tr @ [list_request u t ''/'', list_request u t ''/b'', list_request u t ''/a'',
            list_request u t ''/a/b'', list_request u t ''/a/b/c''])"
  unfolding five
  by (auto simp: list_request_def nested_server_def reply_defs py_getitem_def py_iter_def)

lemma nested_sorted:
  "sorted_list_of_set {''/b'', ''/a'', ''/a/b'', ''/a/b/c''} = [''/a'', ''/a/b'', ''/a/b/c'', ''/b'']"
  by code_simp

lemma run_nested:
  "transfer_users_and_notebooks upper_ascii scenario_env nested_server 5 ''staging'' ''PreProd'' [] =
     (Inr (),
      [users_get_request (cfg_url staging) (cfg_token staging),
       list_request (cfg_url staging) (cfg_token staging) ''/'',
       list_request (cfg_url staging) (cfg_token staging) ''/b'',
       list_request (cfg_url staging) (cfg_token staging) ''/a'',
       list_request (cfg_url staging) (cfg_token staging) ''/a/b'',
       list_request (cfg_url staging) (cfg_token staging) ''/a/b/c'',
       mkdirs_request (cfg_url preprod) (cfg_token preprod) ''/a'',
       mkdirs_request (cfg_url preprod) (cfg_token preprod) ''/a/b'',
       mkdirs_request (cfg_url preprod) (cfg_token preprod) ''/a/b/c'',
       mkdirs_request (cfg_url preprod) (cfg_token preprod) ''/b''])"
  by (simp add: transfer_users_and_notebooks_def cfg_staging cfg_preprod nested_users nested_list
      nested_sorted create_directories_result py_iter_def
      del: create_directories.simps)

lemma transfer_directories_then_notebooks:
  assumes "get_workspace_config str_upper env source_workspace = Some sc"
    and "get_workspace_config str_upper env target_workspace = Some tc"
    and "get_users srv (cfg_url sc) (cfg_token sc) [] = (Inr users, tr1)"
    and "py_iter users = Inr user_list"
    and "create_users srv tc user_list tr1 = (Inr (), tr2)"
    and "list_notebooks srv depth (cfg_url sc) (cfg_token sc) ''/'' tr2
           = (Inr (notebook_paths, directory_paths), tr3)"
  shows "\<exists>imported.
      target_received tc
          (snd (transfer_users_and_notebooks str_upper env srv depth source_workspace target_workspace []))
        = map (mkdirs_request (cfg_url tc) (cfg_token tc)) (sorted_list_of_set directory_paths)
          @ map (\<lambda>(p, e). import_request (cfg_url tc) (cfg_token tc) p e) imported
      \<and> subseq (map fst imported) notebook_paths"
proof -
  let ?ds = "sorted_list_of_set directory_paths"
  let ?mk = "map (mkdirs_request (cfg_url tc) (cfg_token tc)) ?ds"
  have run: "transfer_users_and_notebooks str_upper env srv depth source_workspace target_workspace []
      = transfer_notebooks srv sc tc notebook_paths (tr3 @ ?mk)"
    using assms by (rule transfer_users_and_notebooks_after_discovery)
  obtain r tr where t: "transfer_notebooks srv sc tc notebook_paths (tr3 @ ?mk) = (r, tr)"
    by (cases "transfer_notebooks srv sc tc notebook_paths (tr3 @ ?mk)") auto
  from transfer_notebooks_received[OF t] obtain rest imported where
    rest: "tr = (tr3 @ ?mk) @ rest"
      "target_received tc rest
         = map (\<lambda>(p, e). import_request (cfg_url tc) (cfg_token tc) p e) imported"
      "subseq (map fst imported) notebook_paths"
    by blast
  have pre: "target_received tc tr3 = []"
    using assms(3,5,6) by (rule discovery_trace_not_received)
  have "target_received tc tr
      = ?mk @ map (\<lambda>(p, e). import_request (cfg_url tc) (cfg_token tc) p e) imported"
    unfolding rest(1) by (simp add: target_received_append pre target_received_mkdirs rest(2))
  then show ?thesis
    using rest(3) unfolding run t by (intro exI[of _ imported]) simp
qed

lemma mkdirs_request_record:
  "mkdirs_request u t =
     (\<lambda>d. \<lparr>meth = POST, rq_url = fmt u @ ''/api/2.0/workspace/mkdirs'',
            headers = get_headers t, params = [], body = Some (JObj [(''path'', JStr d)])\<rparr>)"
  by (rule ext) (simp add: mkdirs_request_def)

lemma import_request_record:
  "(\<lambda>(p, e). import_request u t p e) =
     (\<lambda>(p, e). \<lparr>meth = POST, rq_url = fmt u @ ''/api/2.0/workspace/import'',
                 headers = get_headers t, params = [],
                 body = Some (JObj [(''path'', JStr p), (''format'', JStr ''SOURCE''),
                                    (''content'', JStr e), (''overwrite'', JBool True),
                                    (''language'', JStr ''PYTHON'')])\<rparr>)"
  by (rule ext) (simp add: import_request_def split: prod.splits)

text \<open>
  C1. In a run of the bulk migration whose discovery returned the notebooks
  \<open>notebook_paths\<close> and the directories \<open>directory_paths\<close>, the calls to the target's
  directory-creation and notebook-import endpoints are, in this order: one \<^verbatim>\<open>POST\<close> to
  \<^verbatim>\<open>/api/2.0/workspace/mkdirs\<close> with body \<^verbatim>\<open>{"path": d}\<close> for every discovered directory
  \<open>d\<close>, in the sorted order of the paths, and then \<^verbatim>\<open>POST\<close>s to
  \<^verbatim>\<open>/api/2.0/workspace/import\<close> whose bodies name discovered notebooks, in the order of
  their discovery. Nothing is imported before the directories are created. The sorted
  list holds every discovered directory once, and in it a directory whose path is a
  proper prefix of another's comes first.
\<close>

theorem C1_directories_then_notebooks:
  assumes "get_workspace_config str_upper env source_workspace = Some sc"
    and "get_workspace_config str_upper env target_workspace = Some tc"
    and "get_users srv (cfg_url sc) (cfg_token sc) [] = (Inr users, tr1)"
    and "py_iter users = Inr user_list"
    and "create_users srv tc user_list tr1 = (Inr (), tr2)"
    and "list_notebooks srv depth (cfg_url sc) (cfg_token sc) ''/'' tr2
           = (Inr (notebook_paths, directory_paths), tr3)"
  shows "\<exists>imported.
      target_received tc
          (snd (transfer_users_and_notebooks str_upper env srv depth source_workspace target_workspace []))
        = map (\<lambda>d. \<lparr>meth = POST, rq_url = fmt (cfg_url tc) @ ''/api/2.0/workspace/mkdirs'',
                      headers = get_headers (cfg_token tc), params = [],
                      body = Some (JObj [(''path'', JStr d)])\<rparr>)
              (sorted_list_of_set directory_paths)
          @ map (\<lambda>(p, e). \<lparr>meth = POST,
                      rq_url = fmt (cfg_url tc) @ ''/api/2.0/workspace/import'',
                      headers = get_headers (cfg_token tc), params = [],
                      body = Some (JObj [(''path'', JStr p), (''format'', JStr ''SOURCE''),
                                         (''content'', JStr e), (''overwrite'', JBool True),
                                         (''language'', JStr ''PYTHON'')])\<rparr>)
              imported
      \<and> subseq (map fst imported) notebook_paths
      \<and> set (sorted_list_of_set directory_paths) = directory_paths
      \<and> sorted (sorted_list_of_set directory_paths)
      \<and> distinct (sorted_list_of_set directory_paths)
      \<and> (\<forall>i j. i < length (sorted_list_of_set directory_paths)
             \<and> j < length (sorted_list_of_set directory_paths)
             \<and> strict_prefix (sorted_list_of_set directory_paths ! i)
                  (sorted_list_of_set directory_paths ! j)
           \<longrightarrow> i < j)"
proof -
  let ?ds = "sorted_list_of_set directory_paths"
  have fin: "finite directory_paths" using assms(6) by (rule list_notebooks_finite)
  from transfer_directories_then_notebooks[OF assms] obtain imported where
    rec: "target_received tc
          (snd (transfer_users_and_notebooks str_upper env srv depth source_workspace target_workspace []))
        = map (mkdirs_request (cfg_url tc) (cfg_token tc)) ?ds
          @ map (\<lambda>(p, e). import_request (cfg_url tc) (cfg_token tc) p e) imported"
    and sub: "subseq (map fst imported) notebook_paths"
    by blast
  have "\<forall>i j. i < length ?ds \<and> j < length ?ds \<and> strict_prefix (?ds ! i) (?ds ! j)
      \<longrightarrow> i < j"
    using sorted_parent_first[of ?ds] by simp
  then show ?thesis
    using rec[unfolded mkdirs_request_record import_request_record] sub fin
    by (intro exI[of _ imported]) simp
qed

theorem C1_directories_then_notebooks_witness:
  "map rq_url (target_received preprod
     (snd (transfer_users_and_notebooks upper_ascii scenario_env tree_server 3
             ''staging'' ''PreProd'' [])))
     = [''https://preprod/api/2.0/workspace/mkdirs'',
        ''https://preprod/api/2.0/workspace/import'',
        ''https://preprod/api/2.0/workspace/import'']
   \<and> map body (target_received preprod
     (snd (transfer_users_and_notebooks upper_ascii scenario_env tree_server 3
             ''staging'' ''PreProd'' [])))
     = [Some (JObj [(''path'', JStr ''/d1'')]),
        Some (JObj [(''path'', JStr ''/n1''), (''format'', JStr ''SOURCE''),
                    (''content'', JStr ''aGk=''), (''overwrite'', JBool True),
                    (''language'', JStr ''PYTHON'')]),
        Some (JObj [(''path'', JStr ''/n2''), (''format'', JStr ''SOURCE''),
                    (''content'', JStr ''aGk=''), (''overwrite'', JBool True),
                    (''language'', JStr ''PYTHON'')])]
   \<and> map meth (target_received preprod
     (snd (transfer_users_and_notebooks upper_ascii scenario_env tree_server 3
             ''staging'' ''PreProd'' [])))
     = [POST, POST, POST]
   \<and> map body (target_received preprod
     (snd (transfer_users_and_notebooks upper_ascii scenario_env nested_server 5
             ''staging'' ''PreProd'' [])))
     = [Some (JObj [(''path'', JStr ''/a'')]), Some (JObj [(''path'', JStr ''/a/b'')]),
        Some (JObj [(''path'', JStr ''/a/b/c'')]), Some (JObj [(''path'', JStr ''/b'')])]
   \<and> (\<exists>imported.
        target_received preprod
          (snd (transfer_users_and_notebooks upper_ascii scenario_env tree_server 3
                  ''staging'' ''PreProd'' []))
        = map (\<lambda>d. \<lparr>meth = POST,
                      rq_url = fmt (cfg_url preprod) @ ''/api/2.0/workspace/mkdirs'',
                      headers = get_headers (cfg_token preprod), params = [],
                      body = Some (JObj [(''path'', JStr d)])\<rparr>)
              (sorted_list_of_set {''/d1''})
          @ map (\<lambda>(p, e). \<lparr>meth = POST,
                      rq_url = fmt (cfg_url preprod) @ ''/api/2.0/workspace/import'',
                      headers = get_headers (cfg_token preprod), params = [],
                      body = Some (JObj [(''path'', JStr p), (''format'', JStr ''SOURCE''),
                                         (''content'', JStr e), (''overwrite'', JBool True),
                                         (''language'', JStr ''PYTHON'')])\<rparr>)
              imported
        \<and> subseq (map fst imported) [''/n1'', ''/n2''])"
proof -
  let ?tr1 = "[users_get_request (cfg_url staging) (cfg_token staging)]"
  have h3: "get_users tree_server (cfg_url staging) (cfg_token staging) [] = (Inr (JArr []), ?tr1)"
    by (simp add: tree_users)
  have h4: "py_iter (JArr []) = Inr []" by (simp add: py_iter_def)
  have h5: "create_users tree_server preprod [] ?tr1 = (Inr (), ?tr1)" by simp
  have h6: "list_notebooks tree_server 3 (cfg_url staging) (cfg_token staging) ''/'' ?tr1
      = (Inr ([''/n1'', ''/n2''], {''/d1''}),
         ?tr1 @ [list_request (cfg_url staging) (cfg_token staging) ''/'',
                 list_request (cfg_url staging) (cfg_token staging) ''/d1''])"
    by (rule tree_list)
  have ev: "target_received preprod
     (snd (transfer_users_and_notebooks upper_ascii scenario_env tree_server 3
             ''staging'' ''PreProd'' []))
     = [mkdirs_request (cfg_url preprod) (cfg_token preprod) ''/d1'',
        import_request (cfg_url preprod) (cfg_token preprod) ''/n1'' ''aGk='',
        import_request (cfg_url preprod) (cfg_token preprod) ''/n2'' ''aGk='']"
    unfolding run_tree
    by (simp add: target_received_def users_get_request_def list_request_def mkdirs_request_def
        export_request_def import_request_def)
  have ev2: "target_received preprod
     (snd (transfer_users_and_notebooks upper_ascii scenario_env nested_server 5
             ''staging'' ''PreProd'' []))
     = [mkdirs_request (cfg_url preprod) (cfg_token preprod) ''/a'',
        mkdirs_request (cfg_url preprod) (cfg_token preprod) ''/a/b'',
        mkdirs_request (cfg_url preprod) (cfg_token preprod) ''/a/b/c'',
        mkdirs_request (cfg_url preprod) (cfg_token preprod) ''/b'']"
    unfolding run_nested
    by (simp add: target_received_def users_get_request_def list_request_def mkdirs_request_def)
  have a: "map rq_url (target_received preprod
     (snd (transfer_users_and_notebooks upper_ascii scenario_env tree_server 3
             ''staging'' ''PreProd'' [])))
     = [''https://preprod/api/2.0/workspace/mkdirs'',
        ''https://preprod/api/2.0/workspace/import'',
        ''https://preprod/api/2.0/workspace/import'']"
    unfolding ev by (simp add: mkdirs_request_def import_request_def preprod_def fmt_def)
  have b: "map body (target_received preprod
     (snd (transfer_users_and_notebooks upper_ascii scenario_env tree_server 3
             ''staging'' ''PreProd'' [])))
     = [Some (JObj [(''path'', JStr ''/d1'')]),
        Some (JObj [(''path'', JStr ''/n1''), (''format'', JStr ''SOURCE''),
                    (''content'', JStr ''aGk=''), (''overwrite'', JBool True),
                    (''language'', JStr ''PYTHON'')]),
        Some (JObj [(''path'', JStr ''/n2''), (''format'', JStr ''SOURCE''),
                    (''content'', JStr ''aGk=''), (''overwrite'', JBool True),
                    (''language'', JStr ''PYTHON'')])]"
    unfolding ev by (simp add: mkdirs_request_def import_request_def)
  have c: "map meth (target_received preprod
     (snd (transfer_users_and_notebooks upper_ascii scenario_env tree_server 3
             ''staging'' ''PreProd'' [])))
     = [POST, POST, POST]"
    unfolding ev by (simp add: mkdirs_request_def import_request_def)
  have d: "map body (target_received preprod
     (snd (transfer_users_and_notebooks upper_ascii scenario_env nested_server 5
             ''staging'' ''PreProd'' [])))
     = [Some (JObj [(''path'', JStr ''/a'')]), Some (JObj [(''path'', JStr ''/a/b'')]),
        Some (JObj [(''path'', JStr ''/a/b/c'')]), Some (JObj [(''path'', JStr ''/b'')])]"
    unfolding ev2 by (simp add: mkdirs_request_def)
  from C1_directories_then_notebooks[OF cfg_staging cfg_preprod h3 h4 h5 h6]
  show ?thesis using a b c d by blast
qed

lemma transfer_skip_on_failure:
  assumes "get_workspace_config str_upper env source_workspace = Some sc"
    and "get_workspace_config str_upper env target_workspace = Some tc"
    and "get_users srv (cfg_url sc) (cfg_token sc) [] = (Inr users, tr1)"
    and "py_iter users = Inr user_list"
    and "create_users srv tc user_list tr1 = (Inr (), tr2)"
    and "list_notebooks srv depth (cfg_url sc) (cfg_token sc) ''/'' tr2
           = (Inr (notebook_paths, directory_paths), tr3)"
    and "\<forall>h. \<forall>p \<in> set notebook_paths.
           \<not> isl (fst (export_notebook srv (cfg_url sc) (cfg_token sc) p h))"
    and "tr4 = tr3 @ map (mkdirs_request (cfg_url tc) (cfg_token tc))
                       (sorted_list_of_set directory_paths)"
  shows "\<exists>segs.
      transfer_users_and_notebooks str_upper env srv depth source_workspace target_workspace []
        = (Inr (), tr4 @ concat segs)
      \<and> length segs = length notebook_paths
      \<and> (\<forall>i < length notebook_paths.
            (fst (export_notebook srv (cfg_url sc) (cfg_token sc) (notebook_paths ! i)
                    (tr4 @ concat (take i segs)))
                \<in> {Inr None, Inr (Some [])}
              \<longrightarrow> segs ! i = [export_request (cfg_url sc) (cfg_token sc) (notebook_paths ! i)])
          \<and> (\<forall>c. c \<noteq> [] \<and>
                fst (export_notebook srv (cfg_url sc) (cfg_token sc) (notebook_paths ! i)
                       (tr4 @ concat (take i segs)))
                  = Inr (Some c)
              \<longrightarrow> (\<exists>e. b64encode_text c = Inr e
                    \<and> segs ! i = [export_request (cfg_url sc) (cfg_token sc) (notebook_paths ! i),
                                  import_request (cfg_url tc) (cfg_token tc)
                                    (notebook_paths ! i) e])))"
proof -
  have run: "transfer_users_and_notebooks str_upper env srv depth source_workspace target_workspace []
      = transfer_notebooks srv sc tc notebook_paths tr4"
    unfolding assms(8) using assms(1-6) by (rule transfer_users_and_notebooks_after_discovery)
  show ?thesis
    unfolding run using assms(7) by (rule transfer_notebooks_complete)
qed

lemma flaky_users:
  "get_users flaky_server u t tr = (Inr (JArr []), tr @ [users_get_request u t])"
  by (simp add: get_users_def users_get_request_def flaky_server_def reply_defs py_len_def)

lemma flaky_list:
  "list_notebooks flaky_server 3 u t ''/'' tr =
     (Inr ([''/n1'', ''/x'', ''/n2''], {}), tr @ [list_request u t ''/''])"
  by (simp add: numeral_3_eq_3 list_request_def flaky_server_def reply_defs py_getitem_def
      py_iter_def)

lemma flaky_export_x:
  "export_notebook flaky_server u t ''/x'' h = (Inr None, h @ [export_request u t ''/x''])"
  by (simp add: export_notebook_def export_request_def flaky_server_def reply_defs)

lemma flaky_export_n:
  "export_notebook flaky_server u t [CHR ''/'', CHR ''n'', c] h =
     (Inr (Some [104, 105]), h @ [export_request u t [CHR ''/'', CHR ''n'', c]])"
  by (simp add: export_notebook_def export_request_def flaky_server_def reply_defs hi_decode)

lemma flaky_import_n1:
  "import_notebook flaky_server u t ''/n1'' [104, 105] h =
     (Inr False, h @ [import_request u t ''/n1'' ''aGk=''])"
  by (simp add: import_notebook_def import_request_def flaky_server_def reply_defs hi_encode)

lemma flaky_import_n2:
  "import_notebook flaky_server u t ''/n2'' [104, 105] h =
     (Inr True, h @ [import_request u t ''/n2'' ''aGk=''])"
  by (simp add: import_notebook_def import_request_def flaky_server_def reply_defs hi_encode)

lemma run_flaky:
  "transfer_users_and_notebooks upper_ascii scenario_env flaky_server 3 ''staging'' ''PreProd'' [] =
     (Inr (),
      [users_get_request (cfg_url staging) (cfg_token staging),
       list_request (cfg_url staging) (cfg_token staging) ''/'',
       export_request (cfg_url staging) (cfg_token staging) ''/n1'',
       import_request (cfg_url preprod) (cfg_token preprod) ''/n1'' ''aGk='',
       export_request (cfg_url staging) (cfg_token staging) ''/x'',
       export_request (cfg_url staging) (cfg_token staging) ''/n2'',
       import_request (cfg_url preprod) (cfg_token preprod) ''/n2'' ''aGk=''])"
  by (simp add: transfer_users_and_notebooks_def cfg_staging cfg_preprod flaky_users flaky_list
      flaky_export_x flaky_export_n flaky_import_n1 flaky_import_n2 py_iter_def)

lemma mixed_users:
  "get_users mixed_server u t tr = (Inr (JArr []), tr @ [users_get_request u t])"
  by (simp add: get_users_def users_get_request_def mixed_server_def reply_defs py_len_def)

lemma mixed_list:
  "list_notebooks mixed_server 3 u t ''/'' tr =
     (Inr ([''/x'', ''/y'', ''/z''], {}), tr @ [list_request u t ''/''])"
  by (simp add: numeral_3_eq_3 list_request_def mixed_server_def reply_defs py_getitem_def
      py_iter_def)

lemma mixed_export_x:
  "export_notebook mixed_server u t ''/x'' h = (Inr None, h @ [export_request u t ''/x''])"
  by (simp add: export_notebook_def export_request_def mixed_server_def reply_defs)

lemma mixed_export_y:
  "export_notebook mixed_server u t ''/y'' h = (Inl BinasciiError, h @ [export_request u t ''/y''])"
  by (simp add: export_notebook_def export_request_def mixed_server_def reply_defs
      b64decode_text_def b64decode_def a2b_base64_def a2b_def table_b2a_base64_def)

lemma mixed_export_z:
  "export_notebook mixed_server u t ''/z'' h =
     (Inr (Some [104, 105]), h @ [export_request u t ''/z''])"
  by (simp add: export_notebook_def export_request_def mixed_server_def reply_defs hi_decode)

lemma run_mixed:
  "transfer_users_and_notebooks upper_ascii scenario_env mixed_server 3 ''staging'' ''PreProd'' [] =
     (Inl BinasciiError,
      [users_get_request (cfg_url staging) (cfg_token staging),
       list_request (cfg_url staging) (cfg_token staging) ''/'',
       export_request (cfg_url staging) (cfg_token staging) ''/x'',
       export_request (cfg_url staging) (cfg_token staging) ''/y''])"
  by (simp add: transfer_users_and_notebooks_def cfg_staging cfg_preprod mixed_users mixed_list
      mixed_export_x mixed_export_y py_iter_def)

lemma empty_note_export:
  "export_notebook empty_note_server u t ''/empty'' h =
     (Inr (Some []), h @ [export_request u t ''/empty''])"
  by (rule export_notebook_no_content[where st = 200 and kvs = "[(''content'', JStr [])]"])
    (simp_all add: empty_note_server_def export_request_def)

lemma run_empty_note:
  "transfer_users_and_notebooks upper_ascii scenario_env empty_note_server 3 ''staging'' ''PreProd'' []
     = (Inr (),
        [users_get_request (cfg_url staging) (cfg_token staging),
         list_request (cfg_url staging) (cfg_token staging) ''/'',
         export_request (cfg_url staging) (cfg_token staging) ''/empty'',
         export_request (cfg_url staging) (cfg_token staging) ''/n1'',
         import_request (cfg_url preprod) (cfg_token preprod) ''/n1'' ''aGk=''])"
  by (simp add: transfer_users_and_notebooks_def cfg_staging cfg_preprod empty_note_users
      empty_note_list empty_note_export empty_note_export_n1 empty_note_import py_iter_def)

text \<open>
  C5 (as amended). In a run of the bulk migration whose discovery returned
  \<open>notebook_paths\<close>, if no export raises (each returns the failure sentinel or a text),
  the run completes and every discovered notebook is handled in turn, each on its own: a
  notebook whose export returned the sentinel \<^verbatim>\<open>None\<close> or the empty string gets its export
  call (\<^verbatim>\<open>GET /api/2.0/workspace/export\<close> with its path) and nothing else, and a notebook
  whose export returned a non-empty text gets its export call followed by the import
  (\<^verbatim>\<open>POST /api/2.0/workspace/import\<close>) of that text, base64-encoded, to the same path on the
  target. Neither a failed export nor the response to an import stops the notebooks
  after it.
\<close>

theorem C5_skip_on_failure:
  assumes "get_workspace_config str_upper env source_workspace = Some sc"
    and "get_workspace_config str_upper env target_workspace = Some tc"
    and "get_users srv (cfg_url sc) (cfg_token sc) [] = (Inr users, tr1)"
    and "py_iter users = Inr user_list"
    and "create_users srv tc user_list tr1 = (Inr (), tr2)"
    and "list_notebooks srv depth (cfg_url sc) (cfg_token sc) ''/'' tr2
           = (Inr (notebook_paths, directory_paths), tr3)"
    and "\<forall>h. \<forall>p \<in> set notebook_paths.
           \<not> isl (fst (export_notebook srv (cfg_url sc) (cfg_token sc) p h))"
    and "tr4 = tr3 @ map (\<lambda>d. \<lparr>meth = POST,
                               rq_url = fmt (cfg_url tc) @ ''/api/2.0/workspace/mkdirs'',
                               headers = get_headers (cfg_token tc), params = [],
                               body = Some (JObj [(''path'', JStr d)])\<rparr>)
                       (sorted_list_of_set directory_paths)"
  shows "\<exists>segs.
      transfer_users_and_notebooks str_upper env srv depth source_workspace target_workspace []
        = (Inr (), tr4 @ concat segs)
      \<and> length segs = length notebook_paths
      \<and> (\<forall>i < length notebook_paths.
            (fst (export_notebook srv (cfg_url sc) (cfg_token sc) (notebook_paths ! i)
                    (tr4 @ concat (take i segs)))
                \<in> {Inr None, Inr (Some [])}
              \<longrightarrow> segs ! i =
                    [\<lparr>meth = GET, rq_url = fmt (cfg_url sc) @ ''/api/2.0/workspace/export'',
                      headers = get_headers (cfg_token sc),
                      params = [(''path'', notebook_paths ! i), (''format'', ''SOURCE'')],
                      body = None\<rparr>])
          \<and> (\<forall>c. c \<noteq> [] \<and>
                fst (export_notebook srv (cfg_url sc) (cfg_token sc) (notebook_paths ! i)
                       (tr4 @ concat (take i segs)))
                  = Inr (Some c)
              \<longrightarrow> (\<exists>e. b64encode_text c = Inr e
                    \<and> segs ! i =
                        [\<lparr>meth = GET,
                          rq_url = fmt (cfg_url sc) @ ''/api/2.0/workspace/export'',
                          headers = get_headers (cfg_token sc),
                          params = [(''path'', notebook_paths ! i), (''format'', ''SOURCE'')],
                          body = None\<rparr>,
                         \<lparr>meth = POST,
                          rq_url = fmt (cfg_url tc) @ ''/api/2.0/workspace/import'',
                          headers = get_headers (cfg_token tc), params = [],
                          body = Some (JObj [(''path'', JStr (notebook_paths ! i)),
                                             (''format'', JStr ''SOURCE''),
                                             (''content'', JStr e),
                                             (''overwrite'', JBool True),
                                             (''language'', JStr ''PYTHON'')])\<rparr>])))"
proof -
  have tr4: "tr4 = tr3 @ map (mkdirs_request (cfg_url tc) (cfg_token tc))
                          (sorted_list_of_set directory_paths)"
    unfolding mkdirs_request_record by (rule assms(8))
  show ?thesis
    using transfer_skip_on_failure[OF assms(1-7) tr4,
        unfolded export_request_def import_request_def] .
qed

theorem C5_skip_on_failure_witness:
  "fst (transfer_users_and_notebooks upper_ascii scenario_env flaky_server 3
          ''staging'' ''PreProd'' []) = Inr ()
   \<and> map meth (snd (transfer_users_and_notebooks upper_ascii scenario_env flaky_server 3
          ''staging'' ''PreProd'' []))
       = [GET, GET, GET, POST, GET, GET, POST]
   \<and> map rq_url (snd (transfer_users_and_notebooks upper_ascii scenario_env flaky_server 3
          ''staging'' ''PreProd'' []))
       = [''https://staging/api/2.0/preview/scim/v2/Users'',
          ''https://staging/api/2.0/workspace/list'',
          ''https://staging/api/2.0/workspace/export'',
          ''https://preprod/api/2.0/workspace/import'',
          ''https://staging/api/2.0/workspace/export'',
          ''https://staging/api/2.0/workspace/export'',
          ''https://preprod/api/2.0/workspace/import'']
   \<and> map params (snd (transfer_users_and_notebooks upper_ascii scenario_env flaky_server 3
          ''staging'' ''PreProd'' []))
       = [[], [(''path'', ''/'')],
          [(''path'', ''/n1''), (''format'', ''SOURCE'')], [],
          [(''path'', ''/x''), (''format'', ''SOURCE'')],
          [(''path'', ''/n2''), (''format'', ''SOURCE'')], []]
   \<and> map body (snd (transfer_users_and_notebooks upper_ascii scenario_env flaky_server 3
          ''staging'' ''PreProd'' []))
       = [None, None, None,
          Some (JObj [(''path'', JStr ''/n1''), (''format'', JStr ''SOURCE''),
                      (''content'', JStr ''aGk=''), (''overwrite'', JBool True),
                      (''language'', JStr ''PYTHON'')]),
          None, None,
          Some (JObj [(''path'', JStr ''/n2''), (''format'', JStr ''SOURCE''),
                      (''content'', JStr ''aGk=''), (''overwrite'', JBool True),
                      (''language'', JStr ''PYTHON'')])]
   \<and> fst (import_notebook flaky_server (cfg_url preprod) (cfg_token preprod) ''/n1'' [104, 105]
            [users_get_request (cfg_url staging) (cfg_token staging),
             list_request (cfg_url staging) (cfg_token staging) ''/'',
             export_request (cfg_url staging) (cfg_token staging) ''/n1''])
       = Inr False
   \<and> (\<exists>segs.
        transfer_users_and_notebooks upper_ascii scenario_env flaky_server 3 ''staging'' ''PreProd'' []
          = (Inr (),
             [users_get_request (cfg_url staging) (cfg_token staging),
              list_request (cfg_url staging) (cfg_token staging) ''/''] @ concat segs)
        \<and> length segs = length [''/n1'', ''/x'', ''/n2''])"
proof -
  let ?tr1 = "[users_get_request (cfg_url staging) (cfg_token staging)]"
  let ?tr3 = "[users_get_request (cfg_url staging) (cfg_token staging),
              list_request (cfg_url staging) (cfg_token staging) ''/'']"
  have h3: "get_users flaky_server (cfg_url staging) (cfg_token staging) [] = (Inr (JArr []), ?tr1)"
    by (simp add: flaky_users)
  have h4: "py_iter (JArr []) = Inr []" by (simp add: py_iter_def)
  have h5: "create_users flaky_server preprod [] ?tr1 = (Inr (), ?tr1)" by simp
  have h6: "list_notebooks flaky_server 3 (cfg_url staging) (cfg_token staging) ''/'' ?tr1
      = (Inr ([''/n1'', ''/x'', ''/n2''], {}), ?tr3)"
    by (simp add: flaky_list)
  have h7: "\<forall>h. \<forall>p \<in> set [''/n1'', ''/x'', ''/n2''].
      \<not> isl (fst (export_notebook flaky_server (cfg_url staging) (cfg_token staging) p h))"
    by (simp add: flaky_export_x flaky_export_n)
  have h8: "?tr3 = ?tr3 @ map (\<lambda>d. \<lparr>meth = POST,
                               rq_url = fmt (cfg_url preprod) @ ''/api/2.0/workspace/mkdirs'',
                               headers = get_headers (cfg_token preprod), params = [],
                               body = Some (JObj [(''path'', JStr d)])\<rparr>)
      (sorted_list_of_set ({}::string set))"
    by simp
  have ev: "map meth (snd (transfer_users_and_notebooks upper_ascii scenario_env flaky_server 3
          ''staging'' ''PreProd'' []))
       = [GET, GET, GET, POST, GET, GET, POST]"
    "map rq_url (snd (transfer_users_and_notebooks upper_ascii scenario_env flaky_server 3
          ''staging'' ''PreProd'' []))
       = [''https://staging/api/2.0/preview/scim/v2/Users'',
          ''https://staging/api/2.0/workspace/list'',
          ''https://staging/api/2.0/workspace/export'',
          ''https://preprod/api/2.0/workspace/import'',
          ''https://staging/api/2.0/workspace/export'',
          ''https://staging/api/2.0/workspace/export'',
          ''https://preprod/api/2.0/workspace/import'']"
    "map params (snd (transfer_users_and_notebooks upper_ascii scenario_env flaky_server 3
          ''staging'' ''PreProd'' []))
       = [[], [(''path'', ''/'')],
          [(''path'', ''/n1''), (''format'', ''SOURCE'')], [],
          [(''path'', ''/x''), (''format'', ''SOURCE'')],
          [(''path'', ''/n2''), (''format'', ''SOURCE'')], []]"
    "map body (snd (transfer_users_and_notebooks upper_ascii scenario_env flaky_server 3
          ''staging'' ''PreProd'' []))
       = [None, None, None,
          Some (JObj [(''path'', JStr ''/n1''), (''format'', JStr ''SOURCE''),
                      (''content'', JStr ''aGk=''), (''overwrite'', JBool True),
                      (''language'', JStr ''PYTHON'')]),
          None, None,
          Some (JObj [(''path'', JStr ''/n2''), (''format'', JStr ''SOURCE''),
                      (''content'', JStr ''aGk=''), (''overwrite'', JBool True),
                      (''language'', JStr ''PYTHON'')])]"
    unfolding run_flaky
    by (simp_all add: users_get_request_def list_request_def export_request_def
        import_request_def staging_def preprod_def fmt_def)
  from C5_skip_on_failure[OF cfg_staging cfg_preprod h3 h4 h5 h6 h7 h8]
  show ?thesis
    using run_flaky flaky_import_n1 ev by auto
qed

text \<open>
  The claim as the specification has it fails on two counts. With the notebooks \<^verbatim>\<open>/x\<close>,
  \<^verbatim>\<open>/y\<close> and \<^verbatim>\<open>/z\<close> discovered, the export of \<^verbatim>\<open>/x\<close> returning the sentinel and the export
  of \<^verbatim>\<open>/y\<close> answered with a content field that is not base64, the run ends in
  \<^verbatim>\<open>binascii.Error\<close> after the export of \<^verbatim>\<open>/y\<close>: the notebook \<^verbatim>\<open>/z\<close>, whose export would
  succeed, is never exported. And a notebook whose export succeeds with the empty text
  is not imported.
\<close>

theorem C5_counterexample:
  "fst (export_notebook mixed_server (Some ''https://staging'') (Some ''s3cret'') ''/x'' [])
     = Inr None
   \<and> fst (export_notebook mixed_server (Some ''https://staging'') (Some ''s3cret'') ''/z'' [])
     = Inr (Some [104, 105])
   \<and> fst (transfer_users_and_notebooks upper_ascii scenario_env mixed_server 3
            ''staging'' ''PreProd'' []) = Inl BinasciiError
   \<and> map rq_url (snd (transfer_users_and_notebooks upper_ascii scenario_env mixed_server 3
            ''staging'' ''PreProd'' []))
       = [''https://staging/api/2.0/preview/scim/v2/Users'',
          ''https://staging/api/2.0/workspace/list'',
          ''https://staging/api/2.0/workspace/export'',
          ''https://staging/api/2.0/workspace/export'']
   \<and> map params (snd (transfer_users_and_notebooks upper_ascii scenario_env mixed_server 3
            ''staging'' ''PreProd'' []))
       = [[], [(''path'', ''/'')],
          [(''path'', ''/x''), (''format'', ''SOURCE'')],
          [(''path'', ''/y''), (''format'', ''SOURCE'')]]
   \<and> fst (export_notebook empty_note_server (Some ''https://staging'') (Some ''s3cret'')
            ''/empty'' []) = Inr (Some [])
   \<and> fst (transfer_users_and_notebooks upper_ascii scenario_env empty_note_server 3
            ''staging'' ''PreProd'' []) = Inr ()
   \<and> map body (target_received preprod
        (snd (transfer_users_and_notebooks upper_ascii scenario_env empty_note_server 3
            ''staging'' ''PreProd'' [])))
       = [Some (JObj [(''path'', JStr ''/n1''), (''format'', JStr ''SOURCE''),
                      (''content'', JStr ''aGk=''), (''overwrite'', JBool True),
                      (''language'', JStr ''PYTHON'')])]"
proof -
  have "map rq_url (snd (transfer_users_and_notebooks upper_ascii scenario_env mixed_server 3
            ''staging'' ''PreProd'' []))
       = [''https://staging/api/2.0/preview/scim/v2/Users'',
          ''https://staging/api/2.0/workspace/list'',
          ''https://staging/api/2.0/workspace/export'',
          ''https://staging/api/2.0/workspace/export'']"
    "map params (snd (transfer_users_and_notebooks upper_ascii scenario_env mixed_server 3
            ''staging'' ''PreProd'' []))
       = [[], [(''path'', ''/'')],
          [(''path'', ''/x''), (''format'', ''SOURCE'')],
          [(''path'', ''/y''), (''format'', ''SOURCE'')]]"
    unfolding run_mixed
    by (simp_all add: users_get_request_def list_request_def export_request_def
        staging_def fmt_def)
  moreover have "map body (target_received preprod
        (snd (transfer_users_and_notebooks upper_ascii scenario_env empty_note_server 3
            ''staging'' ''PreProd'' [])))
       = [Some (JObj [(''path'', JStr ''/n1''), (''format'', JStr ''SOURCE''),
                      (''content'', JStr ''aGk=''), (''overwrite'', JBool True),
                      (''language'', JStr ''PYTHON'')])]"
    unfolding run_empty_note
    by (simp add: target_received_def users_get_request_def list_request_def
        export_request_def import_request_def)
  ultimately show ?thesis
    by (simp add: run_mixed run_empty_note mixed_export_x mixed_export_z empty_note_export)
qed

section \<open>User records\<close>

lemma user_creation_GET:
  "\<forall>rq \<in> set ds. meth rq = GET \<Longrightarrow> filter (is_user_creation cfg) ds = []"
  by (induction ds) (auto simp: is_user_creation_def)

lemma user_creation_mkdirs:
  "filter (is_user_creation cfg) (map (mkdirs_request (cfg_url cfg) t) ds) = []"
  by (induction ds) (simp_all add: is_user_creation_def mkdirs_request_def)

lemma user_creation_posts:
  "filter (is_user_creation cfg) (map (\<lambda>u. users_post_request (cfg_url cfg) t (f u)) us)
     = map (\<lambda>u. users_post_request (cfg_url cfg) t (f u)) us"
  by (induction us) (simp_all add: is_user_creation_def users_post_request_def)

lemma transfer_notebooks_no_user_creation:
  "transfer_notebooks srv sc tc ps tr = (r, tr') \<Longrightarrow>
     \<exists>rest. tr' = tr @ rest \<and> filter (is_user_creation tc) rest = []"
proof (induction ps arbitrary: tr)
  case Nil
  then show ?case by simp
next
  case (Cons p ps)
  let ?E = "export_request (cfg_url sc) (cfg_token sc) p"
  have E: "\<not> is_user_creation tc ?E"
    by (simp add: is_user_creation_def export_request_def)
  have I: "\<And>e. \<not> is_user_creation tc (import_request (cfg_url tc) (cfg_token tc) p e)"
    by (simp add: is_user_creation_def import_request_def)
  obtain x tr1 where ex: "export_notebook srv (cfg_url sc) (cfg_token sc) p tr = (x, tr1)"
    by (cases "export_notebook srv (cfg_url sc) (cfg_token sc) p tr") auto
  have tr1: "tr1 = tr @ [?E]"
    using export_notebook_trace[of srv "cfg_url sc" "cfg_token sc" p tr] ex by simp
  have stop: "tr' = tr1 \<Longrightarrow> ?case"
    using tr1 E by simp
  have continue: "\<And>mid. transfer_notebooks srv sc tc ps (tr1 @ mid) = (r, tr') \<Longrightarrow>
      filter (is_user_creation tc) mid = [] \<Longrightarrow> ?case"
  proof -
    fix mid
    assume a: "transfer_notebooks srv sc tc ps (tr1 @ mid) = (r, tr')"
      and b: "filter (is_user_creation tc) mid = []"
    from Cons.IH[OF a] obtain rest where "tr' = (tr1 @ mid) @ rest"
      "filter (is_user_creation tc) rest = []" by blast
    then show ?case using tr1 E b by (intro exI[of _ "?E # mid @ rest"]) simp
  qed
  show ?case
  proof (cases x)
    case (Inl e)
    then show ?thesis using Cons.prems ex by (intro stop) simp
  next
    case (Inr content)
    show ?thesis
    proof (cases "content = None \<or> content = Some []")
      case True
      then have "transfer_notebooks srv sc tc ps (tr1 @ []) = (r, tr')"
        using Cons.prems ex Inr by auto
      then show ?thesis by (rule continue) simp
    next
      case False
      then obtain c where c: "content = Some c" "c \<noteq> []" by (cases content) auto
      obtain y tr2 where imp: "import_notebook srv (cfg_url tc) (cfg_token tc) p c tr1 = (y, tr2)"
        by (cases "import_notebook srv (cfg_url tc) (cfg_token tc) p c tr1") auto
      from import_notebook_cases[OF imp]
      consider (raised) "tr2 = tr1" "isl y"
        | (sent) e where "tr2 = tr1 @ [import_request (cfg_url tc) (cfg_token tc) p e]"
        by blast
      then show ?thesis
      proof cases
        case raised
        then have "tr' = tr1" using Cons.prems ex Inr c imp by (cases y) auto
        then show ?thesis by (rule stop)
      next
        case (sent e)
        show ?thesis
        proof (cases y)
          case (Inl err)
          then have "tr' = tr2" using Cons.prems ex Inr c imp by auto
          then show ?thesis
            using tr1 sent E I[of e]
            by (intro exI[of _ "[?E, import_request (cfg_url tc) (cfg_token tc) p e]"]) simp
        next
          case ok: (Inr ok)
          then have "transfer_notebooks srv sc tc ps
              (tr1 @ [import_request (cfg_url tc) (cfg_token tc) p e]) = (r, tr')"
            using Cons.prems ex Inr c imp sent by auto
          then show ?thesis by (rule continue) (simp add: I)
        qed
      qed
    qed
  qed
qed

lemma transfer_users_and_notebooks_after_users:
  assumes "get_workspace_config str_upper env source_workspace = Some sc"
    and "get_workspace_config str_upper env target_workspace = Some tc"
    and "get_users srv (cfg_url sc) (cfg_token sc) [] = (Inr users, tr1)"
    and "py_iter users = Inr user_list"
    and "create_users srv tc user_list tr1 = (r2, tr2)"
  shows "\<exists>more.
      snd (transfer_users_and_notebooks str_upper env srv depth source_workspace target_workspace [])
        = tr2 @ more
      \<and> filter (is_user_creation tc) more = []
      \<and> (fst (transfer_users_and_notebooks str_upper env srv depth source_workspace target_workspace [])
            = Inr () \<longrightarrow> r2 = Inr ())"
proof (cases r2)
  case (Inl e)
  then have "transfer_users_and_notebooks str_upper env srv depth source_workspace target_workspace []
      = (Inl e, tr2)"
    using assms by (simp add: transfer_users_and_notebooks_def)
  then show ?thesis by (intro exI[of _ "[]"]) simp
next
  case (Inr u)
  obtain r3 tr3 where l: "list_notebooks srv depth (cfg_url sc) (cfg_token sc) ''/'' tr2 = (r3, tr3)"
    by (cases "list_notebooks srv depth (cfg_url sc) (cfg_token sc) ''/'' tr2") auto
  from list_notebooks_trace[OF l] obtain ds where
    ds: "tr3 = tr2 @ ds" "\<forall>rq \<in> set ds. meth rq = GET" by blast
  have fds: "filter (is_user_creation tc) ds = []" using ds(2) by (rule user_creation_GET)
  show ?thesis
  proof (cases r3)
    case e: (Inl e)
    then have "transfer_users_and_notebooks str_upper env srv depth source_workspace target_workspace []
        = (Inl e, tr3)"
      using assms Inr l by (simp add: transfer_users_and_notebooks_def)
    then show ?thesis using ds(1) fds Inr by (intro exI[of _ ds]) simp
  next
    case found: (Inr found)
    obtain nbs dirs where nd: "found = (nbs, dirs)" by (cases found)
    let ?mk = "map (mkdirs_request (cfg_url tc) (cfg_token tc)) (sorted_list_of_set dirs)"
    have run: "transfer_users_and_notebooks str_upper env srv depth source_workspace target_workspace []
        = transfer_notebooks srv sc tc nbs (tr3 @ ?mk)"
      using assms Inr l found nd
      by (simp add: transfer_users_and_notebooks_def create_directories_result)
    obtain r tr where t: "transfer_notebooks srv sc tc nbs (tr3 @ ?mk) = (r, tr)"
      by (cases "transfer_notebooks srv sc tc nbs (tr3 @ ?mk)") auto
    from transfer_notebooks_no_user_creation[OF t] obtain rest where
      rest: "tr = (tr3 @ ?mk) @ rest" "filter (is_user_creation tc) rest = []" by blast
    show ?thesis
      unfolding run t using rest ds(1) fds Inr
      by (intro exI[of _ "ds @ ?mk @ rest"]) (simp add: user_creation_mkdirs)
  qed
qed

text \<open>
  C6. In a run of the bulk migration that fetched the user records \<open>user_list\<close> from the
  source, the payloads sent to the user-creation endpoint of the target are, in order,
  the first \<open>n\<close> fetched records, each with its \<^verbatim>\<open>id\<close> field removed and every other field
  unchanged; none of them has an \<^verbatim>\<open>id\<close> field; and all records are sent (\<open>n\<close> is their
  number) when the run completes.
\<close>

theorem C6_user_id_stripped:
  assumes "get_workspace_config str_upper env source_workspace = Some sc"
    and "get_workspace_config str_upper env target_workspace = Some tc"
    and "get_users srv (cfg_url sc) (cfg_token sc) [] = (Inr users, tr1)"
    and "py_iter users = Inr user_list"
  shows "\<exists>n \<le> length user_list.
      map body (filter (is_user_creation tc)
        (snd (transfer_users_and_notebooks str_upper env srv depth source_workspace target_workspace [])))
        = map (\<lambda>u. Some (without_id u)) (take n user_list)
      \<and> (\<forall>u \<in> set (take n user_list). \<exists>kvs. u = JObj kvs
            \<and> without_id u = JObj (filter (\<lambda>kv. fst kv \<noteq> ''id'') kvs)
            \<and> ''id'' \<notin> fst ` set (filter (\<lambda>kv. fst kv \<noteq> ''id'') kvs))
      \<and> (fst (transfer_users_and_notebooks str_upper env srv depth source_workspace target_workspace [])
            = Inr () \<longrightarrow> n = length user_list)"
proof -
  let ?post = "\<lambda>u. users_post_request (cfg_url tc) (cfg_token tc) (without_id u)"
  obtain r2 tr2 where cu: "create_users srv tc user_list tr1 = (r2, tr2)"
    by (cases "create_users srv tc user_list tr1") auto
  from create_users_trace[OF cu] obtain n where n: "n \<le> length user_list"
    "tr2 = tr1 @ map ?post (take n user_list)"
    "\<forall>u \<in> set (take n user_list). \<exists>kvs. u = JObj kvs"
    "r2 = Inr () \<longrightarrow> n = length user_list"
    by blast
  from transfer_users_and_notebooks_after_users[OF assms cu, of depth] obtain more where
    more: "snd (transfer_users_and_notebooks str_upper env srv depth source_workspace target_workspace [])
        = tr2 @ more"
      "filter (is_user_creation tc) more = []"
      "fst (transfer_users_and_notebooks str_upper env srv depth source_workspace target_workspace [])
            = Inr () \<longrightarrow> r2 = Inr ()"
    by blast
  have tr1: "tr1 = [users_get_request (cfg_url sc) (cfg_token sc)]"
    using get_users_trace[of srv "cfg_url sc" "cfg_token sc" "[]"] assms(3) by simp
  have f1: "filter (is_user_creation tc) tr1 = []"
    unfolding tr1 by (simp add: is_user_creation_def users_get_request_def)
  have "filter (is_user_creation tc) (tr2 @ more) = map ?post (take n user_list)"
    unfolding n(2) by (simp add: f1 more(2) user_creation_posts)
  then have "map body (filter (is_user_creation tc) (tr2 @ more))
      = map (\<lambda>u. Some (without_id u)) (take n user_list)"
    by (simp add: users_post_request_def comp_def)
  moreover have "\<forall>u \<in> set (take n user_list). \<exists>kvs. u = JObj kvs
            \<and> without_id u = JObj (filter (\<lambda>kv. fst kv \<noteq> ''id'') kvs)
            \<and> ''id'' \<notin> fst ` set (filter (\<lambda>kv. fst kv \<noteq> ''id'') kvs)"
  proof
    fix u assume "u \<in> set (take n user_list)"
    then obtain kvs where "u = JObj kvs" using n(3) by blast
    then show "\<exists>kvs. u = JObj kvs
            \<and> without_id u = JObj (filter (\<lambda>kv. fst kv \<noteq> ''id'') kvs)
            \<and> ''id'' \<notin> fst ` set (filter (\<lambda>kv. fst kv \<noteq> ''id'') kvs)"
      by (intro exI[of _ kvs]) (auto simp: without_id_def)
  qed
  ultimately show ?thesis
    using n(1,4) more(3) unfolding more(1) by (intro exI[of _ n]) simp
qed

lemma users_server_users:
  "get_users users_server u t tr =
     (Inr (JArr [JObj [(''id'', JStr ''17''), (''userName'', JStr ''a@x.org''), (''active'', JBool True)],
                 JObj [(''userName'', JStr ''b@x.org''), (''id'', JStr ''18'')]]),
      tr @ [users_get_request u t])"
  by (simp add: get_users_def users_get_request_def users_server_def reply_defs py_len_def)

lemma users_server_create_a:
  "create_user users_server u t (JObj [(''userName'', JStr ''a@x.org''), (''active'', JBool True)]) tr
     = (Inr True, tr @ [users_post_request u t
          (JObj [(''userName'', JStr ''a@x.org''), (''active'', JBool True)])])"
  by (simp add: create_user_def users_post_request_def users_server_def reply_defs py_getitem_def)

lemma users_server_create_b:
  "create_user users_server u t (JObj [(''userName'', JStr ''b@x.org'')]) tr
     = (Inr False, tr @ [users_post_request u t (JObj [(''userName'', JStr ''b@x.org'')])])"
  by (simp add: create_user_def users_post_request_def users_server_def reply_defs py_getitem_def)

lemma users_server_list:
  "list_notebooks users_server 3 u t ''/'' tr = (Inr ([], {}), tr @ [list_request u t ''/''])"
  by (simp add: numeral_3_eq_3 list_request_def users_server_def reply_defs)

lemma run_users:
  "transfer_users_and_notebooks upper_ascii scenario_env users_server 3 ''staging'' ''PreProd'' [] =
     (Inr (),
      [users_get_request (cfg_url staging) (cfg_token staging),
       users_post_request (cfg_url preprod) (cfg_token preprod)
         (JObj [(''userName'', JStr ''a@x.org''), (''active'', JBool True)]),
       users_post_request (cfg_url preprod) (cfg_token preprod)
         (JObj [(''userName'', JStr ''b@x.org'')]),
       list_request (cfg_url staging) (cfg_token staging) ''/''])"
  by (simp add: transfer_users_and_notebooks_def cfg_staging cfg_preprod users_server_users
      users_server_create_a users_server_create_b users_server_list py_iter_def py_pop_def
      py_getitem_def hashable_def)

theorem C6_user_id_stripped_witness:
  "map body (filter (is_user_creation preprod)
     (snd (transfer_users_and_notebooks upper_ascii scenario_env users_server 3 ''staging'' ''PreProd'' [])))
     = [Some (JObj [(''userName'', JStr ''a@x.org''), (''active'', JBool True)]),
        Some (JObj [(''userName'', JStr ''b@x.org'')])]
   \<and> (\<exists>n \<le> 2.
        map body (filter (is_user_creation preprod)
          (snd (transfer_users_and_notebooks upper_ascii scenario_env users_server 3 ''staging'' ''PreProd'' [])))
        = map (\<lambda>u. Some (without_id u))
            (take n [JObj [(''id'', JStr ''17''), (''userName'', JStr ''a@x.org''),
                           (''active'', JBool True)],
                     JObj [(''userName'', JStr ''b@x.org''), (''id'', JStr ''18'')]]))"
proof -
  have h3: "get_users users_server (cfg_url staging) (cfg_token staging) [] =
     (Inr (JArr [JObj [(''id'', JStr ''17''), (''userName'', JStr ''a@x.org''), (''active'', JBool True)],
                 JObj [(''userName'', JStr ''b@x.org''), (''id'', JStr ''18'')]]),
      [users_get_request (cfg_url staging) (cfg_token staging)])"
    by (simp add: users_server_users)
  have h4: "py_iter (JArr [JObj [(''id'', JStr ''17''), (''userName'', JStr ''a@x.org''), (''active'', JBool True)],
                 JObj [(''userName'', JStr ''b@x.org''), (''id'', JStr ''18'')]])
      = Inr [JObj [(''id'', JStr ''17''), (''userName'', JStr ''a@x.org''), (''active'', JBool True)],
             JObj [(''userName'', JStr ''b@x.org''), (''id'', JStr ''18'')]]"
    by (simp add: py_iter_def)
  have ev: "map body (filter (is_user_creation preprod)
     (snd (transfer_users_and_notebooks upper_ascii scenario_env users_server 3 ''staging'' ''PreProd'' [])))
     = [Some (JObj [(''userName'', JStr ''a@x.org''), (''active'', JBool True)]),
        Some (JObj [(''userName'', JStr ''b@x.org'')])]"
    unfolding run_users
    by (simp add: is_user_creation_def users_get_request_def users_post_request_def
        list_request_def staging_def preprod_def fmt_def)
  from C6_user_id_stripped[OF cfg_staging cfg_preprod h3 h4, of 3]
  obtain n where n: "n \<le> length [JObj [(''id'', JStr ''17''), (''userName'', JStr ''a@x.org''),
                           (''active'', JBool True)],
                     JObj [(''userName'', JStr ''b@x.org''), (''id'', JStr ''18'')]]"
    "map body (filter (is_user_creation preprod)
          (snd (transfer_users_and_notebooks upper_ascii scenario_env users_server 3 ''staging'' ''PreProd'' [])))
        = map (\<lambda>u. Some (without_id u))
            (take n [JObj [(''id'', JStr ''17''), (''userName'', JStr ''a@x.org''),
                           (''active'', JBool True)],
                     JObj [(''userName'', JStr ''b@x.org''), (''id'', JStr ''18'')]])"
    by blast
  have "n \<le> 2" using n(1) by simp
  then show ?thesis using ev n(2) by blast
qed

section \<open>The single-notebook sync\<close>

lemma fetch_notebook_from_github_trace:
  "snd (fetch_notebook_from_github srv owner repo p token tr)
     = tr @ [github_request owner repo p token]"
  by (simp add: fetch_notebook_from_github_def send_def)

lemma import_notebook_mc_prefix:
  "import_notebook_mc srv u t c name dir tr = (r, tr') \<Longrightarrow> prefix tr tr'"
  by (auto simp: import_notebook_mc_def send_def Let_def split: sum.splits)

lemma get_notebook_id_trace:
  "snd (get_notebook_id srv u t p tr) = tr @ [status_request u t p]"
  by (simp add: get_notebook_id_def send_def)

lemma get_notebook_id_prefix:
  "get_notebook_id srv u t p tr = (r, tr') \<Longrightarrow> prefix tr tr'"
  using get_notebook_id_trace[of srv u t p tr] by simp

lemma get_permissions_prefix:
  "get_permissions srv u t p tr = (r, tr') \<Longrightarrow> prefix tr tr'"
proof -
  assume g: "get_permissions srv u t p tr = (r, tr')"
  obtain x tr1 where s: "get_object_status srv u t p tr = (x, tr1)"
    by (cases "get_object_status srv u t p tr") auto
  have tr1: "tr1 = tr @ [status_request u t p]"
    using get_object_status_trace[of srv u t p tr] s by simp
  have "tr' = tr1 \<or> (\<exists>rq. tr' = tr1 @ [rq])"
    using g s
    by (auto simp: get_permissions_def send_def Let_def
        split: sum.splits option.splits if_splits prod.splits)
  then show ?thesis using tr1 by auto
qed

lemma apply_permissions_requests:
  "apply_permissions srv cfg path items cl tr = (r, tr') \<Longrightarrow>
     \<exists>rest. tr' = tr @ rest
       \<and> (\<forall>rq \<in> set rest. rq = status_request (cfg_url cfg) (cfg_token cfg) path
            \<or> (\<exists>ep who level. (who, level) \<in> set items
                  \<and> rq = permissions_patch_request ep (cfg_token cfg) who level cl))"
proof (induction items arbitrary: tr)
  case Nil
  then show ?case by simp
next
  case (Cons item items)
  obtain who level where item: "item = (who, level)" by (cases item)
  obtain x tr1 where g: "grant_permissions srv (cfg_url cfg) (cfg_token cfg) path who level cl tr
      = (x, tr1)"
    by (cases "grant_permissions srv (cfg_url cfg) (cfg_token cfg) path who level cl tr") auto
  have "\<exists>mid. tr1 = tr @ mid
    \<and> (\<forall>rq \<in> set mid. rq = status_request (cfg_url cfg) (cfg_token cfg) path
        \<or> (\<exists>ep. rq = permissions_patch_request ep (cfg_token cfg) who level cl))"
    using grant_permissions_cases[OF g]
  proof (elim disjE exE conjE)
    assume "tr1 = tr @ [status_request (cfg_url cfg) (cfg_token cfg) path]"
    then show ?thesis
      by (intro exI[of _ "[status_request (cfg_url cfg) (cfg_token cfg) path]"]) simp
  next
    fix ep
    assume "tr1 = tr @ [status_request (cfg_url cfg) (cfg_token cfg) path,
        permissions_patch_request ep (cfg_token cfg) who level cl]"
    then show ?thesis
      by (intro exI[of _ "[status_request (cfg_url cfg) (cfg_token cfg) path,
        permissions_patch_request ep (cfg_token cfg) who level cl]"]) auto
  qed
  then obtain mid where mid: "tr1 = tr @ mid"
    "\<forall>rq \<in> set mid. rq = status_request (cfg_url cfg) (cfg_token cfg) path
        \<or> (\<exists>ep. rq = permissions_patch_request ep (cfg_token cfg) who level cl)"
    by blast
  show ?case
  proof (cases x)
    case (Inl e)
    then have "tr' = tr1" using Cons.prems item g by simp
    moreover have "\<forall>rq \<in> set mid. rq = status_request (cfg_url cfg) (cfg_token cfg) path
            \<or> (\<exists>ep who level. (who, level) \<in> set (item # items)
                  \<and> rq = permissions_patch_request ep (cfg_token cfg) who level cl)"
      using mid(2) unfolding item by (meson list.set_intros(1))
    ultimately show ?thesis using mid(1) by (intro exI[of _ mid]) simp
  next
    case (Inr ok)
    then have "apply_permissions srv cfg path items cl tr1 = (r, tr')"
      using Cons.prems item g by simp
    from Cons.IH[OF this] obtain rest where rest: "tr' = tr1 @ rest"
      "\<forall>rq \<in> set rest. rq = status_request (cfg_url cfg) (cfg_token cfg) path
            \<or> (\<exists>ep who level. (who, level) \<in> set items
                  \<and> rq = permissions_patch_request ep (cfg_token cfg) who level cl)"
      by blast
    have a: "\<forall>rq \<in> set mid. rq = status_request (cfg_url cfg) (cfg_token cfg) path
            \<or> (\<exists>ep who level. (who, level) \<in> set (item # items)
                  \<and> rq = permissions_patch_request ep (cfg_token cfg) who level cl)"
      using mid(2) unfolding item by (meson list.set_intros(1))
    have b: "\<forall>rq \<in> set rest. rq = status_request (cfg_url cfg) (cfg_token cfg) path
            \<or> (\<exists>ep who level. (who, level) \<in> set (item # items)
                  \<and> rq = permissions_patch_request ep (cfg_token cfg) who level cl)"
      using rest(2) by (meson list.set_intros(2))
    have "\<forall>rq \<in> set (mid @ rest). rq = status_request (cfg_url cfg) (cfg_token cfg) path
            \<or> (\<exists>ep who level. (who, level) \<in> set (item # items)
                  \<and> rq = permissions_patch_request ep (cfg_token cfg) who level cl)"
      using a b unfolding set_append by blast
    then show ?thesis
      using mid(1) rest(1) by (intro exI[of _ "mid @ rest"]) simp
  qed
qed

lemma apply_permissions_prefix:
  "apply_permissions srv cfg path items cl tr = (r, tr') \<Longrightarrow> prefix tr tr'"
  using apply_permissions_requests[of srv cfg path items cl tr r tr'] by auto

lemma sync_permission_fallback:
  assumes "get_workspace_config_mc str_upper env source_cloud = Some sc"
    and "get_workspace_config_mc str_upper env target_cloud = Some tc"
    and "fetch_notebook_from_github srv (env ''GITHUB_REPO_OWNER'') (env ''GITHUB_REPO_NAME'')
           notebook_name (env ''GITHUB_TOKEN'') [] = (Inr (Some content), tr1)"
    and "content \<noteq> []"
    and "import_notebook_mc srv (cfg_url sc) (cfg_token sc) content notebook_name workspace_dir tr1
           = (Inr (Some source_path), tr2)"
    and "import_notebook_mc srv (cfg_url tc) (cfg_token tc) content notebook_name workspace_dir tr2
           = (Inr (Some target_path), tr3)"
    and "get_notebook_id srv (cfg_url sc) (cfg_token sc) source_path tr3 = (Inr source_id, tr4)"
    and "truthy source_id"
    and "get_permissions srv (cfg_url sc) (cfg_token sc) source_path tr4 = (Inr fetched, tr5)"
    and "fetched = None \<or> fetched = Some []"
    and "get_notebook_id srv (cfg_url tc) (cfg_token tc) target_path tr5 = (Inr target_id, tr6)"
    and "truthy target_id"
  shows "sync_notebooks_and_permissions str_upper env srv source_cloud target_cloud git_url cluster_id []
      = (case apply_permissions srv sc source_path
                [(''somin.sangwan@digivatelabs.com'', JStr ''CAN_MANAGE''),
                 (''samir.shinde@digivatelabs.com'', JStr ''CAN_MANAGE'')] cluster_id tr6 of
           (Inl e, tr7) \<Rightarrow> (Inl e, tr7)
         | (Inr _, tr7) \<Rightarrow>
             apply_permissions srv tc target_path
               [(''somin.sangwan@digivatelabs.com'', JStr ''CAN_MANAGE''),
                (''samir.shinde@digivatelabs.com'', JStr ''CAN_MANAGE'')] cluster_id tr7)
    \<and> (\<exists>rest.
          snd (sync_notebooks_and_permissions str_upper env srv source_cloud target_cloud git_url cluster_id [])
            = tr6 @ rest
        \<and> (\<forall>rq \<in> set rest. meth rq = PATCH \<longrightarrow>
              (\<exists>ep token who. who \<in> {''somin.sangwan@digivatelabs.com'',
                                        ''samir.shinde@digivatelabs.com''}
                 \<and> rq = permissions_patch_request ep token who (JStr ''CAN_MANAGE'') cluster_id)))"
proof -
  let ?dflt = "[(''somin.sangwan@digivatelabs.com'', JStr ''CAN_MANAGE''),
                 (''samir.shinde@digivatelabs.com'', JStr ''CAN_MANAGE'')]"
  have sp: "source_path \<noteq> []" and tp: "target_path \<noteq> []"
    using assms(5,6) by (auto simp: import_notebook_mc_def Let_def http_defs
        split: sum.splits reply.splits error.splits if_splits)
  have run: "sync_notebooks_and_permissions str_upper env srv source_cloud target_cloud git_url cluster_id []
      = (case apply_permissions srv sc source_path ?dflt cluster_id tr6 of
           (Inl e, tr7) \<Rightarrow> (Inl e, tr7)
         | (Inr _, tr7) \<Rightarrow> apply_permissions srv tc target_path ?dflt cluster_id tr7)"
    using assms sp tp
    by (auto simp: sync_notebooks_and_permissions_def default_permissions_def
        simp del: apply_permissions.simps split: prod.splits sum.splits)
  obtain x tr7 where a1: "apply_permissions srv sc source_path ?dflt cluster_id tr6 = (x, tr7)"
    by (cases "apply_permissions srv sc source_path ?dflt cluster_id tr6") auto
  from apply_permissions_requests[OF a1] obtain r1 where r1: "tr7 = tr6 @ r1"
    "\<forall>rq \<in> set r1. rq = status_request (cfg_url sc) (cfg_token sc) source_path
        \<or> (\<exists>ep who level. (who, level) \<in> set ?dflt
              \<and> rq = permissions_patch_request ep (cfg_token sc) who level cluster_id)"
    by blast
  have notpatch: "\<And>u t p. meth (status_request u t p) \<noteq> PATCH"
    by (simp add: status_request_def)
  have ok1: "\<forall>rq \<in> set r1. meth rq = PATCH \<longrightarrow>
      (\<exists>ep token who. who \<in> {''somin.sangwan@digivatelabs.com'', ''samir.shinde@digivatelabs.com''}
         \<and> rq = permissions_patch_request ep token who (JStr ''CAN_MANAGE'') cluster_id)"
  proof (intro ballI impI)
    fix rq assume "rq \<in> set r1" "meth rq = PATCH"
    then obtain ep who level where "(who, level) \<in> set ?dflt"
      "rq = permissions_patch_request ep (cfg_token sc) who level cluster_id"
      using r1(2) notpatch by metis
    then show "\<exists>ep token who. who \<in> {''somin.sangwan@digivatelabs.com'',
          ''samir.shinde@digivatelabs.com''}
         \<and> rq = permissions_patch_request ep token who (JStr ''CAN_MANAGE'') cluster_id"
      by auto
  qed
  show ?thesis
  proof (cases x)
    case (Inl e)
    then have "snd (sync_notebooks_and_permissions str_upper env srv source_cloud target_cloud git_url
        cluster_id []) = tr6 @ r1"
      unfolding run a1 using r1(1) by simp
    then show ?thesis using run ok1 by blast
  next
    case (Inr u)
    obtain y tr8 where a2: "apply_permissions srv tc target_path ?dflt cluster_id tr7 = (y, tr8)"
      by (cases "apply_permissions srv tc target_path ?dflt cluster_id tr7") auto
    from apply_permissions_requests[OF a2] obtain r2 where r2: "tr8 = tr7 @ r2"
      "\<forall>rq \<in> set r2. rq = status_request (cfg_url tc) (cfg_token tc) target_path
        \<or> (\<exists>ep who level. (who, level) \<in> set ?dflt
              \<and> rq = permissions_patch_request ep (cfg_token tc) who level cluster_id)"
      by blast
    have ok2: "\<forall>rq \<in> set r2. meth rq = PATCH \<longrightarrow>
      (\<exists>ep token who. who \<in> {''somin.sangwan@digivatelabs.com'', ''samir.shinde@digivatelabs.com''}
         \<and> rq = permissions_patch_request ep token who (JStr ''CAN_MANAGE'') cluster_id)"
    proof (intro ballI impI)
      fix rq assume "rq \<in> set r2" "meth rq = PATCH"
      then obtain ep who level where "(who, level) \<in> set ?dflt"
        "rq = permissions_patch_request ep (cfg_token tc) who level cluster_id"
        using r2(2) notpatch by metis
      then show "\<exists>ep token who. who \<in> {''somin.sangwan@digivatelabs.com'',
            ''samir.shinde@digivatelabs.com''}
           \<and> rq = permissions_patch_request ep token who (JStr ''CAN_MANAGE'') cluster_id"
        by auto
    qed
    have "snd (sync_notebooks_and_permissions str_upper env srv source_cloud target_cloud git_url
        cluster_id []) = tr6 @ (r1 @ r2)"
      unfolding run a1 using Inr a2 r1(1) r2(1) by simp
    moreover have "\<forall>rq \<in> set (r1 @ r2). meth rq = PATCH \<longrightarrow>
      (\<exists>ep token who. who \<in> {''somin.sangwan@digivatelabs.com'', ''samir.shinde@digivatelabs.com''}
         \<and> rq = permissions_patch_request ep token who (JStr ''CAN_MANAGE'') cluster_id)"
      using ok1 ok2 unfolding set_append by blast
    ultimately show ?thesis using run by blast
  qed
qed


lemma cfg_aws: "get_workspace_config_mc upper_ascii scenario_env ''aws'' = Some aws"
  by (simp add: get_workspace_config_mc_def WORKSPACE_CONFIG_mc_def upper_ascii_def upper_char_def
      scenario_env_def aws_def)

lemma cfg_azure: "get_workspace_config_mc upper_ascii scenario_env ''Azure'' = Some azure"
  by (simp add: get_workspace_config_mc_def WORKSPACE_CONFIG_mc_def upper_ascii_def upper_char_def
      scenario_env_def azure_def)

lemma notebook_server_fetch:
  "fetch_notebook_from_github notebook_server owner repo p token tr
     = (Inr (Some [104, 105]), tr @ [github_request owner repo p token])"
  by (simp add: fetch_notebook_from_github_def notebook_server_def reply_defs hi_decode)

lemma notebook_server_import:
  "import_notebook_mc notebook_server u t [104, 105] name dir tr
     = (Inr (Some (dir @ ''/'' @ name)),
        tr @ [import_request_mc u t (dir @ ''/'' @ name) ''aGk=''])"
  by (simp add: import_notebook_mc_def notebook_server_def reply_defs hi_encode Let_def)

lemma notebook_server_id:
  "get_notebook_id notebook_server u t p tr = (Inr (JInt 42), tr @ [status_request u t p])"
  by (simp add: get_notebook_id_def notebook_server_def reply_defs)

lemma notebook_server_permissions:
  "get_permissions notebook_server u t p tr
     = (Inr (Some []),
        tr @ [status_request u t p,
              permissions_get_request (fmt u @ ''/api/2.0/permissions/notebooks/42'') t])"
  by (simp add: get_permissions_def get_object_status_def notebook_server_def reply_defs
      permissions_endpoint_def py_str_def py_iter_def)

lemma notebook_server_grant:
  "grant_permissions notebook_server u t p who level cl tr
     = (Inr True,
        tr @ [status_request u t p,
              permissions_patch_request (fmt u @ ''/api/2.0/permissions/notebooks/42'') t
                who level cl])"
  by (simp add: grant_permissions_def get_object_status_def notebook_server_def reply_defs
      permissions_endpoint_def py_str_def)

lemma grant_permissions_found_result:
  assumes "srv tr (status_request u t path) = Response st (Json (JObj kvs))"
    and "\<not> (400 \<le> st \<and> st < 600)" and "kvs \<noteq> []"
    and "map_of kvs ''object_type'' = Some (JStr ''NOTEBOOK'')"
    and "map_of kvs ''object_id'' = Some (JInt i)" and "0 \<le> i"
  shows "\<exists>ok. grant_permissions srv u t path email lvl cid tr =
     (Inr ok, tr @ [status_request u t path,
           permissions_patch_request
             (fmt u @ ''/api/2.0/permissions/notebooks/'' @ string_of_nat (nat i)) t email lvl cid])"
proof -
  obtain r tr' where g: "grant_permissions srv u t path email lvl cid tr = (r, tr')"
    by (cases "grant_permissions srv u t path email lvl cid tr") auto
  have tr': "tr' = tr @ [status_request u t path,
           permissions_patch_request
             (fmt u @ ''/api/2.0/permissions/notebooks/'' @ string_of_nat (nat i)) t email lvl cid]"
    using grant_permissions_found[where srv = srv and tr = tr and u = u and t = t
        and path = path and st = st and kvs = kvs and i = i and email = email and lvl = lvl
        and cid = cid, OF assms] g by (simp del: string_of_nat.simps)
  from grant_permissions_cases[OF g] tr' obtain ok where "r = Inr ok"
    by (auto simp del: string_of_nat.simps)
  then show ?thesis using g tr' by (simp del: string_of_nat.simps)
qed

lemma apply_permissions_pair_found:
  assumes "\<forall>h. \<exists>st kvs. srv h (status_request (cfg_url cfg) (cfg_token cfg) path)
               = Response st (Json (JObj kvs))
             \<and> \<not> (400 \<le> st \<and> st < 600) \<and> kvs \<noteq> []
             \<and> map_of kvs ''object_type'' = Some (JStr ''NOTEBOOK'')
             \<and> map_of kvs ''object_id'' = Some (JInt i) \<and> 0 \<le> i"
  shows "apply_permissions srv cfg path [(a, la), (b, lb)] cl tr =
     (Inr (), tr @
        [status_request (cfg_url cfg) (cfg_token cfg) path,
         permissions_patch_request
           (fmt (cfg_url cfg) @ ''/api/2.0/permissions/notebooks/'' @ string_of_nat (nat i))
           (cfg_token cfg) a la cl,
         status_request (cfg_url cfg) (cfg_token cfg) path,
         permissions_patch_request
           (fmt (cfg_url cfg) @ ''/api/2.0/permissions/notebooks/'' @ string_of_nat (nat i))
           (cfg_token cfg) b lb cl])"
proof -
  define ep where
    "ep = fmt (cfg_url cfg) @ ''/api/2.0/permissions/notebooks/'' @ string_of_nat (nat i)"
  define s where "s = status_request (cfg_url cfg) (cfg_token cfg) path"
  have g: "\<exists>ok. grant_permissions srv (cfg_url cfg) (cfg_token cfg) path email lvl cl h =
     (Inr ok, h @ [s, permissions_patch_request ep (cfg_token cfg) email lvl cl])" for email lvl h
    unfolding ep_def s_def
    using assms grant_permissions_found_result[where srv = srv and tr = h] by blast
  from g[of a la tr] obtain ok1 where
    g1: "grant_permissions srv (cfg_url cfg) (cfg_token cfg) path a la cl tr =
     (Inr ok1, tr @ [s, permissions_patch_request ep (cfg_token cfg) a la cl])"
    by blast
  from g[of b lb "tr @ [s, permissions_patch_request ep (cfg_token cfg) a la cl]"]
  obtain ok2 where
    g2: "grant_permissions srv (cfg_url cfg) (cfg_token cfg) path b lb cl
        (tr @ [s, permissions_patch_request ep (cfg_token cfg) a la cl]) =
     (Inr ok2, (tr @ [s, permissions_patch_request ep (cfg_token cfg) a la cl])
         @ [s, permissions_patch_request ep (cfg_token cfg) b lb cl])"
    by blast
  have "apply_permissions srv cfg path [(a, la), (b, lb)] cl tr =
     (Inr (), tr @ [s, permissions_patch_request ep (cfg_token cfg) a la cl,
                    s, permissions_patch_request ep (cfg_token cfg) b lb cl])"
    by (simp add: g1 g2)
  then show ?thesis unfolding ep_def s_def .
qed

lemma permissions_patch_request_record:
  "permissions_patch_request ep t who level cl =
     \<lparr>meth = PATCH, rq_url = ep,
      headers = get_headers t, params = [],
      body = Some (JObj [(''access_control_list'', JArr
        (JObj [(''user_name'', JStr who), (''permission_level'', level)]
         # (if cl = None \<or> cl = Some [] then []
            else [JObj [(''user_name'', JStr who),
                        (''permission_level'', JStr ''CAN_ATTACH_TO''),
                        (''cluster_id'', JStr (the cl))]])))])\<rparr>"
  by (cases cl) (simp_all add: permissions_patch_request_def access_control_list_def
      cluster_given_def)

text \<open>
  C2. In a run of the sync that reaches the permission lookup, if \<^verbatim>\<open>get_permissions\<close> for the
  notebook in the source workspace returns no entries (\<^verbatim>\<open>None\<close> or the empty mapping), and
  the notebook is then found in the target workspace, the run goes on to grant, first on
  the source and then on the target, the two hardcoded entries, in this order:
  \<^verbatim>\<open>somin.sangwan@digivatelabs.com\<close> and \<^verbatim>\<open>samir.shinde@digivatelabs.com\<close>, each with
  \<^verbatim>\<open>CAN_MANAGE\<close>. Every \<^verbatim>\<open>PATCH\<close> call made from there on has a body whose access-control
  list starts with the entry \<^verbatim>\<open>{"user_name": who, "permission_level": "CAN_MANAGE"}\<close> for
  one of these two principals, followed only by the \<^verbatim>\<open>CAN_ATTACH_TO\<close> entry of the same
  principal when a cluster id is given. When the status lookups find the notebook in both
  workspaces (with the object ids \<open>i\<close> and \<open>j\<close>), the run completes and its \<^verbatim>\<open>PATCH\<close> calls
  are exactly four: the two principals on the source notebook, then the two principals
  on the target notebook.
\<close>

theorem C2_permission_fallback:
  assumes "get_workspace_config_mc str_upper env source_cloud = Some sc"
    and "get_workspace_config_mc str_upper env target_cloud = Some tc"
    and "fetch_notebook_from_github srv (env ''GITHUB_REPO_OWNER'') (env ''GITHUB_REPO_NAME'')
           notebook_name (env ''GITHUB_TOKEN'') [] = (Inr (Some content), tr1)"
    and "content \<noteq> []"
    and "import_notebook_mc srv (cfg_url sc) (cfg_token sc) content notebook_name workspace_dir tr1
           = (Inr (Some source_path), tr2)"
    and "import_notebook_mc srv (cfg_url tc) (cfg_token tc) content notebook_name workspace_dir tr2
           = (Inr (Some target_path), tr3)"
    and "get_notebook_id srv (cfg_url sc) (cfg_token sc) source_path tr3 = (Inr source_id, tr4)"
    and "truthy source_id"
    and "get_permissions srv (cfg_url sc) (cfg_token sc) source_path tr4 = (Inr fetched, tr5)"
    and "fetched = None \<or> fetched = Some []"
    and "get_notebook_id srv (cfg_url tc) (cfg_token tc) target_path tr5 = (Inr target_id, tr6)"
    and "truthy target_id"
  shows "sync_notebooks_and_permissions str_upper env srv source_cloud target_cloud git_url cluster_id []
      = (case apply_permissions srv sc source_path
                [(''somin.sangwan@digivatelabs.com'', JStr ''CAN_MANAGE''),
                 (''samir.shinde@digivatelabs.com'', JStr ''CAN_MANAGE'')] cluster_id tr6 of
           (Inl e, tr7) \<Rightarrow> (Inl e, tr7)
         | (Inr _, tr7) \<Rightarrow>
             apply_permissions srv tc target_path
               [(''somin.sangwan@digivatelabs.com'', JStr ''CAN_MANAGE''),
                (''samir.shinde@digivatelabs.com'', JStr ''CAN_MANAGE'')] cluster_id tr7)
    \<and> (\<exists>rest.
          snd (sync_notebooks_and_permissions str_upper env srv source_cloud target_cloud git_url cluster_id [])
            = tr6 @ rest
        \<and> (\<forall>rq \<in> set rest. meth rq = PATCH \<longrightarrow>
              (\<exists>ep token who. who \<in> {''somin.sangwan@digivatelabs.com'',
                                        ''samir.shinde@digivatelabs.com''}
                 \<and> rq = \<lparr>meth = PATCH, rq_url = ep,
                        headers = get_headers token, params = [],
                        body = Some (JObj [(''access_control_list'', JArr
                          (JObj [(''user_name'', JStr who), (''permission_level'', JStr ''CAN_MANAGE'')]
                           # (if cluster_id = None \<or> cluster_id = Some [] then []
                              else [JObj [(''user_name'', JStr who),
                                          (''permission_level'', JStr ''CAN_ATTACH_TO''),
                                          (''cluster_id'', JStr (the cluster_id))]])))])\<rparr>))
        \<and> (\<forall>i j.
              (\<forall>h. \<exists>st kvs.
                 srv h \<lparr>meth = GET, rq_url = fmt (cfg_url sc) @ ''/api/2.0/workspace/get-status'',
                        headers = get_headers (cfg_token sc), params = [(''path'', source_path)],
                        body = None\<rparr>
                   = Response st (Json (JObj kvs))
                 \<and> \<not> (400 \<le> st \<and> st < 600) \<and> kvs \<noteq> []
                 \<and> map_of kvs ''object_type'' = Some (JStr ''NOTEBOOK'')
                 \<and> map_of kvs ''object_id'' = Some (JInt i) \<and> 0 \<le> i)
              \<and> (\<forall>h. \<exists>st kvs.
                 srv h \<lparr>meth = GET, rq_url = fmt (cfg_url tc) @ ''/api/2.0/workspace/get-status'',
                        headers = get_headers (cfg_token tc), params = [(''path'', target_path)],
                        body = None\<rparr>
                   = Response st (Json (JObj kvs))
                 \<and> \<not> (400 \<le> st \<and> st < 600) \<and> kvs \<noteq> []
                 \<and> map_of kvs ''object_type'' = Some (JStr ''NOTEBOOK'')
                 \<and> map_of kvs ''object_id'' = Some (JInt j) \<and> 0 \<le> j)
            \<longrightarrow> fst (sync_notebooks_and_permissions str_upper env srv source_cloud target_cloud
                       git_url cluster_id []) = Inr ()
              \<and> filter (\<lambda>rq. meth rq = PATCH) rest =
              [\<lparr>meth = PATCH, rq_url = (fmt (cfg_url sc) @ ''/api/2.0/permissions/notebooks/'' @ string_of_nat (nat i)),
                headers = get_headers (cfg_token sc), params = [],
                body = Some (JObj [(''access_control_list'', JArr
                  (JObj [(''user_name'', JStr ''somin.sangwan@digivatelabs.com''), (''permission_level'', JStr ''CAN_MANAGE'')]
                   # (if cluster_id = None \<or> cluster_id = Some [] then []
                      else [JObj [(''user_name'', JStr ''somin.sangwan@digivatelabs.com''),
                                  (''permission_level'', JStr ''CAN_ATTACH_TO''),
                                  (''cluster_id'', JStr (the cluster_id))]])))])\<rparr>,
               \<lparr>meth = PATCH, rq_url = (fmt (cfg_url sc) @ ''/api/2.0/permissions/notebooks/'' @ string_of_nat (nat i)),
                headers = get_headers (cfg_token sc), params = [],
                body = Some (JObj [(''access_control_list'', JArr
                  (JObj [(''user_name'', JStr ''samir.shinde@digivatelabs.com''), (''permission_level'', JStr ''CAN_MANAGE'')]
                   # (if cluster_id = None \<or> cluster_id = Some [] then []
                      else [JObj [(''user_name'', JStr ''samir.shinde@digivatelabs.com''),
                                  (''permission_level'', JStr ''CAN_ATTACH_TO''),
                                  (''cluster_id'', JStr (the cluster_id))]])))])\<rparr>,
               \<lparr>meth = PATCH, rq_url = (fmt (cfg_url tc) @ ''/api/2.0/permissions/notebooks/'' @ string_of_nat (nat j)),
                headers = get_headers (cfg_token tc), params = [],
                body = Some (JObj [(''access_control_list'', JArr
                  (JObj [(''user_name'', JStr ''somin.sangwan@digivatelabs.com''), (''permission_level'', JStr ''CAN_MANAGE'')]
                   # (if cluster_id = None \<or> cluster_id = Some [] then []
                      else [JObj [(''user_name'', JStr ''somin.sangwan@digivatelabs.com''),
                                  (''permission_level'', JStr ''CAN_ATTACH_TO''),
                                  (''cluster_id'', JStr (the cluster_id))]])))])\<rparr>,
               \<lparr>meth = PATCH, rq_url = (fmt (cfg_url tc) @ ''/api/2.0/permissions/notebooks/'' @ string_of_nat (nat j)),
                headers = get_headers (cfg_token tc), params = [],
                body = Some (JObj [(''access_control_list'', JArr
                  (JObj [(''user_name'', JStr ''samir.shinde@digivatelabs.com''), (''permission_level'', JStr ''CAN_MANAGE'')]
                   # (if cluster_id = None \<or> cluster_id = Some [] then []
                      else [JObj [(''user_name'', JStr ''samir.shinde@digivatelabs.com''),
                                  (''permission_level'', JStr ''CAN_ATTACH_TO''),
                                  (''cluster_id'', JStr (the cluster_id))]])))])\<rparr>]))"
proof -
  let ?dflt = "[(''somin.sangwan@digivatelabs.com'', JStr ''CAN_MANAGE''),
                 (''samir.shinde@digivatelabs.com'', JStr ''CAN_MANAGE'')]"
  note fb = sync_permission_fallback[OF assms, of git_url cluster_id]
  from fb obtain rest where
    rest: "snd (sync_notebooks_and_permissions str_upper env srv source_cloud target_cloud git_url
              cluster_id []) = tr6 @ rest"
    and patches: "\<forall>rq \<in> set rest. meth rq = PATCH \<longrightarrow>
      (\<exists>ep token who. who \<in> {''somin.sangwan@digivatelabs.com'', ''samir.shinde@digivatelabs.com''}
         \<and> rq = permissions_patch_request ep token who (JStr ''CAN_MANAGE'') cluster_id)"
    by blast
  have run: "sync_notebooks_and_permissions str_upper env srv source_cloud target_cloud git_url
        cluster_id []
      = (case apply_permissions srv sc source_path ?dflt cluster_id tr6 of
           (Inl e, tr7) \<Rightarrow> (Inl e, tr7)
         | (Inr _, tr7) \<Rightarrow> apply_permissions srv tc target_path ?dflt cluster_id tr7)"
    using fb by blast
  have exact: "fst (sync_notebooks_and_permissions str_upper env srv source_cloud target_cloud
                       git_url cluster_id []) = Inr ()
      \<and> filter (\<lambda>rq. meth rq = PATCH) rest =
          [permissions_patch_request
             (fmt (cfg_url sc) @ ''/api/2.0/permissions/notebooks/'' @ string_of_nat (nat i))
             (cfg_token sc) ''somin.sangwan@digivatelabs.com'' (JStr ''CAN_MANAGE'') cluster_id,
           permissions_patch_request
             (fmt (cfg_url sc) @ ''/api/2.0/permissions/notebooks/'' @ string_of_nat (nat i))
             (cfg_token sc) ''samir.shinde@digivatelabs.com'' (JStr ''CAN_MANAGE'') cluster_id,
           permissions_patch_request
             (fmt (cfg_url tc) @ ''/api/2.0/permissions/notebooks/'' @ string_of_nat (nat j))
             (cfg_token tc) ''somin.sangwan@digivatelabs.com'' (JStr ''CAN_MANAGE'') cluster_id,
           permissions_patch_request
             (fmt (cfg_url tc) @ ''/api/2.0/permissions/notebooks/'' @ string_of_nat (nat j))
             (cfg_token tc) ''samir.shinde@digivatelabs.com'' (JStr ''CAN_MANAGE'') cluster_id]"
    if fs: "\<forall>h. \<exists>st kvs. srv h (status_request (cfg_url sc) (cfg_token sc) source_path)
               = Response st (Json (JObj kvs))
             \<and> \<not> (400 \<le> st \<and> st < 600) \<and> kvs \<noteq> []
             \<and> map_of kvs ''object_type'' = Some (JStr ''NOTEBOOK'')
             \<and> map_of kvs ''object_id'' = Some (JInt i) \<and> 0 \<le> i"
      and ft: "\<forall>h. \<exists>st kvs. srv h (status_request (cfg_url tc) (cfg_token tc) target_path)
               = Response st (Json (JObj kvs))
             \<and> \<not> (400 \<le> st \<and> st < 600) \<and> kvs \<noteq> []
             \<and> map_of kvs ''object_type'' = Some (JStr ''NOTEBOOK'')
             \<and> map_of kvs ''object_id'' = Some (JInt j) \<and> 0 \<le> j"
    for i j
  proof -
    let ?L = "[status_request (cfg_url sc) (cfg_token sc) source_path,
           permissions_patch_request
             (fmt (cfg_url sc) @ ''/api/2.0/permissions/notebooks/'' @ string_of_nat (nat i))
             (cfg_token sc) ''somin.sangwan@digivatelabs.com'' (JStr ''CAN_MANAGE'') cluster_id,
           status_request (cfg_url sc) (cfg_token sc) source_path,
           permissions_patch_request
             (fmt (cfg_url sc) @ ''/api/2.0/permissions/notebooks/'' @ string_of_nat (nat i))
             (cfg_token sc) ''samir.shinde@digivatelabs.com'' (JStr ''CAN_MANAGE'') cluster_id,
           status_request (cfg_url tc) (cfg_token tc) target_path,
           permissions_patch_request
             (fmt (cfg_url tc) @ ''/api/2.0/permissions/notebooks/'' @ string_of_nat (nat j))
             (cfg_token tc) ''somin.sangwan@digivatelabs.com'' (JStr ''CAN_MANAGE'') cluster_id,
           status_request (cfg_url tc) (cfg_token tc) target_path,
           permissions_patch_request
             (fmt (cfg_url tc) @ ''/api/2.0/permissions/notebooks/'' @ string_of_nat (nat j))
             (cfg_token tc) ''samir.shinde@digivatelabs.com'' (JStr ''CAN_MANAGE'') cluster_id]"
    have a1: "apply_permissions srv sc source_path ?dflt cluster_id tr6 =
        (Inr (), tr6 @
          [status_request (cfg_url sc) (cfg_token sc) source_path,
           permissions_patch_request
             (fmt (cfg_url sc) @ ''/api/2.0/permissions/notebooks/'' @ string_of_nat (nat i))
             (cfg_token sc) ''somin.sangwan@digivatelabs.com'' (JStr ''CAN_MANAGE'') cluster_id,
           status_request (cfg_url sc) (cfg_token sc) source_path,
           permissions_patch_request
             (fmt (cfg_url sc) @ ''/api/2.0/permissions/notebooks/'' @ string_of_nat (nat i))
             (cfg_token sc) ''samir.shinde@digivatelabs.com'' (JStr ''CAN_MANAGE'') cluster_id])"
      by (rule apply_permissions_pair_found[where srv = srv and cfg = sc
            and path = source_path and i = i, OF fs])
    have a2: "apply_permissions srv tc target_path ?dflt cluster_id tr7 =
        (Inr (), tr7 @
          [status_request (cfg_url tc) (cfg_token tc) target_path,
           permissions_patch_request
             (fmt (cfg_url tc) @ ''/api/2.0/permissions/notebooks/'' @ string_of_nat (nat j))
             (cfg_token tc) ''somin.sangwan@digivatelabs.com'' (JStr ''CAN_MANAGE'') cluster_id,
           status_request (cfg_url tc) (cfg_token tc) target_path,
           permissions_patch_request
             (fmt (cfg_url tc) @ ''/api/2.0/permissions/notebooks/'' @ string_of_nat (nat j))
             (cfg_token tc) ''samir.shinde@digivatelabs.com'' (JStr ''CAN_MANAGE'') cluster_id])"
      for tr7
      by (rule apply_permissions_pair_found[where srv = srv and cfg = tc
            and path = target_path and i = j, OF ft])
    have sync_eq: "sync_notebooks_and_permissions str_upper env srv source_cloud target_cloud
        git_url cluster_id [] = (Inr (), tr6 @ ?L)"
      unfolding run a1
      by (simp only: prod.case sum.case a2 append_assoc append_Cons append_Nil)
    have full: "fst (sync_notebooks_and_permissions str_upper env srv source_cloud
          target_cloud git_url cluster_id []) = Inr ()"
      unfolding sync_eq by (simp only: fst_conv)
    have "tr6 @ rest = tr6 @ ?L"
      using rest[unfolded sync_eq snd_conv, symmetric] .
    then have r: "rest = ?L"
      by (simp only: same_append_eq)
    have sm: "meth (status_request u t p) \<noteq> PATCH" for u t p
      by (simp add: status_request_def)
    have pm: "meth (permissions_patch_request ep t who level cl) = PATCH" for ep t who level cl
      by (simp add: permissions_patch_request_def)
    have "filter (\<lambda>rq. meth rq = PATCH) ?L =
          [permissions_patch_request
             (fmt (cfg_url sc) @ ''/api/2.0/permissions/notebooks/'' @ string_of_nat (nat i))
             (cfg_token sc) ''somin.sangwan@digivatelabs.com'' (JStr ''CAN_MANAGE'') cluster_id,
           permissions_patch_request
             (fmt (cfg_url sc) @ ''/api/2.0/permissions/notebooks/'' @ string_of_nat (nat i))
             (cfg_token sc) ''samir.shinde@digivatelabs.com'' (JStr ''CAN_MANAGE'') cluster_id,
           permissions_patch_request
             (fmt (cfg_url tc) @ ''/api/2.0/permissions/notebooks/'' @ string_of_nat (nat j))
             (cfg_token tc) ''somin.sangwan@digivatelabs.com'' (JStr ''CAN_MANAGE'') cluster_id,
           permissions_patch_request
             (fmt (cfg_url tc) @ ''/api/2.0/permissions/notebooks/'' @ string_of_nat (nat j))
             (cfg_token tc) ''samir.shinde@digivatelabs.com'' (JStr ''CAN_MANAGE'') cluster_id]"
      by (simp only: filter.simps sm pm if_True if_False simp_thms)
    then show ?thesis
      unfolding r using full by (rule conjI[rotated])
  qed
  have exact_all: "\<forall>i j.
      (\<forall>h. \<exists>st kvs. srv h (status_request (cfg_url sc) (cfg_token sc) source_path)
               = Response st (Json (JObj kvs))
             \<and> \<not> (400 \<le> st \<and> st < 600) \<and> kvs \<noteq> []
             \<and> map_of kvs ''object_type'' = Some (JStr ''NOTEBOOK'')
             \<and> map_of kvs ''object_id'' = Some (JInt i) \<and> 0 \<le> i)
      \<and> (\<forall>h. \<exists>st kvs. srv h (status_request (cfg_url tc) (cfg_token tc) target_path)
               = Response st (Json (JObj kvs))
             \<and> \<not> (400 \<le> st \<and> st < 600) \<and> kvs \<noteq> []
             \<and> map_of kvs ''object_type'' = Some (JStr ''NOTEBOOK'')
             \<and> map_of kvs ''object_id'' = Some (JInt j) \<and> 0 \<le> j)
      \<longrightarrow> fst (sync_notebooks_and_permissions str_upper env srv source_cloud target_cloud
                       git_url cluster_id []) = Inr ()
      \<and> filter (\<lambda>rq. meth rq = PATCH) rest =
          [permissions_patch_request
             (fmt (cfg_url sc) @ ''/api/2.0/permissions/notebooks/'' @ string_of_nat (nat i))
             (cfg_token sc) ''somin.sangwan@digivatelabs.com'' (JStr ''CAN_MANAGE'') cluster_id,
           permissions_patch_request
             (fmt (cfg_url sc) @ ''/api/2.0/permissions/notebooks/'' @ string_of_nat (nat i))
             (cfg_token sc) ''samir.shinde@digivatelabs.com'' (JStr ''CAN_MANAGE'') cluster_id,
           permissions_patch_request
             (fmt (cfg_url tc) @ ''/api/2.0/permissions/notebooks/'' @ string_of_nat (nat j))
             (cfg_token tc) ''somin.sangwan@digivatelabs.com'' (JStr ''CAN_MANAGE'') cluster_id,
           permissions_patch_request
             (fmt (cfg_url tc) @ ''/api/2.0/permissions/notebooks/'' @ string_of_nat (nat j))
             (cfg_token tc) ''samir.shinde@digivatelabs.com'' (JStr ''CAN_MANAGE'') cluster_id]"
    by (intro allI impI, elim conjE, rule exact)
  show ?thesis
    apply (rule conjI)
     apply (rule run)
    apply (rule exI[of _ rest])
    apply (rule conjI)
     apply (rule rest)
    apply (rule conjI)
     apply (rule patches[unfolded permissions_patch_request_record])
    apply (rule exact_all[unfolded permissions_patch_request_record status_request_def])
    done
qed

theorem C2_permission_fallback_witness:
  "fst (sync_notebooks_and_permissions upper_ascii scenario_env notebook_server ''aws'' ''Azure''
          None (Some ''c-1'') []) = Inr ()
   \<and> map meth (snd (sync_notebooks_and_permissions upper_ascii scenario_env notebook_server
          ''aws'' ''Azure'' None (Some ''c-1'') []))
       = [GET, POST, POST, GET, GET, GET, GET, GET, PATCH, GET, PATCH, GET, PATCH, GET, PATCH]
   \<and> map rq_url (filter (\<lambda>rq. meth rq = PATCH)
        (snd (sync_notebooks_and_permissions upper_ascii scenario_env notebook_server
          ''aws'' ''Azure'' None (Some ''c-1'') [])))
       = [''https://aws/api/2.0/permissions/notebooks/42'',
          ''https://aws/api/2.0/permissions/notebooks/42'',
          ''https://azure/api/2.0/permissions/notebooks/42'',
          ''https://azure/api/2.0/permissions/notebooks/42'']
   \<and> map body (filter (\<lambda>rq. meth rq = PATCH)
        (snd (sync_notebooks_and_permissions upper_ascii scenario_env notebook_server
          ''aws'' ''Azure'' None (Some ''c-1'') [])))
       = [Some (JObj [(''access_control_list'', JArr
            [JObj [(''user_name'', JStr ''somin.sangwan@digivatelabs.com''),
                   (''permission_level'', JStr ''CAN_MANAGE'')],
             JObj [(''user_name'', JStr ''somin.sangwan@digivatelabs.com''),
                   (''permission_level'', JStr ''CAN_ATTACH_TO''),
                   (''cluster_id'', JStr ''c-1'')]])]),
          Some (JObj [(''access_control_list'', JArr
            [JObj [(''user_name'', JStr ''samir.shinde@digivatelabs.com''),
                   (''permission_level'', JStr ''CAN_MANAGE'')],
             JObj [(''user_name'', JStr ''samir.shinde@digivatelabs.com''),
                   (''permission_level'', JStr ''CAN_ATTACH_TO''),
                   (''cluster_id'', JStr ''c-1'')]])]),
          Some (JObj [(''access_control_list'', JArr
            [JObj [(''user_name'', JStr ''somin.sangwan@digivatelabs.com''),
                   (''permission_level'', JStr ''CAN_MANAGE'')],
             JObj [(''user_name'', JStr ''somin.sangwan@digivatelabs.com''),
                   (''permission_level'', JStr ''CAN_ATTACH_TO''),
                   (''cluster_id'', JStr ''c-1'')]])]),
          Some (JObj [(''access_control_list'', JArr
            [JObj [(''user_name'', JStr ''samir.shinde@digivatelabs.com''),
                   (''permission_level'', JStr ''CAN_MANAGE'')],
             JObj [(''user_name'', JStr ''samir.shinde@digivatelabs.com''),
                   (''permission_level'', JStr ''CAN_ATTACH_TO''),
                   (''cluster_id'', JStr ''c-1'')]])])]"
proof -
  let ?p = "workspace_dir @ ''/'' @ notebook_name"
  let ?g = "github_request (Some ''owner'') (Some ''repo'') notebook_name (Some ''ghp'')"
  let ?i1 = "import_request_mc (cfg_url aws) (cfg_token aws) ?p ''aGk=''"
  let ?i2 = "import_request_mc (cfg_url azure) (cfg_token azure) ?p ''aGk=''"
  let ?s1 = "status_request (cfg_url aws) (cfg_token aws) ?p"
  let ?s2 = "status_request (cfg_url azure) (cfg_token azure) ?p"
  let ?pg = "permissions_get_request ''https://aws/api/2.0/permissions/notebooks/42'' (cfg_token aws)"
  have env: "scenario_env ''GITHUB_REPO_OWNER'' = Some ''owner''"
    "scenario_env ''GITHUB_REPO_NAME'' = Some ''repo''"
    "scenario_env ''GITHUB_TOKEN'' = Some ''ghp''"
    by (simp_all add: scenario_env_def)
  have h3: "fetch_notebook_from_github notebook_server (scenario_env ''GITHUB_REPO_OWNER'')
      (scenario_env ''GITHUB_REPO_NAME'') notebook_name (scenario_env ''GITHUB_TOKEN'') []
      = (Inr (Some [104, 105]), [?g])"
    by (simp add: notebook_server_fetch env)
  have h4: "[104, 105] \<noteq> ([]::unicode)" by simp
  have h5: "import_notebook_mc notebook_server (cfg_url aws) (cfg_token aws) [104, 105]
      notebook_name workspace_dir [?g] = (Inr (Some ?p), [?g, ?i1])"
    by (simp add: notebook_server_import)
  have h6: "import_notebook_mc notebook_server (cfg_url azure) (cfg_token azure) [104, 105]
      notebook_name workspace_dir [?g, ?i1] = (Inr (Some ?p), [?g, ?i1, ?i2])"
    by (simp add: notebook_server_import)
  have h7: "get_notebook_id notebook_server (cfg_url aws) (cfg_token aws) ?p [?g, ?i1, ?i2]
      = (Inr (JInt 42), [?g, ?i1, ?i2, ?s1])"
    by (simp add: notebook_server_id)
  have h8: "truthy (JInt 42)" by simp
  have h9: "get_permissions notebook_server (cfg_url aws) (cfg_token aws) ?p [?g, ?i1, ?i2, ?s1]
      = (Inr (Some []), [?g, ?i1, ?i2, ?s1, ?s1, ?pg])"
    by (simp add: notebook_server_permissions aws_def fmt_def)
  have h10: "Some [] = None \<or> Some [] = Some ([]::(string \<times> json) list)" by simp
  have h11: "get_notebook_id notebook_server (cfg_url azure) (cfg_token azure) ?p
      [?g, ?i1, ?i2, ?s1, ?s1, ?pg] = (Inr (JInt 42), [?g, ?i1, ?i2, ?s1, ?s1, ?pg, ?s2])"
    by (simp add: notebook_server_id)
  note run = conjunct1[OF C2_permission_fallback[OF cfg_aws cfg_azure h3 h4 h5 h6 h7 h8 h9 h10 h11 h8,
        of None "Some ''c-1''"]]
  have full: "sync_notebooks_and_permissions upper_ascii scenario_env notebook_server ''aws'' ''Azure''
       None (Some ''c-1'') []
     = (Inr (),
        [?g, ?i1, ?i2, ?s1, ?s1, ?pg, ?s2,
         ?s1,
         permissions_patch_request ''https://aws/api/2.0/permissions/notebooks/42'' (cfg_token aws)
           ''somin.sangwan@digivatelabs.com'' (JStr ''CAN_MANAGE'') (Some ''c-1''),
         ?s1,
         permissions_patch_request ''https://aws/api/2.0/permissions/notebooks/42'' (cfg_token aws)
           ''samir.shinde@digivatelabs.com'' (JStr ''CAN_MANAGE'') (Some ''c-1''),
         ?s2,
         permissions_patch_request ''https://azure/api/2.0/permissions/notebooks/42''
           (cfg_token azure) ''somin.sangwan@digivatelabs.com'' (JStr ''CAN_MANAGE'') (Some ''c-1''),
         ?s2,
         permissions_patch_request ''https://azure/api/2.0/permissions/notebooks/42''
           (cfg_token azure) ''samir.shinde@digivatelabs.com'' (JStr ''CAN_MANAGE'') (Some ''c-1'')])"
    unfolding run
    by (simp add: notebook_server_grant aws_def azure_def fmt_def)
  show ?thesis
    unfolding full
    by (simp add: github_request_def import_request_mc_def status_request_def
        permissions_get_request_def permissions_patch_request_def access_control_list_def
        cluster_given_def)
qed

section \<open>Configuration resolution\<close>

lemma get_workspace_config_known:
  "(\<exists>cfg. get_workspace_config str_upper env name = Some cfg)
     \<longleftrightarrow> str_upper name = ''STAGING'' \<or> str_upper name = ''PREPROD''"
  by (auto simp: get_workspace_config_def WORKSPACE_CONFIG_def)

lemma get_workspace_config_mc_known:
  "(\<exists>cfg. get_workspace_config_mc str_upper env name = Some cfg)
     \<longleftrightarrow> str_upper name = ''AWS'' \<or> str_upper name = ''AZURE'' \<or> str_upper name = ''GCP''"
  by (auto simp: get_workspace_config_mc_def WORKSPACE_CONFIG_mc_def)

lemma transfer_unconfigured:
  assumes "get_workspace_config str_upper env source_workspace = None
      \<or> get_workspace_config str_upper env target_workspace = None"
  shows "transfer_users_and_notebooks str_upper env srv depth source_workspace target_workspace []
      = (Inr (), [])"
  using assms
  by (auto simp: transfer_users_and_notebooks_def split: option.splits)

lemma sync_unconfigured:
  assumes "get_workspace_config_mc str_upper env source_cloud = None
      \<or> get_workspace_config_mc str_upper env target_cloud = None"
  shows "sync_notebooks_and_permissions str_upper env srv source_cloud target_cloud git_url cluster_id []
      = (Inr (), [])"
  using assms
  by (auto simp: sync_notebooks_and_permissions_def split: option.splits)

lemma transfer_first_request:
  assumes "get_workspace_config str_upper env source_workspace = Some sc"
    and "get_workspace_config str_upper env target_workspace = Some tc"
  shows "\<exists>rest.
      snd (transfer_users_and_notebooks str_upper env srv depth source_workspace target_workspace [])
        = users_get_request (cfg_url sc) (cfg_token sc) # rest"
proof -
  obtain x tr1 where gu: "get_users srv (cfg_url sc) (cfg_token sc) [] = (x, tr1)"
    by (cases "get_users srv (cfg_url sc) (cfg_token sc) []") auto
  have tr1: "tr1 = [users_get_request (cfg_url sc) (cfg_token sc)]"
    using get_users_trace[of srv "cfg_url sc" "cfg_token sc" "[]"] gu by simp
  show ?thesis
  proof (cases x)
    case (Inl e)
    then show ?thesis
      using assms gu tr1 by (simp add: transfer_users_and_notebooks_def)
  next
    case (Inr users)
    show ?thesis
    proof (cases "py_iter users")
      case e: (Inl e)
      then show ?thesis
        using assms gu tr1 Inr by (simp add: transfer_users_and_notebooks_def)
    next
      case ul: (Inr user_list)
      obtain r2 tr2 where cu: "create_users srv tc user_list tr1 = (r2, tr2)"
        by (cases "create_users srv tc user_list tr1") auto
      from create_users_trace[OF cu] obtain posts where posts: "tr2 = tr1 @ posts" by blast
      from transfer_users_and_notebooks_after_users[OF assms gu[unfolded Inr] ul cu, of depth]
      obtain more where
        "snd (transfer_users_and_notebooks str_upper env srv depth source_workspace target_workspace [])
          = tr2 @ more" by blast
      then show ?thesis using posts tr1 by simp
    qed
  qed
qed

lemma import_notebook_mc_extends:
  "import_notebook_mc srv u t c name dir tr = (r, tr') \<Longrightarrow> \<exists>zs. tr' = tr @ zs"
  using import_notebook_mc_prefix[of srv u t c name dir tr r tr'] by (auto simp: prefix_def)

lemma get_notebook_id_extends:
  "get_notebook_id srv u t p tr = (r, tr') \<Longrightarrow> \<exists>zs. tr' = tr @ zs"
  using get_notebook_id_prefix[of srv u t p tr r tr'] by (auto simp: prefix_def)

lemma get_permissions_extends:
  "get_permissions srv u t p tr = (r, tr') \<Longrightarrow> \<exists>zs. tr' = tr @ zs"
  using get_permissions_prefix[of srv u t p tr r tr'] by (auto simp: prefix_def)

lemma apply_permissions_extends:
  "apply_permissions srv cfg p items cl tr = (r, tr') \<Longrightarrow> \<exists>zs. tr' = tr @ zs"
  using apply_permissions_prefix[of srv cfg p items cl tr r tr'] by (auto simp: prefix_def)

lemma apply_permissions_prefix_snd:
  "prefix a tr \<Longrightarrow> prefix a (snd (apply_permissions srv cfg p items cl tr))"
  using apply_permissions_prefix[of srv cfg p items cl tr]
  by (metis prefix_order.trans prod.collapse)

lemma sync_first_request:
  assumes "get_workspace_config_mc str_upper env source_cloud = Some sc"
    and "get_workspace_config_mc str_upper env target_cloud = Some tc"
  shows "\<exists>rest.
      snd (sync_notebooks_and_permissions str_upper env srv source_cloud target_cloud git_url cluster_id [])
        = github_request (env ''GITHUB_REPO_OWNER'') (env ''GITHUB_REPO_NAME'') notebook_name
            (env ''GITHUB_TOKEN'') # rest"
proof -
  let ?g = "github_request (env ''GITHUB_REPO_OWNER'') (env ''GITHUB_REPO_NAME'') notebook_name
            (env ''GITHUB_TOKEN'')"
  obtain x tr1 where f: "fetch_notebook_from_github srv (env ''GITHUB_REPO_OWNER'')
      (env ''GITHUB_REPO_NAME'') notebook_name (env ''GITHUB_TOKEN'') [] = (x, tr1)"
    by (cases "fetch_notebook_from_github srv (env ''GITHUB_REPO_OWNER'')
      (env ''GITHUB_REPO_NAME'') notebook_name (env ''GITHUB_TOKEN'') []") auto
  have tr1: "tr1 = [?g]"
    using fetch_notebook_from_github_trace[of srv "env ''GITHUB_REPO_OWNER''"
        "env ''GITHUB_REPO_NAME''" notebook_name "env ''GITHUB_TOKEN''" "[]"] f by simp
  have "prefix tr1
      (snd (sync_notebooks_and_permissions str_upper env srv source_cloud target_cloud git_url cluster_id []))"
    using assms f
    by (auto simp: sync_notebooks_and_permissions_def Let_def
        simp del: apply_permissions.simps
        split: prod.splits sum.splits option.splits if_splits
        dest!: import_notebook_mc_extends get_notebook_id_extends get_permissions_extends
          apply_permissions_extends
        intro!: apply_permissions_prefix_snd)
  then show ?thesis unfolding tr1 by (auto simp: prefix_def)
qed


lemma get_workspace_config_value:
  assumes "get_workspace_config str_upper env name = Some sc"
  shows "(str_upper name = ''STAGING'' \<longrightarrow>
            sc = \<lparr>cfg_url = env ''STAGING_WORKSPACE_URL'',
                  cfg_token = env ''STAGING_ACCESS_TOKEN''\<rparr>)
       \<and> (str_upper name = ''PREPROD'' \<longrightarrow>
            sc = \<lparr>cfg_url = env ''PREPROD_WORKSPACE_URL'',
                  cfg_token = env ''PREPROD_ACCESS_TOKEN''\<rparr>)"
  using assms by (auto simp: get_workspace_config_def WORKSPACE_CONFIG_def)

lemma upper_names:
  "upper_ascii ''staging'' = ''STAGING''" "upper_ascii ''preprod'' = ''PREPROD''"
  "upper_ascii ''aws'' = ''AWS''" "upper_ascii ''azure'' = ''AZURE''"
  "upper_ascii ''production'' = ''PRODUCTION''"
  by (simp_all add: upper_ascii_def upper_char_def)

lemma bare_users:
  "get_users bare_server u t tr = (Inr (JArr []), tr @ [users_get_request u t])"
  by (simp add: get_users_def users_get_request_def bare_server_def reply_defs py_len_def)

lemma bare_list:
  "list_notebooks bare_server 3 u t ''/'' tr = (Inr ([], {}), tr @ [list_request u t ''/''])"
  by (simp add: numeral_3_eq_3 list_request_def bare_server_def reply_defs py_getitem_def
      py_iter_def)

lemma cfg_staging_without_token:
  "get_workspace_config upper_ascii env_without_token ''staging''
     = Some \<lparr>cfg_url = Some ''https://staging'', cfg_token = None\<rparr>"
  by (simp add: get_workspace_config_def WORKSPACE_CONFIG_def upper_names env_without_token_def)

lemma cfg_preprod_without_token:
  "get_workspace_config upper_ascii env_without_token ''preprod''
     = Some \<lparr>cfg_url = Some ''https://preprod'', cfg_token = Some ''t0ken''\<rparr>"
  by (simp add: get_workspace_config_def WORKSPACE_CONFIG_def upper_names env_without_token_def)

lemma run_without_token:
  "transfer_users_and_notebooks upper_ascii env_without_token bare_server 3 ''staging'' ''preprod'' []
     = (Inr (), [users_get_request (Some ''https://staging'') None,
                 list_request (Some ''https://staging'') None ''/''])"
  by (simp add: transfer_users_and_notebooks_def cfg_staging_without_token
      cfg_preprod_without_token bare_users bare_list py_iter_def)

lemma run_without_token_records:
  "snd (transfer_users_and_notebooks upper_ascii env_without_token bare_server 3
          ''staging'' ''preprod'' [])
     = [\<lparr>meth = GET, rq_url = ''https://staging/api/2.0/preview/scim/v2/Users'',
         headers = [(''Authorization'', ''Bearer None''), (''Content-Type'', ''application/json'')],
         params = [], body = None\<rparr>,
        \<lparr>meth = GET, rq_url = ''https://staging/api/2.0/workspace/list'',
         headers = [(''Authorization'', ''Bearer None''), (''Content-Type'', ''application/json'')],
         params = [(''path'', ''/'')], body = None\<rparr>]"
  unfolding run_without_token
  by (simp add: users_get_request_def list_request_def get_headers_def fmt_def)

text \<open>
  C4 (as amended). An environment name is configured exactly when \<^verbatim>\<open>name.upper()\<close> is a
  key of the script's configuration table (\<^verbatim>\<open>STAGING\<close>, \<^verbatim>\<open>PREPROD\<close> for the bulk migration;
  \<^verbatim>\<open>AWS\<close>, \<^verbatim>\<open>AZURE\<close>, \<^verbatim>\<open>GCP\<close> for the sync), whatever the url and token of its entry are:
  they are whatever the environment holds, absent or empty included, and nothing
  inspects them. If both names are configured, each orchestrator proceeds past the
  configuration step and makes its first call into the HTTP library: \<^verbatim>\<open>requests.get\<close> for
  the user listing, with the URL and the \<^verbatim>\<open>Authorization\<close> header formatted from the
  source entry, in the bulk migration; \<^verbatim>\<open>requests.get\<close> for the file on
  \<^verbatim>\<open>api.github.com\<close> in the sync. If either name is not configured, the run returns
  without any call. (Whether the first call puts a request on the wire is decided inside
  the library: it does for a URL with a scheme and a host, as when only the token is
  missing; it does not when the workspace URL itself is absent or empty.)
\<close>

theorem C4_configuration_gate:
  "((str_upper source = ''STAGING'' \<or> str_upper source = ''PREPROD'')
      \<and> (str_upper target = ''STAGING'' \<or> str_upper target = ''PREPROD'')
     \<longrightarrow> (\<exists>sc rest. get_workspace_config str_upper env source = Some sc
           \<and> (str_upper source = ''STAGING'' \<longrightarrow>
                 sc = \<lparr>cfg_url = env ''STAGING_WORKSPACE_URL'',
                       cfg_token = env ''STAGING_ACCESS_TOKEN''\<rparr>)
           \<and> (str_upper source = ''PREPROD'' \<longrightarrow>
                 sc = \<lparr>cfg_url = env ''PREPROD_WORKSPACE_URL'',
                       cfg_token = env ''PREPROD_ACCESS_TOKEN''\<rparr>)
           \<and> snd (transfer_users_and_notebooks str_upper env srv depth source target [])
               = \<lparr>meth = GET,
                  rq_url = fmt (cfg_url sc) @ ''/api/2.0/preview/scim/v2/Users'',
                  headers = [(''Authorization'', ''Bearer '' @ fmt (cfg_token sc)),
                             (''Content-Type'', ''application/json'')],
                  params = [], body = None\<rparr> # rest))
   \<and> (\<not> ((str_upper source = ''STAGING'' \<or> str_upper source = ''PREPROD'')
          \<and> (str_upper target = ''STAGING'' \<or> str_upper target = ''PREPROD''))
     \<longrightarrow> transfer_users_and_notebooks str_upper env srv depth source target [] = (Inr (), []))
   \<and> ((str_upper source = ''AWS'' \<or> str_upper source = ''AZURE'' \<or> str_upper source = ''GCP'')
      \<and> (str_upper target = ''AWS'' \<or> str_upper target = ''AZURE'' \<or> str_upper target = ''GCP'')
     \<longrightarrow> (\<exists>rest. snd (sync_notebooks_and_permissions str_upper env srv source target git_url
                          cluster_id [])
               = \<lparr>meth = GET,
                  rq_url = ''https://api.github.com/repos/'' @ fmt (env ''GITHUB_REPO_OWNER'')
                        @ ''/'' @ fmt (env ''GITHUB_REPO_NAME'')
                        @ ''/contents/'' @ ''demon_slayer_notebook.py'',
                  headers = [(''Authorization'', ''token '' @ fmt (env ''GITHUB_TOKEN'')),
                             (''Accept'', ''application/vnd.github.v3+json'')],
                  params = [], body = None\<rparr> # rest))
   \<and> (\<not> ((str_upper source = ''AWS'' \<or> str_upper source = ''AZURE'' \<or> str_upper source = ''GCP'')
          \<and> (str_upper target = ''AWS'' \<or> str_upper target = ''AZURE''
              \<or> str_upper target = ''GCP''))
     \<longrightarrow> sync_notebooks_and_permissions str_upper env srv source target git_url cluster_id []
           = (Inr (), []))"
proof (intro conjI impI)
  assume "(str_upper source = ''STAGING'' \<or> str_upper source = ''PREPROD'')
      \<and> (str_upper target = ''STAGING'' \<or> str_upper target = ''PREPROD'')"
  then obtain sc tc where c: "get_workspace_config str_upper env source = Some sc"
    "get_workspace_config str_upper env target = Some tc"
    using get_workspace_config_known[of str_upper env source]
      get_workspace_config_known[of str_upper env target]
    by blast
  from transfer_first_request[OF c, of srv depth] obtain rest where
    "snd (transfer_users_and_notebooks str_upper env srv depth source target [])
       = users_get_request (cfg_url sc) (cfg_token sc) # rest"
    by blast
  then have "snd (transfer_users_and_notebooks str_upper env srv depth source target [])
               = \<lparr>meth = GET,
                  rq_url = fmt (cfg_url sc) @ ''/api/2.0/preview/scim/v2/Users'',
                  headers = [(''Authorization'', ''Bearer '' @ fmt (cfg_token sc)),
                             (''Content-Type'', ''application/json'')],
                  params = [], body = None\<rparr> # rest"
    unfolding users_get_request_def get_headers_def .
  with c(1) get_workspace_config_value[OF c(1)]
  show "\<exists>sc rest. get_workspace_config str_upper env source = Some sc
           \<and> (str_upper source = ''STAGING'' \<longrightarrow>
                 sc = \<lparr>cfg_url = env ''STAGING_WORKSPACE_URL'',
                       cfg_token = env ''STAGING_ACCESS_TOKEN''\<rparr>)
           \<and> (str_upper source = ''PREPROD'' \<longrightarrow>
                 sc = \<lparr>cfg_url = env ''PREPROD_WORKSPACE_URL'',
                       cfg_token = env ''PREPROD_ACCESS_TOKEN''\<rparr>)
           \<and> snd (transfer_users_and_notebooks str_upper env srv depth source target [])
               = \<lparr>meth = GET,
                  rq_url = fmt (cfg_url sc) @ ''/api/2.0/preview/scim/v2/Users'',
                  headers = [(''Authorization'', ''Bearer '' @ fmt (cfg_token sc)),
                             (''Content-Type'', ''application/json'')],
                  params = [], body = None\<rparr> # rest"
    by blast
next
  assume "\<not> ((str_upper source = ''STAGING'' \<or> str_upper source = ''PREPROD'')
          \<and> (str_upper target = ''STAGING'' \<or> str_upper target = ''PREPROD''))"
  then have "get_workspace_config str_upper env source = None
      \<or> get_workspace_config str_upper env target = None"
    using get_workspace_config_known[of str_upper env source]
      get_workspace_config_known[of str_upper env target]
    by (metis option.exhaust)
  then show "transfer_users_and_notebooks str_upper env srv depth source target [] = (Inr (), [])"
    by (rule transfer_unconfigured)
next
  assume "(str_upper source = ''AWS'' \<or> str_upper source = ''AZURE'' \<or> str_upper source = ''GCP'')
      \<and> (str_upper target = ''AWS'' \<or> str_upper target = ''AZURE'' \<or> str_upper target = ''GCP'')"
  then obtain sc tc where c: "get_workspace_config_mc str_upper env source = Some sc"
    "get_workspace_config_mc str_upper env target = Some tc"
    using get_workspace_config_mc_known[of str_upper env source]
      get_workspace_config_mc_known[of str_upper env target]
    by blast
  from sync_first_request[OF c, of srv git_url cluster_id]
  show "\<exists>rest. snd (sync_notebooks_and_permissions str_upper env srv source target git_url
                          cluster_id [])
               = \<lparr>meth = GET,
                  rq_url = ''https://api.github.com/repos/'' @ fmt (env ''GITHUB_REPO_OWNER'')
                        @ ''/'' @ fmt (env ''GITHUB_REPO_NAME'')
                        @ ''/contents/'' @ ''demon_slayer_notebook.py'',
                  headers = [(''Authorization'', ''token '' @ fmt (env ''GITHUB_TOKEN'')),
                             (''Accept'', ''application/vnd.github.v3+json'')],
                  params = [], body = None\<rparr> # rest"
    unfolding github_request_def notebook_name_def .
next
  assume "\<not> ((str_upper source = ''AWS'' \<or> str_upper source = ''AZURE'' \<or> str_upper source = ''GCP'')
          \<and> (str_upper target = ''AWS'' \<or> str_upper target = ''AZURE''
              \<or> str_upper target = ''GCP''))"
  then have "get_workspace_config_mc str_upper env source = None
      \<or> get_workspace_config_mc str_upper env target = None"
    using get_workspace_config_mc_known[of str_upper env source]
      get_workspace_config_mc_known[of str_upper env target]
    by (metis option.exhaust)
  then show "sync_notebooks_and_permissions str_upper env srv source target git_url cluster_id []
           = (Inr (), [])"
    by (rule sync_unconfigured)
qed

theorem C4_configuration_gate_witness:
  "snd (transfer_users_and_notebooks upper_ascii env_without_token bare_server 3
          ''staging'' ''preprod'' [])
     = [\<lparr>meth = GET, rq_url = ''https://staging/api/2.0/preview/scim/v2/Users'',
         headers = [(''Authorization'', ''Bearer None''), (''Content-Type'', ''application/json'')],
         params = [], body = None\<rparr>,
        \<lparr>meth = GET, rq_url = ''https://staging/api/2.0/workspace/list'',
         headers = [(''Authorization'', ''Bearer None''), (''Content-Type'', ''application/json'')],
         params = [(''path'', ''/'')], body = None\<rparr>]
   \<and> transfer_users_and_notebooks upper_ascii scenario_env bare_server 3
        ''staging'' ''production'' []
     = (Inr (), [])
   \<and> snd (sync_notebooks_and_permissions upper_ascii env_without_token down_server
            ''aws'' ''azure'' None None [])
     = [\<lparr>meth = GET,
         rq_url = ''https://api.github.com/repos/None/None/contents/demon_slayer_notebook.py'',
         headers = [(''Authorization'', ''token None''),
                    (''Accept'', ''application/vnd.github.v3+json'')],
         params = [], body = None\<rparr>]
   \<and> sync_notebooks_and_permissions upper_ascii scenario_env down_server
        ''aws'' ''production'' None None []
     = (Inr (), [])"
proof -
  have n: "''PRODUCTION'' \<noteq> ''STAGING''" "''PRODUCTION'' \<noteq> ''PREPROD''"
    "''PRODUCTION'' \<noteq> ''AWS''" "''PRODUCTION'' \<noteq> ''AZURE''" "''PRODUCTION'' \<noteq> ''GCP''"
    by simp_all
  have e: "env_without_token ''GITHUB_REPO_OWNER'' = None"
    "env_without_token ''GITHUB_REPO_NAME'' = None" "env_without_token ''GITHUB_TOKEN'' = None"
    by (simp_all add: env_without_token_def)
  have f: "snd (sync_notebooks_and_permissions upper_ascii env_without_token down_server
            ''aws'' ''azure'' None None [])
     = [\<lparr>meth = GET,
         rq_url = ''https://api.github.com/repos/None/None/contents/demon_slayer_notebook.py'',
         headers = [(''Authorization'', ''token None''),
                    (''Accept'', ''application/vnd.github.v3+json'')],
         params = [], body = None\<rparr>]"
    by (simp add: sync_notebooks_and_permissions_def get_workspace_config_mc_def
        WORKSPACE_CONFIG_mc_def upper_names fetch_notebook_from_github_def down_server_def
        reply_defs e github_request_def notebook_name_def fmt_def)
  from C4_configuration_gate[of upper_ascii "''staging''" "''production''" scenario_env
      bare_server 3 None None]
    C4_configuration_gate[of upper_ascii "''aws''" "''production''" scenario_env
      down_server 3 None None]
  show ?thesis
    unfolding upper_names using n run_without_token_records f by simp
qed

text \<open>
  C4 (as stated) fails: with the name \<^verbatim>\<open>staging\<close> known, its URL set and its token not
  set, the bulk migration does not halt. It sends the user listing and the workspace
  listing to the source workspace, each with the header \<^verbatim>\<open>Authorization: Bearer None\<close>,
  and here each is answered with status 200.
\<close>

theorem C4_counterexample:
  "get_workspace_config upper_ascii env_without_token ''staging''
     = Some \<lparr>cfg_url = Some ''https://staging'', cfg_token = None\<rparr>
   \<and> snd (transfer_users_and_notebooks upper_ascii env_without_token bare_server 3
            ''staging'' ''preprod'' [])
     = [\<lparr>meth = GET, rq_url = ''https://staging/api/2.0/preview/scim/v2/Users'',
         headers = [(''Authorization'', ''Bearer None''), (''Content-Type'', ''application/json'')],
         params = [], body = None\<rparr>,
        \<lparr>meth = GET, rq_url = ''https://staging/api/2.0/workspace/list'',
         headers = [(''Authorization'', ''Bearer None''), (''Content-Type'', ''application/json'')],
         params = [(''path'', ''/'')], body = None\<rparr>]
   \<and> bare_server []
        \<lparr>meth = GET, rq_url = ''https://staging/api/2.0/preview/scim/v2/Users'',
         headers = [(''Authorization'', ''Bearer None''), (''Content-Type'', ''application/json'')],
         params = [], body = None\<rparr>
     = Response 200 (Json (JObj []))"
  by (simp add: cfg_staging_without_token run_without_token_records bare_server_def)

section \<open>Failures at the boundary of the leaf operations\<close>

lemma then_do_Inr: "then_do (Inr x) f = f x"
  by (simp add: then_do_def)

lemma then_do_Inl: "then_do (Inl e) f = Inl e"
  by (simp add: then_do_def)

lemma unreadable_cases:
  "unreadable r \<Longrightarrow>
     then_do (requests_response r) (\<lambda>response.
       then_do (raise_for_status response) (\<lambda>_.
       then_do (response_json response) f)) = Inl RequestException"
  by (auto simp: unreadable_def http_defs split: reply.splits payload.splits)

lemma request_failure_cases:
  "request_failure r \<Longrightarrow>
     then_do (requests_response r) (\<lambda>response.
       then_do (raise_for_status response) f) = Inl RequestException"
  by (auto simp: request_failure_def http_defs split: reply.splits)

lemma get_users_unreadable:
  "unreadable (srv tr (users_get_request u t)) \<Longrightarrow> fst (get_users srv u t tr) = Inr (JArr [])"
  by (simp add: get_users_def send_def unreadable_cases except_RequestException_def)

lemma create_user_failure:
  "request_failure (srv tr (users_post_request u t user)) \<Longrightarrow>
     map_of kvs ''userName'' = Some v \<Longrightarrow> user = JObj kvs \<Longrightarrow>
     fst (create_user srv u t user tr) = Inr False"
  by (simp add: create_user_def send_def request_failure_cases except_RequestException_def
      py_getitem_def then_do_Inr)

lemma list_notebooks_unreadable:
  "unreadable (srv tr (list_request u t p)) \<Longrightarrow>
     fst (list_notebooks srv (Suc d) u t p tr) = Inr ([], {})"
  by (simp add: send_def unreadable_cases)

lemma export_notebook_unreadable:
  "unreadable (srv tr (export_request u t p)) \<Longrightarrow> fst (export_notebook srv u t p tr) = Inr None"
  by (simp add: export_notebook_def send_def unreadable_cases except_RequestException_def)

lemma import_notebook_failure:
  "request_failure (srv tr (import_request u t p e)) \<Longrightarrow> b64encode_text c = Inr e \<Longrightarrow>
     fst (import_notebook srv u t p c tr) = Inr False"
  by (simp add: import_notebook_def send_def request_failure_cases except_RequestException_def)

lemma fetch_unreadable:
  "unreadable (srv tr (github_request owner repo p token)) \<Longrightarrow>
     fst (fetch_notebook_from_github srv owner repo p token tr) = Inr None"
  by (simp add: fetch_notebook_from_github_def send_def unreadable_cases
      except_RequestException_def)

lemma import_notebook_mc_failure:
  "request_failure (srv tr (import_request_mc u t (dir @ ''/'' @ name) e)) \<Longrightarrow>
     b64encode_text c = Inr e \<Longrightarrow>
     fst (import_notebook_mc srv u t c name dir tr) = Inr None"
  by (simp add: import_notebook_mc_def send_def request_failure_cases
      except_RequestException_def Let_def)

lemma get_object_status_unreadable:
  "unreadable (srv tr (status_request u t p)) \<Longrightarrow>
     get_object_status srv u t p tr = (Inr JNull, tr @ [status_request u t p])"
  by (auto simp: get_object_status_def unreadable_def http_defs
      split: reply.splits payload.splits)

lemma status_unreadable:
  assumes "unreadable (srv tr (status_request u t p))"
  shows "fst (get_notebook_id srv u t p tr) = Inr JNull
       \<and> fst (get_object_status srv u t p tr) = Inr JNull
       \<and> fst (get_permissions srv u t p tr) = Inr None
       \<and> fst (grant_permissions srv u t p email level cl tr) = Inr False"
  using assms
  by (simp add: get_object_status_unreadable get_permissions_def grant_permissions_def
      get_notebook_id_def send_def unreadable_cases except_RequestException_def)

lemma get_object_status_notebook:
  assumes "srv tr (status_request u t p) = Response st (Json (JObj kvs))"
    and "\<not> (400 \<le> st \<and> st < 600)"
  shows "get_object_status srv u t p tr = (Inr (JObj kvs), tr @ [status_request u t p])"
  using assms by (simp add: get_object_status_def reply_defs)

lemma second_request_failure:
  assumes "srv tr (status_request u t p) = Response st (Json (JObj kvs))"
    and "\<not> (400 \<le> st \<and> st < 600)" and "kvs \<noteq> []"
    and "map_of kvs ''object_type'' = Some (JStr ''NOTEBOOK'')"
    and "map_of kvs ''object_id'' = Some (JInt i)" and "0 \<le> i"
    and "ep = fmt u @ ''/api/2.0/permissions/notebooks/'' @ string_of_nat (nat i)"
  shows "(unreadable (srv (tr @ [status_request u t p]) (permissions_get_request ep t))
            \<longrightarrow> fst (get_permissions srv u t p tr) = Inr (Some []))
       \<and> (request_failure (srv (tr @ [status_request u t p])
                              (permissions_patch_request ep t email level cl))
            \<longrightarrow> fst (grant_permissions srv u t p email level cl tr) = Inr False)"
proof -
  have ep: "then_do (py_get (JObj kvs) ''object_id'' JNull) (\<lambda>object_id.
                  then_do (py_get (JObj kvs) ''object_type'' JNull) (\<lambda>object_type.
                  permissions_endpoint u object_type object_id)) = Inr (Some ep)"
    using assms(4-7)
    by (simp add: py_get_def then_do_Inr permissions_endpoint_def py_str_def
        del: string_of_nat.simps)
  show ?thesis
    using assms(3) ep
    by (simp add: get_permissions_def grant_permissions_def
        get_object_status_notebook[where srv = srv and tr = tr and st = st and kvs = kvs,
          OF assms(1,2)] send_def unreadable_cases
        request_failure_cases except_RequestException_def del: string_of_nat.simps)
qed

text \<open>
  C3 (as amended). Every leaf operation turns a failure of its request into its sentinel
  value and lets no exception out: when the request gets no response or a 4xx or 5xx
  status and, for the operations that read the response body, when the body is not JSON.
  The sentinel is the empty list for the user listing, the empty notebook list and
  directory set for the workspace listing, \<^verbatim>\<open>None\<close> for the two fetches, the status lookups
  and the second script's import, \<^verbatim>\<open>False\<close> for user creation (of a record that has a
  \<^verbatim>\<open>userName\<close>), the first script's import and the permission grant, and the empty mapping
  for a failed permission listing; directory creation returns normally in every case.
\<close>

theorem C3_request_failures_become_sentinels:
  "(unreadable (srv tr (users_get_request u t)) \<longrightarrow> fst (get_users srv u t tr) = Inr (JArr []))
   \<and> (request_failure (srv tr (users_post_request u t (JObj kvs)))
        \<and> map_of kvs ''userName'' = Some v
      \<longrightarrow> fst (create_user srv u t (JObj kvs) tr) = Inr False)
   \<and> (unreadable (srv tr (list_request u t p))
      \<longrightarrow> fst (list_notebooks srv (Suc d) u t p tr) = Inr ([], {}))
   \<and> (unreadable (srv tr (export_request u t p)) \<longrightarrow> fst (export_notebook srv u t p tr) = Inr None)
   \<and> fst (create_directory srv u t p tr) = Inr ()
   \<and> (request_failure (srv tr (import_request u t p e)) \<and> b64encode_text c = Inr e
      \<longrightarrow> fst (import_notebook srv u t p c tr) = Inr False)
   \<and> (unreadable (srv tr (github_request owner repo p token))
      \<longrightarrow> fst (fetch_notebook_from_github srv owner repo p token tr) = Inr None)
   \<and> (request_failure (srv tr (import_request_mc u t (dir @ ''/'' @ name) e))
        \<and> b64encode_text c = Inr e
      \<longrightarrow> fst (import_notebook_mc srv u t c name dir tr) = Inr None)
   \<and> (unreadable (srv tr (status_request u t p))
      \<longrightarrow> fst (get_notebook_id srv u t p tr) = Inr JNull
        \<and> fst (get_object_status srv u t p tr) = Inr JNull
        \<and> fst (get_permissions srv u t p tr) = Inr None
        \<and> fst (grant_permissions srv u t p email level cl tr) = Inr False)
   \<and> (srv tr (status_request u t p) = Response st (Json (JObj skvs))
        \<and> \<not> (400 \<le> st \<and> st < 600) \<and> skvs \<noteq> []
        \<and> map_of skvs ''object_type'' = Some (JStr ''NOTEBOOK'')
        \<and> map_of skvs ''object_id'' = Some (JInt i) \<and> 0 \<le> i
        \<and> ep = fmt u @ ''/api/2.0/permissions/notebooks/'' @ string_of_nat (nat i)
      \<longrightarrow> (unreadable (srv (tr @ [status_request u t p]) (permissions_get_request ep t))
            \<longrightarrow> fst (get_permissions srv u t p tr) = Inr (Some []))
        \<and> (request_failure (srv (tr @ [status_request u t p])
                              (permissions_patch_request ep t email level cl))
            \<longrightarrow> fst (grant_permissions srv u t p email level cl tr) = Inr False))"
proof (intro conjI)
  show "unreadable (srv tr (users_get_request u t)) \<longrightarrow> fst (get_users srv u t tr) = Inr (JArr [])"
    by (simp add: get_users_unreadable)
  show "request_failure (srv tr (users_post_request u t (JObj kvs)))
        \<and> map_of kvs ''userName'' = Some v
      \<longrightarrow> fst (create_user srv u t (JObj kvs) tr) = Inr False"
    using create_user_failure[of srv tr u t "JObj kvs" kvs v] by simp
  show "unreadable (srv tr (list_request u t p))
      \<longrightarrow> fst (list_notebooks srv (Suc d) u t p tr) = Inr ([], {})"
    using list_notebooks_unreadable by blast
  show "unreadable (srv tr (export_request u t p)) \<longrightarrow> fst (export_notebook srv u t p tr) = Inr None"
    by (simp add: export_notebook_unreadable)
  show "fst (create_directory srv u t p tr) = Inr ()"
    by (simp add: create_directory_result)
  show "request_failure (srv tr (import_request u t p e)) \<and> b64encode_text c = Inr e
      \<longrightarrow> fst (import_notebook srv u t p c tr) = Inr False"
    using import_notebook_failure by blast
  show "unreadable (srv tr (github_request owner repo p token))
      \<longrightarrow> fst (fetch_notebook_from_github srv owner repo p token tr) = Inr None"
    by (simp add: fetch_unreadable)
  show "request_failure (srv tr (import_request_mc u t (dir @ ''/'' @ name) e))
        \<and> b64encode_text c = Inr e
      \<longrightarrow> fst (import_notebook_mc srv u t c name dir tr) = Inr None"
    using import_notebook_mc_failure by blast
  show "unreadable (srv tr (status_request u t p))
      \<longrightarrow> fst (get_notebook_id srv u t p tr) = Inr JNull
        \<and> fst (get_object_status srv u t p tr) = Inr JNull
        \<and> fst (get_permissions srv u t p tr) = Inr None
        \<and> fst (grant_permissions srv u t p email level cl tr) = Inr False"
    using status_unreadable by blast
  show "srv tr (status_request u t p) = Response st (Json (JObj skvs))
        \<and> \<not> (400 \<le> st \<and> st < 600) \<and> skvs \<noteq> []
        \<and> map_of skvs ''object_type'' = Some (JStr ''NOTEBOOK'')
        \<and> map_of skvs ''object_id'' = Some (JInt i) \<and> 0 \<le> i
        \<and> ep = fmt u @ ''/api/2.0/permissions/notebooks/'' @ string_of_nat (nat i)
      \<longrightarrow> (unreadable (srv (tr @ [status_request u t p]) (permissions_get_request ep t))
            \<longrightarrow> fst (get_permissions srv u t p tr) = Inr (Some []))
        \<and> (request_failure (srv (tr @ [status_request u t p])
                              (permissions_patch_request ep t email level cl))
            \<longrightarrow> fst (grant_permissions srv u t p email level cl tr) = Inr False)"
    using second_request_failure[of srv tr u t p st skvs i ep email level cl] by blast
qed


theorem C3_request_failures_become_sentinels_witness:
  "fst (get_users down_server (Some ''https://staging'') (Some ''s3cret'') []) = Inr (JArr [])
   \<and> fst (create_user down_server (Some ''https://staging'') (Some ''s3cret'')
            (JObj [(''userName'', JStr ''a@x.org'')]) []) = Inr False
   \<and> fst (list_notebooks down_server (Suc 0) (Some ''https://staging'') (Some ''s3cret'') ''/n1'' [])
       = Inr ([], {})
   \<and> fst (export_notebook down_server (Some ''https://staging'') (Some ''s3cret'') ''/n1'' [])
       = Inr None
   \<and> fst (create_directory down_server (Some ''https://staging'') (Some ''s3cret'') ''/n1'' [])
       = Inr ()
   \<and> fst (import_notebook down_server (Some ''https://staging'') (Some ''s3cret'') ''/n1''
            [104, 105] []) = Inr False
   \<and> fst (fetch_notebook_from_github down_server (Some ''owner'') (Some ''repo'') ''/n1''
            (Some ''ghp'') []) = Inr None
   \<and> fst (import_notebook_mc down_server (Some ''https://staging'') (Some ''s3cret'') [104, 105]
            ''nb.py'' ''/Users'' []) = Inr None
   \<and> fst (get_notebook_id down_server (Some ''https://staging'') (Some ''s3cret'') ''/n1'' [])
       = Inr JNull
   \<and> fst (get_object_status down_server (Some ''https://staging'') (Some ''s3cret'') ''/n1'' [])
       = Inr JNull
   \<and> fst (get_permissions down_server (Some ''https://staging'') (Some ''s3cret'') ''/n1'' [])
       = Inr None
   \<and> fst (grant_permissions down_server (Some ''https://staging'') (Some ''s3cret'') ''/n1''
            ''a@x.org'' (JStr ''CAN_RUN'') None []) = Inr False
   \<and> fst (get_permissions half_server (Some ''https://staging'') (Some ''s3cret'') ''/n1'' [])
       = Inr (Some [])
   \<and> fst (grant_permissions half_server (Some ''https://staging'') (Some ''s3cret'') ''/n1''
            ''a@x.org'' (JStr ''CAN_RUN'') None []) = Inr False"
proof -
  let ?u = "Some ''https://staging''" and ?t = "Some ''s3cret''"
  have d: "\<And>h rq. unreadable (down_server h rq)" "\<And>h rq. request_failure (down_server h rq)"
    by (simp_all add: unreadable_def request_failure_def down_server_def)
  have m: "map_of [(''userName'', JStr ''a@x.org'')] ''userName'' = Some (JStr ''a@x.org'')"
    by simp
  note down = C3_request_failures_become_sentinels[of down_server "[]" ?u ?t
      "[(''userName'', JStr ''a@x.org'')]" "JStr ''a@x.org''" "''/n1''" 0 "''aGk=''" "[104, 105]"
      "Some ''owner''" "Some ''repo''" "Some ''ghp''" "''/Users''" "''nb.py''" "''a@x.org''"
      "JStr ''CAN_RUN''" None]
  have s: "half_server [] (status_request ?u ?t ''/n1'')
      = Response 200 (Json (JObj [(''object_id'', JInt 42), (''object_type'', JStr ''NOTEBOOK'')]))"
    "\<not> (400 \<le> (200::nat) \<and> (200::nat) < 600)"
    "[(''object_id'', JInt 42), (''object_type'', JStr ''NOTEBOOK'')] \<noteq> []"
    "map_of [(''object_id'', JInt 42), (''object_type'', JStr ''NOTEBOOK'')] ''object_type''
      = Some (JStr ''NOTEBOOK'')"
    "map_of [(''object_id'', JInt 42), (''object_type'', JStr ''NOTEBOOK'')] ''object_id''
      = Some (JInt 42)"
    "(0::int) \<le> 42"
    by (simp_all add: half_server_def status_request_def)
  have f: "\<And>ep. unreadable (half_server [status_request ?u ?t ''/n1''] (permissions_get_request ep ?t))"
    "\<And>ep. request_failure (half_server [status_request ?u ?t ''/n1'']
        (permissions_patch_request ep ?t ''a@x.org'' (JStr ''CAN_RUN'') None))"
    by (simp_all add: unreadable_def request_failure_def half_server_def
        permissions_get_request_def permissions_patch_request_def)
  note half = C3_request_failures_become_sentinels[of half_server "[]" ?u ?t _ _ "''/n1''" _ _ _
      _ _ _ _ _ "''a@x.org''" "JStr ''CAN_RUN''" None 200
      "[(''object_id'', JInt 42), (''object_type'', JStr ''NOTEBOOK'')]" 42
      "fmt ?u @ ''/api/2.0/permissions/notebooks/'' @ string_of_nat (nat 42)"]
  show ?thesis
    using down half d m s f hi_encode
    by (simp del: string_of_nat.simps list_notebooks.simps)
qed

text \<open>
  C3 (as stated) fails. An exception that is not a request failure leaves the leaf
  operation: \<^verbatim>\<open>export_notebook\<close> raises \<^verbatim>\<open>binascii.Error\<close> when a successful response
  carries the content \<^verbatim>\<open>"a"\<close>, which is not base64, and \<^verbatim>\<open>create_user\<close> raises \<^verbatim>\<open>KeyError\<close>
  for a user record without \<^verbatim>\<open>userName\<close>, whether the request succeeded or not.
\<close>

theorem C3_counterexample:
  "fst (export_notebook garbled_server (Some ''https://staging'') (Some ''s3cret'') ''/n1'' [])
     = Inl BinasciiError
   \<and> fst (create_user bare_server (Some ''https://preprod'') (Some ''t0ken'')
            (JObj [(''displayName'', JStr ''Ada'')]) []) = Inl KeyError
   \<and> fst (create_user down_server (Some ''https://preprod'') (Some ''t0ken'')
            (JObj [(''displayName'', JStr ''Ada'')]) []) = Inl KeyError"
  by (simp add: export_notebook_def create_user_def garbled_server_def bare_server_def
      down_server_def reply_defs py_getitem_def b64decode_text_def b64decode_def a2b_base64_def
      a2b_def table_b2a_base64_def)

end
